(* ===== verification/Prelude.thy ===== *)
theory Prelude
  imports Complex_Main "HOL-Library.Multiset"
begin

text \<open>
  Shared vocabulary of the development: the JavaScript string built-ins the route
  handlers call (\<open>trim\<close>, \<open>split\<close>, \<open>startsWith\<close>, \<open>replace\<close>), JavaScript
  truthiness and the \<open>x || d\<close> default idiom over nullable values, and the generic
  list lemmas the component theories share. Text is modelled as ASCII \<open>string\<close>s:
  a JavaScript string of ASCII characters is a list of \<open>char\<close>s here, and the
  whitespace class of \<open>trim\<close> and \<open>\s\<close> is its ASCII part (tab, line feed,
  vertical tab, form feed, carriage return, space).
\<close>

named_theorems js_simps \<open>evaluation rules of the modelled JavaScript built-ins\<close>
named_theorems sql_simps \<open>evaluation rules of the modelled warehouse aggregates\<close>

type_synonym session_id = string

section \<open>Character classes\<close>

definition is_js_space :: "char \<Rightarrow> bool" where
  "is_js_space c \<longleftrightarrow> (let n = (of_char c :: nat) in n = 32 \<or> (9 \<le> n \<and> n \<le> 13))"

text \<open>The word characters of a regular-expression word boundary \<open>\b\<close>: \<open>[A-Za-z0-9_]\<close>.\<close>

definition is_word :: "char \<Rightarrow> bool" where
  "is_word c \<longleftrightarrow> (let n = (of_char c :: nat) in
     (48 \<le> n \<and> n \<le> 57) \<or> (65 \<le> n \<and> n \<le> 90) \<or> (97 \<le> n \<and> n \<le> 122) \<or> n = 95)"

definition is_word_opt :: "char option \<Rightarrow> bool" where
  "is_word_opt c = (case c of None \<Rightarrow> False | Some x \<Rightarrow> is_word x)"

text \<open>Case folding of the \<open>i\<close> flag, on ASCII letters.\<close>

definition to_lower :: "char \<Rightarrow> char" where
  "to_lower c = (let n = (of_char c :: nat) in if 65 \<le> n \<and> n \<le> 90 then char_of (n + 32) else c)"

definition nth_opt :: "'a list \<Rightarrow> nat \<Rightarrow> 'a option" where
  "nth_opt xs i = (if i < length xs then Some (xs ! i) else None)"

declare is_js_space_def [js_simps] is_word_def [js_simps] is_word_opt_def [js_simps]
  to_lower_def [js_simps] nth_opt_def [js_simps] char_of_eq_iff [js_simps]

lemma replicate_numeral [js_simps]: "replicate (numeral k) x = x # replicate (pred_numeral k) x"
  by (simp add: numeral_eq_Suc)

lemma space_not_word [simp]: "is_js_space c \<Longrightarrow> \<not> is_word c"
  by (auto simp: is_js_space_def is_word_def Let_def)

lemma is_word_opt_Some [simp]: "is_word_opt (Some c) = is_word c"
  by (simp add: is_word_opt_def)

lemma is_word_opt_None [simp]: "\<not> is_word_opt None"
  by (simp add: is_word_opt_def)

section \<open>String built-ins\<close>

subsection \<open>\<open>String.prototype.trim\<close>\<close>

definition js_trim_start :: "string \<Rightarrow> string" where
  "js_trim_start s = dropWhile is_js_space s"

definition js_trim_end :: "string \<Rightarrow> string" where
  "js_trim_end s = rev (dropWhile is_js_space (rev s))"

definition js_trim :: "string \<Rightarrow> string" where
  "js_trim s = js_trim_end (js_trim_start s)"

declare js_trim_start_def [js_simps] js_trim_end_def [js_simps] js_trim_def [js_simps]

lemma ball_set_dropWhile: "(\<forall>x \<in> set (dropWhile P xs). P x) \<longleftrightarrow> (\<forall>x \<in> set xs. P x)"
  by (induction xs) auto

lemma js_trim_empty_iff: "js_trim s = [] \<longleftrightarrow> (\<forall>c \<in> set s. is_js_space c)"
  by (simp add: js_trim_def js_trim_end_def js_trim_start_def ball_set_dropWhile)

lemma js_trim_start_hd: "js_trim_start s = c # r \<Longrightarrow> \<not> is_js_space c"
  unfolding js_trim_start_def by (metis dropWhile_eq_Cons_conv)

lemma js_trim_no_space_ends:
  assumes "js_trim s = t" and "t \<noteq> []"
  shows "\<not> is_js_space (hd t) \<and> \<not> is_js_space (last t)"
proof -
  let ?u = "dropWhile is_js_space s"
  let ?v = "dropWhile is_js_space (rev ?u)"
  have t: "t = rev ?v"
    using assms(1) by (simp add: js_trim_def js_trim_end_def js_trim_start_def)
  have v: "?v \<noteq> []" using assms(2) t by simp
  have "last t = hd ?v" using t v by (simp add: last_rev)
  then have last: "\<not> is_js_space (last t)" using v by (simp add: hd_dropWhile)
  have "?u = t @ rev (takeWhile is_js_space (rev ?u))"
    by (metis t rev_append rev_rev_ident takeWhile_dropWhile_id)
  then have "hd ?u = hd t" and "?u \<noteq> []" using assms(2) by (metis hd_append2, metis append_is_Nil_conv)
  then have "\<not> is_js_space (hd t)" by (metis hd_dropWhile)
  with last show ?thesis by simp
qed

lemma js_trim_infix: "\<exists>a b. s = a @ js_trim s @ b"
proof -
  let ?u = "dropWhile is_js_space s"
  have "?u = js_trim s @ rev (takeWhile is_js_space (rev ?u))"
    by (simp add: js_trim_def js_trim_end_def js_trim_start_def flip: rev_append)
  then have "s = takeWhile is_js_space s @ js_trim s @ rev (takeWhile is_js_space (rev ?u))"
    by (metis takeWhile_dropWhile_id)
  then show ?thesis by blast
qed

lemma js_trim_id: "t = [] \<or> \<not> is_js_space (hd t) \<and> \<not> is_js_space (last t) \<Longrightarrow> js_trim t = t"
proof (cases t rule: rev_cases)
  case (snoc ys y)
  assume a: "t = [] \<or> \<not> is_js_space (hd t) \<and> \<not> is_js_space (last t)"
  then have "dropWhile is_js_space t = t" using snoc by (cases ys) auto
  moreover have "dropWhile is_js_space (rev t) = rev t" using a snoc by simp
  ultimately show ?thesis by (simp add: js_trim_def js_trim_end_def js_trim_start_def)
qed (simp add: js_trim_def js_trim_end_def js_trim_start_def)

lemma js_trim_spaces_prefix:
  "\<forall>c \<in> set xs. is_js_space c \<Longrightarrow> js_trim (xs @ r) = js_trim r"
  by (simp add: js_trim_def js_trim_start_def dropWhile_append2)

lemma js_trim_idem: "js_trim (js_trim s) = js_trim s"
  by (metis js_trim_id js_trim_no_space_ends)

subsection \<open>\<open>String.prototype.startsWith\<close> and \<open>String.prototype.replace\<close>\<close>

fun starts_with :: "string \<Rightarrow> string \<Rightarrow> bool" where
  "starts_with s [] = True"
| "starts_with [] (p # ps) = False"
| "starts_with (c # cs) (p # ps) = (c = p \<and> starts_with cs ps)"

lemma starts_with_iff: "starts_with s p \<longleftrightarrow> (\<exists>r. s = p @ r)"
  by (induction s p rule: starts_with.induct) auto

text \<open>\<open>s.replace(pat, rep)\<close> with a string pattern replaces the first occurrence only.\<close>

fun replace_first :: "string \<Rightarrow> string \<Rightarrow> string \<Rightarrow> string" where
  "replace_first pat rep [] = (if pat = [] then rep else [])"
| "replace_first pat rep (c # cs) =
     (if starts_with (c # cs) pat then rep @ drop (length pat) (c # cs)
      else c # replace_first pat rep cs)"

lemma starts_with_append [simp]: "starts_with (p @ r) p"
  by (simp add: starts_with_iff)

lemma replace_first_starts:
  "starts_with s pat \<Longrightarrow> replace_first pat rep s = rep @ drop (length pat) s"
  by (cases s) (auto simp: starts_with_iff)

lemma replace_first_prefix [simp]: "replace_first pat rep (pat @ s) = rep @ s"
  by (simp add: replace_first_starts)

lemma replace_first_absent:
  "(\<nexists>a b. s = a @ pat @ b) \<Longrightarrow> replace_first pat rep s = s"
proof (induction s)
  case Nil
  then show ?case by (cases pat) auto
next
  case (Cons c cs)
  have "\<not> starts_with (c # cs) pat"
    using Cons.prems by (metis append_Nil starts_with_iff)
  moreover have "\<nexists>a b. cs = a @ pat @ b"
    using Cons.prems by (metis append_Cons)
  ultimately show ?case using Cons.IH by simp
qed

subsection \<open>\<open>String.prototype.split\<close> with a one-character separator\<close>

fun split_on :: "char \<Rightarrow> string \<Rightarrow> string list" where
  "split_on d [] = [[]]"
| "split_on d (c # cs) =
     (if c = d then [] # split_on d cs
      else (case split_on d cs of w # ws \<Rightarrow> (c # w) # ws | [] \<Rightarrow> [[c]]))"

lemma split_on_not_Nil [simp]: "split_on d s \<noteq> []"
  by (induction s) (auto split: list.split)

lemma split_on_pieces: "w \<in> set (split_on d s) \<Longrightarrow> d \<notin> set w"
proof (induction s arbitrary: w)
  case Nil
  then show ?case by simp
next
  case (Cons c cs)
  show ?case
  proof (cases "c = d")
    case True
    with Cons show ?thesis by auto
  next
    case False
    then obtain v vs where sp: "split_on d cs = v # vs"
      by (cases "split_on d cs") auto
    with False Cons.prems have "w = c # v \<or> w \<in> set vs" by simp
    with False Cons.IH sp show ?thesis by auto
  qed
qed

subsection \<open>\<open>Array.prototype.join\<close> and truthiness\<close>

fun js_join :: "string \<Rightarrow> string list \<Rightarrow> string" where
  "js_join sep [] = []"
| "js_join sep [x] = x"
| "js_join sep (x # y # xs) = x @ sep @ js_join sep (y # xs)"

text \<open>Truthiness of an optional string: an absent property and the empty string are
  falsy.\<close>

definition js_truthy :: "string option \<Rightarrow> bool" where
  "js_truthy v = (case v of None \<Rightarrow> False | Some s \<Rightarrow> s \<noteq> [])"

declare js_truthy_def [js_simps]

lemma js_join_Cons: "xs \<noteq> [] \<Longrightarrow> js_join sep (x # xs) = x @ sep @ js_join sep xs"
  by (cases xs) simp_all

lemma js_join_append:
  "xs \<noteq> [] \<Longrightarrow> ys \<noteq> [] \<Longrightarrow> js_join sep (xs @ ys) = js_join sep xs @ sep @ js_join sep ys"
  by (induction sep xs rule: js_join.induct) (simp_all add: js_join_Cons)

subsection \<open>\<open>String.prototype.endsWith\<close> and \<open>String.prototype.includes\<close>\<close>

definition ends_with :: "string \<Rightarrow> string \<Rightarrow> bool" where
  "ends_with s suf = starts_with (rev s) (rev suf)"

fun contains :: "string \<Rightarrow> string \<Rightarrow> bool" where
  "contains [] p = (p = [])"
| "contains (c # cs) p = (starts_with (c # cs) p \<or> contains cs p)"

declare ends_with_def [js_simps]

lemma ends_with_iff: "ends_with s suf \<longleftrightarrow> (\<exists>r. s = r @ suf)"
  by (auto simp: ends_with_def starts_with_iff) (metis rev_append rev_rev_ident)

lemma ends_with_append [simp]: "ends_with (s @ suf) suf"
  by (simp add: ends_with_iff)

lemma contains_iff: "contains s p \<longleftrightarrow> (\<exists>a b. s = a @ p @ b)"
proof (induction s)
  case Nil
  then show ?case by auto
next
  case (Cons c cs)
  have "(\<exists>a b. c # cs = a @ p @ b) \<longleftrightarrow> starts_with (c # cs) p \<or> (\<exists>a b. cs = a @ p @ b)"
    by (auto simp: starts_with_iff Cons_eq_append_conv)
  with Cons.IH show ?case by simp
qed

text \<open>Replacing the first occurrence of \<open>pat\<close> in \<open>s @ pat\<close> strips the appended copy
  when no occurrence starts inside \<open>s\<close>.\<close>

lemma replace_first_append_last:
  "(\<forall>i < length s. \<not> starts_with (drop i s @ pat) pat) \<Longrightarrow> replace_first pat rep (s @ pat) = s @ rep"
proof (induction s)
  case Nil
  show ?case using replace_first_prefix [of pat rep "[]"] by simp
next
  case (Cons c cs)
  have "\<not> starts_with (c # cs @ pat) pat" using Cons.prems by (metis append_Cons drop0 length_Cons zero_less_Suc)
  moreover have "\<forall>i < length cs. \<not> starts_with (drop i cs @ pat) pat"
    using Cons.prems by (metis Suc_mono drop_Suc_Cons length_Cons)
  ultimately show ?case using Cons.IH by simp
qed

lemma find_Some_mem: "find P xs = Some x \<Longrightarrow> x \<in> set xs \<and> P x"
  by (auto simp: find_Some_iff)

lemma insort_key_map: "insort_key f (g x) (map g xs) = map g (insort_key (f \<circ> g) x xs)"
  by (induction xs) auto

lemma sort_key_map: "sort_key f (map g xs) = map g (sort_key (f \<circ> g) xs)"
  by (induction xs) (simp_all add: insort_key_map comp_def)

lemma sorted_wrt_take_drop_sk:
  "sorted_wrt R xs \<Longrightarrow> x \<in> set (take n xs) \<Longrightarrow> y \<in> set (drop n xs) \<Longrightarrow> R x y"
  by (metis append_take_drop_id sorted_wrt_append)

lemma take_sort_key_top:
  fixes f :: "'a \<Rightarrow> 'b::linorder"
  assumes "x \<in> set xs" and "x \<notin> set (take n (sort_key f xs))"
  shows "length (take n (sort_key f xs)) = n \<and> (\<forall>y \<in> set (take n (sort_key f xs)). f y \<le> f x)"
proof -
  let ?o = "sort_key f xs"
  have "x \<in> set ?o" using assms(1) by simp
  then have x: "x \<in> set (drop n ?o)" using assms(2) by (metis append_take_drop_id Un_iff set_append)
  then have "n < length ?o" by (metis drop_all empty_iff list.set(1) not_le_imp_less)
  moreover have "sorted_wrt (\<lambda>a b. f a \<le> f b) ?o"
    using sorted_sort_key [of f xs] by (simp add: sorted_map)
  then have "\<forall>y \<in> set (take n ?o). f y \<le> f x" using x by (blast dest: sorted_wrt_take_drop_sk)
  ultimately show ?thesis by simp
qed

lemma length_filter_remove1:
  "q \<in> set xs \<Longrightarrow> length (filter P (remove1 q xs)) + (if P q then 1 else 0) = length (filter P xs)"
  by (induction xs) auto

lemma in_set_remove1_in: "x \<in> set (remove1 y xs) \<Longrightarrow> x \<in> set xs"
  by (meson set_remove1_subset subsetD)

lemma sorted_wrt_desc_hd:
  fixes f :: "'a \<Rightarrow> 'b::order"
  shows "sorted_wrt (\<lambda>x y. f y \<le> f x) xs \<Longrightarrow> x \<in> set xs \<Longrightarrow> f x \<le> f (hd xs)"
  by (cases xs) fastforce+

lemma fold_max_ge: "a \<le> fold max xs (a::nat) \<and> (\<forall>x \<in> set xs. x \<le> fold max xs a)"
proof (induction xs arbitrary: a)
  case Nil
  show ?case by simp
next
  case (Cons y ys)
  from Cons.IH [of "max y a"] show ?case by auto
qed

end
