(* ===== verification/Transcript_Format.thy ===== *)
theory Transcript_Format
  imports Prelude
begin

text \<open>
  The transcript formatter of \<open>GET /api/transcript\<close>
  (\<open>src/app/api/transcript/route.js\<close>, the \<open>lines\<close> and \<open>messages\<close> computation of
  \<open>GET\<close>): the raw transcript is split at line feeds, blank lines are dropped, each
  line is tagged with a speaker by its \<open>Agent:\<close> or \<open>Customer:\<close> prefix, the
  artifact word \<open>asterisk\<close> is removed (regular expression \<open>/\basterisk\b/gi\<close>),
  runs of whitespace are collapsed (\<open>/\s+/g\<close>) and the text is trimmed. Every message
  carries the placeholder sentiment \<open>Neutral\<close> and the one display time computed from
  the transcript's \<open>transcribedAt\<close>, which is a parameter here.
\<close>

section \<open>Messages\<close>

datatype role = Agent | Customer

definition role_str :: "role \<Rightarrow> string" where
  "role_str r = (case r of Agent \<Rightarrow> ''agent'' | Customer \<Rightarrow> ''customer'')"

record message =
  msg_role :: role
  msg_text :: string
  msg_sentiment :: string
  msg_time :: string

section \<open>Removing the artifact word\<close>

text \<open>
  A match of \<open>/\basterisk\b/i\<close> at the start of \<open>s\<close>, the character before being
  \<open>p\<close> (\<open>None\<close> at the start of the input): a word boundary before (\<open>a\<close> is a word
  character, so \<open>p\<close> is not), the eight letters in either case, and a word boundary
  after (the ninth character, if any, is not a word character).
\<close>

definition asterisk_at :: "char option \<Rightarrow> string \<Rightarrow> bool" where
  "asterisk_at p s \<longleftrightarrow>
     \<not> is_word_opt p \<and> 8 \<le> length s \<and> map to_lower (take 8 s) = ''asterisk''
     \<and> \<not> is_word_opt (nth_opt s 8)"

text \<open>
  \<open>text.replace(/\basterisk\b/gi, '')\<close>: a global replace scans left to right, deletes
  each match and resumes after it; the boundary assertions read the input, so the
  character before the next position is always the input's.
\<close>

function strip_asterisk :: "char option \<Rightarrow> string \<Rightarrow> string" where
  "strip_asterisk p [] = []"
| "strip_asterisk p (c # cs) =
     (if asterisk_at p (c # cs) then strip_asterisk (Some ((c # cs) ! 7)) (drop 8 (c # cs))
      else c # strip_asterisk (Some c) cs)"
  by pat_completeness auto
termination
  by (relation "measure (\<lambda>(p, s). length s)") auto

text \<open>\<open>text.replace(/\s+/g, ' ')\<close>: every maximal run of whitespace becomes one space.\<close>

function collapse_ws :: "string \<Rightarrow> string" where
  "collapse_ws [] = []"
| "collapse_ws (c # cs) =
     (if is_js_space c then CHR '' '' # collapse_ws (dropWhile is_js_space cs)
      else c # collapse_ws cs)"
  by pat_completeness auto
termination
  by (relation "measure length") (auto simp: le_imp_less_Suc length_dropWhile_le)

definition clean_text :: "string \<Rightarrow> string" where
  "clean_text t = js_trim (collapse_ws (strip_asterisk None t))"

section \<open>Lines and speakers\<close>

definition classify_line :: "string \<Rightarrow> role \<times> string" where
  "classify_line line =
     (if starts_with line ''Agent:'' then (Agent, js_trim (replace_first ''Agent:'' [] line))
      else if starts_with line ''Customer:'' then (Customer, js_trim (replace_first ''Customer:'' [] line))
      else (Agent, line))"

definition format_line :: "string \<Rightarrow> string \<Rightarrow> message" where
  "format_line time line =
     (case classify_line line of (r, t) \<Rightarrow>
        \<lparr>msg_role = r, msg_text = clean_text t, msg_sentiment = ''Neutral'', msg_time = time\<rparr>)"

definition transcript_lines :: "string \<Rightarrow> string list" where
  "transcript_lines tr = filter (\<lambda>l. js_trim l \<noteq> []) (split_on (CHR 0x0A) tr)"

definition format_messages :: "string \<Rightarrow> string \<Rightarrow> message list" where
  "format_messages time tr = map (format_line time) (transcript_lines tr)"

section \<open>A test for a remaining match\<close>

text \<open>\<open>/\basterisk\b/i.test(s)\<close>, with \<open>p\<close> the character before \<open>s\<close>.\<close>

fun has_asterisk :: "char option \<Rightarrow> string \<Rightarrow> bool" where
  "has_asterisk p [] = False"
| "has_asterisk p (c # cs) = (asterisk_at p (c # cs) \<or> has_asterisk (Some c) cs)"

section \<open>Whitespace normal form\<close>

fun no_double_space :: "string \<Rightarrow> bool" where
  "no_double_space (a # b # r) = (\<not> (is_js_space a \<and> is_js_space b) \<and> no_double_space (b # r))"
| "no_double_space _ = True"

text \<open>Text as the formatter leaves it: plain spaces only, never two in a row, none at
  either end.\<close>

definition ws_normal :: "string \<Rightarrow> bool" where
  "ws_normal s \<longleftrightarrow>
     (\<forall>c \<in> set s. is_js_space c \<longrightarrow> c = CHR '' '') \<and> no_double_space s \<and> js_trim s = s"

section \<open>Lemmas on the removal\<close>

lemma to_lower_word: "is_word (to_lower c) \<Longrightarrow> is_word c"
  by (auto simp: to_lower_def is_word_def Let_def)

lemma lower_asterisk_words:
  assumes "map to_lower w = ''asterisk''"
  shows "\<forall>c \<in> set w. is_word c"
proof
  fix c assume "c \<in> set w"
  then have "to_lower c \<in> set ''asterisk''" using assms by (metis image_eqI list.set_map)
  then have "is_word (to_lower c)" by (auto simp: is_word_def)
  then show "is_word c" by (rule to_lower_word)
qed

text \<open>
  The regular-expression reading of a match and the word-run reading agree: a match
  starts where the maximal run of word characters is \<open>asterisk\<close> in either case and
  the character before is not a word character.
\<close>

lemma asterisk_at_takeWhile:
  "asterisk_at p s \<longleftrightarrow> \<not> is_word_opt p \<and> map to_lower (takeWhile is_word s) = ''asterisk''"
proof
  assume a: "asterisk_at p s"
  then have len: "8 \<le> length s" and low: "map to_lower (take 8 s) = ''asterisk''"
    and nxt: "\<not> is_word_opt (nth_opt s 8)" and p: "\<not> is_word_opt p"
    by (auto simp: asterisk_at_def)
  have w: "\<forall>c \<in> set (take 8 s). is_word c" using low by (rule lower_asterisk_words)
  have "takeWhile is_word s = take 8 s"
  proof (rule takeWhile_eq_take_P_nth)
    fix i assume "i < 8" "i < length s"
    then show "is_word (s ! i)" using w by (metis in_set_conv_nth length_take min_less_iff_conj nth_take)
  next
    assume "8 < length s"
    then show "\<not> is_word (s ! 8)" using nxt by (simp add: nth_opt_def)
  qed
  with low p show "\<not> is_word_opt p \<and> map to_lower (takeWhile is_word s) = ''asterisk''" by simp
next
  assume b: "\<not> is_word_opt p \<and> map to_lower (takeWhile is_word s) = ''asterisk''"
  then have "length (map to_lower (takeWhile is_word s)) = length ''asterisk''" by simp
  then have l8: "length (takeWhile is_word s) = 8" by simp
  have tk: "take 8 s = takeWhile is_word s" by (metis l8 takeWhile_eq_take)
  have len: "8 \<le> length s" by (metis l8 length_takeWhile_le)
  have "\<not> is_word_opt (nth_opt s 8)"
  proof (cases "8 < length s")
    case True
    then show ?thesis using nth_length_takeWhile [of is_word s] l8 by (simp add: nth_opt_def)
  next
    case False
    then show ?thesis by (simp add: nth_opt_def)
  qed
  with b tk len show "asterisk_at p s" by (simp add: asterisk_at_def)
qed

lemma asterisk_at_prev:
  "is_word_opt p = is_word_opt p' \<Longrightarrow> asterisk_at p s = asterisk_at p' s"
  by (simp add: asterisk_at_def)

lemma has_asterisk_prev:
  "is_word_opt p = is_word_opt p' \<Longrightarrow> has_asterisk p s = has_asterisk p' s"
  by (cases s) (simp_all add: asterisk_at_def)

lemma asterisk_at_non_word [simp]: "\<not> is_word c \<Longrightarrow> \<not> asterisk_at p (c # cs)"
  by (simp add: asterisk_at_takeWhile)

lemma space_char_not_word [simp]: "\<not> is_word (CHR '' '')"
  by (simp add: is_word_def)

lemma takeWhile_append_stop: "takeWhile P ys = [] \<Longrightarrow> takeWhile P (xs @ ys) = takeWhile P xs"
  by (induction xs) auto

text \<open>Where no match starts, the scan keeps the input as it is.\<close>

lemma strip_asterisk_no_match: "\<not> has_asterisk p s \<Longrightarrow> strip_asterisk p s = s"
  by (induction p s rule: strip_asterisk.induct) auto

text \<open>After a word character no match can start, so the run of word characters that
  follows it is kept.\<close>

lemma takeWhile_strip_asterisk:
  "is_word_opt p \<Longrightarrow> takeWhile is_word (strip_asterisk p s) = takeWhile is_word s"
proof (induction p s rule: strip_asterisk.induct)
  case (1 p)
  then show ?case by simp
next
  case (2 p c cs)
  then have "\<not> asterisk_at p (c # cs)" by (simp add: asterisk_at_def)
  with 2 show ?case by auto
qed

lemma drop8_boundary:
  "asterisk_at p s \<Longrightarrow> drop 8 s = [] \<or> \<not> is_word (hd (drop 8 s))"
  by (cases "8 < length s") (auto simp: asterisk_at_def nth_opt_def hd_drop_conv_nth)

lemma asterisk_at_word_hd: "asterisk_at p (c # cs) \<Longrightarrow> is_word c"
  by (metis asterisk_at_non_word)

text \<open>
  No match is left in the output of the scan. The character before the output is
  \<open>q\<close>; it may differ from the input's \<open>p\<close>, but not in a way that matters: either
  both are word characters or neither is, or the input does not start with a word
  character (which is the case right after a deleted match).
\<close>

lemma strip_asterisk_clears:
  "is_word_opt q = is_word_opt p \<or> s = [] \<or> \<not> is_word (hd s) \<Longrightarrow>
   \<not> has_asterisk q (strip_asterisk p s)"
proof (induction p s arbitrary: q rule: strip_asterisk.induct)
  case (1 p)
  then show ?case by simp
next
  case (2 p c cs)
  show ?case
  proof (cases "asterisk_at p (c # cs)")
    case True
    have "drop 8 (c # cs) = [] \<or> \<not> is_word (hd (drop 8 (c # cs)))"
      using True by (rule drop8_boundary)
    then have "\<not> has_asterisk q (strip_asterisk (Some ((c # cs) ! 7)) (drop 8 (c # cs)))"
      using "2.IH"(1) True by blast
    with True show ?thesis by simp
  next
    case False
    let ?x = "strip_asterisk (Some c) cs"
    have rest: "\<not> has_asterisk (Some c) ?x" using "2.IH"(2) False by blast
    have "\<not> asterisk_at q (c # ?x)"
    proof (cases "is_word c")
      case False
      then show ?thesis by (simp add: asterisk_at_non_word)
    next
      case True
      then have qp: "is_word_opt q = is_word_opt p" using "2.prems" by simp
      have "takeWhile is_word ?x = takeWhile is_word cs"
        using True by (simp add: takeWhile_strip_asterisk)
      then have "asterisk_at q (c # ?x) = asterisk_at p (c # cs)"
        using True qp by (simp add: asterisk_at_takeWhile)
      with False show ?thesis by simp
    qed
    with rest False show ?thesis by simp
  qed
qed

lemma has_asterisk_non_word_Cons:
  "\<not> is_word c \<Longrightarrow> has_asterisk p (c # cs) = has_asterisk (Some c) cs"
  by (simp add: asterisk_at_non_word)

lemma has_asterisk_dropWhile_space:
  "\<not> is_word_opt p \<Longrightarrow> has_asterisk p (dropWhile is_js_space s) \<Longrightarrow> has_asterisk p s"
proof (induction s arbitrary: p)
  case Nil
  then show ?case by simp
next
  case (Cons c cs)
  show ?case
  proof (cases "is_js_space c")
    case True
    then have "has_asterisk p cs" using Cons by simp
    moreover have "is_word_opt (Some c) = is_word_opt p" using True Cons.prems(1) by simp
    ultimately have "has_asterisk (Some c) cs" using has_asterisk_prev by blast
    with True show ?thesis by (simp add: has_asterisk_non_word_Cons)
  next
    case False
    then show ?thesis using Cons.prems(2) by simp
  qed
qed

lemma takeWhile_collapse_ws: "takeWhile is_word (collapse_ws s) = takeWhile is_word s"
  by (induction s rule: collapse_ws.induct) auto

text \<open>Collapsing whitespace creates no match: it only rewrites non-word characters.\<close>

lemma has_asterisk_collapse_ws: "has_asterisk p (collapse_ws s) \<Longrightarrow> has_asterisk p s"
proof (induction s arbitrary: p rule: collapse_ws.induct)
  case 1
  then show ?case by simp
next
  case (2 c cs)
  show ?case
  proof (cases "is_js_space c")
    case True
    have sp: "\<not> is_word (CHR '' '')" by simp
    from True "2.prems" have "has_asterisk (Some (CHR '' '')) (collapse_ws (dropWhile is_js_space cs))"
      by simp
    then have "has_asterisk (Some (CHR '' '')) (dropWhile is_js_space cs)"
      using "2.IH"(1) True by blast
    then have "has_asterisk (Some (CHR '' '')) cs"
      using has_asterisk_dropWhile_space [of "Some (CHR '' '')"] by simp
    moreover have "is_word_opt (Some c) = is_word_opt (Some (CHR '' ''))" using True by simp
    ultimately have "has_asterisk (Some c) cs" using has_asterisk_prev by blast
    with True show ?thesis by (simp add: has_asterisk_non_word_Cons)
  next
    case False
    have "asterisk_at p (c # collapse_ws cs) = asterisk_at p (c # cs)"
      by (simp add: asterisk_at_takeWhile takeWhile_collapse_ws)
    with False "2.prems" "2.IH"(2) show ?thesis by auto
  qed
qed

lemma has_asterisk_append_boundary:
  "t = [] \<or> \<not> is_word (hd t) \<Longrightarrow> has_asterisk p u \<Longrightarrow> has_asterisk p (u @ t)"
proof (induction u arbitrary: p)
  case Nil
  then show ?case by simp
next
  case (Cons c cs)
  have "takeWhile is_word t = []" using Cons.prems(1) by (cases t) auto
  then have "asterisk_at p ((c # cs) @ t) = asterisk_at p (c # cs)"
    by (simp only: asterisk_at_takeWhile takeWhile_append_stop)
  then have "asterisk_at p (c # cs) \<Longrightarrow> asterisk_at p (c # cs @ t)" by simp
  with Cons show ?case by auto
qed

lemma has_asterisk_trim_end: "has_asterisk p (js_trim_end s) \<Longrightarrow> has_asterisk p s"
proof -
  let ?t = "rev (takeWhile is_js_space (rev s))"
  assume a: "has_asterisk p (js_trim_end s)"
  have s: "s = js_trim_end s @ ?t"
    by (simp add: js_trim_end_def flip: rev_append)
  have "?t = [] \<or> \<not> is_word (hd ?t)"
  proof (cases "?t")
    case (Cons x xs)
    then have "x \<in> set (takeWhile is_js_space (rev s))" by (metis list.set_intros(1) set_rev)
    then have "is_js_space x" by (rule set_takeWhileD [THEN conjunct2])
    then show ?thesis using Cons by simp
  qed simp
  then show ?thesis using has_asterisk_append_boundary a s by metis
qed

lemma has_asterisk_trim: "has_asterisk None (js_trim s) \<Longrightarrow> has_asterisk None s"
proof -
  assume "has_asterisk None (js_trim s)"
  then have "has_asterisk None (dropWhile is_js_space s)"
    unfolding js_trim_def js_trim_start_def by (rule has_asterisk_trim_end)
  then show ?thesis using has_asterisk_dropWhile_space [of None] by simp
qed

text \<open>The cleaned text of a message contains no whole-word \<open>asterisk\<close> in any case.\<close>

lemma clean_text_no_asterisk: "\<not> has_asterisk None (clean_text t)"
proof
  assume "has_asterisk None (clean_text t)"
  then have "has_asterisk None (strip_asterisk None t)"
    unfolding clean_text_def by (auto dest: has_asterisk_trim has_asterisk_collapse_ws)
  moreover have "\<not> has_asterisk None (strip_asterisk None t)"
    by (rule strip_asterisk_clears) simp
  ultimately show False by simp
qed

lemma no_double_space_Cons: "no_double_space (c # cs) \<Longrightarrow> no_double_space cs"
  by (cases cs) auto

lemma no_double_space_append:
  "no_double_space (xs @ ys) \<Longrightarrow> no_double_space xs \<and> no_double_space ys"
proof (induction xs)
  case Nil
  then show ?case by simp
next
  case (Cons x xs)
  then have "no_double_space xs \<and> no_double_space ys" by (auto dest: no_double_space_Cons)
  moreover have "no_double_space (x # xs)"
    using Cons.prems \<open>no_double_space xs \<and> no_double_space ys\<close> by (cases xs) auto
  ultimately show ?case by simp
qed

lemma collapse_ws_id:
  "(\<forall>c \<in> set s. is_js_space c \<longrightarrow> c = CHR '' '') \<Longrightarrow> no_double_space s \<Longrightarrow> collapse_ws s = s"
proof (induction s rule: collapse_ws.induct)
  case 1
  then show ?case by simp
next
  case (2 c cs)
  have "no_double_space cs" using "2.prems"(2) by (rule no_double_space_Cons)
  moreover have "is_js_space c \<Longrightarrow> dropWhile is_js_space cs = cs"
    using "2.prems"(2) by (cases cs) auto
  ultimately show ?case using 2 by auto
qed

lemma collapse_ws_spaces: "c \<in> set (collapse_ws s) \<Longrightarrow> is_js_space c \<Longrightarrow> c = CHR '' ''"
  by (induction s rule: collapse_ws.induct) (auto split: if_splits dest: set_dropWhileD)

lemma collapse_ws_hd: "s \<noteq> [] \<Longrightarrow> collapse_ws s \<noteq> [] \<and> hd (collapse_ws s) = (if is_js_space (hd s) then CHR '' '' else hd s)"
  by (cases s) auto

lemma collapse_ws_no_double: "no_double_space (collapse_ws s)"
proof (induction s rule: collapse_ws.induct)
  case 1
  then show ?case by simp
next
  case (2 c cs)
  show ?case
  proof (cases "is_js_space c")
    case True
    let ?d = "dropWhile is_js_space cs"
    have "collapse_ws ?d = [] \<or> \<not> is_js_space (hd (collapse_ws ?d))"
    proof (cases "?d = []")
      case False
      then have "\<not> is_js_space (hd ?d)" by (metis hd_dropWhile)
      with collapse_ws_hd [OF False] show ?thesis by simp
    qed (metis collapse_ws.simps(1))
    with True "2.IH"(1) show ?thesis by (cases "collapse_ws ?d") auto
  next
    case False
    with "2.IH"(2) show ?thesis by (cases "collapse_ws cs") auto
  qed
qed

lemma ws_normal_js_trim:
  assumes "\<forall>c \<in> set s. is_js_space c \<longrightarrow> c = CHR '' ''" and "no_double_space s"
  shows "ws_normal (js_trim s)"
proof -
  obtain a b where s: "s = a @ js_trim s @ b" using js_trim_infix by blast
  then have "no_double_space (js_trim s)"
    using assms(2) by (metis no_double_space_append)
  moreover have "set (js_trim s) \<subseteq> set s" using s by (metis Un_upper1 Un_upper2 order_trans set_append)
  ultimately show ?thesis using assms(1) by (auto simp: ws_normal_def js_trim_idem)
qed

text \<open>The formatter's output is in normal form, and text already in normal form with no
  match is kept as it is.\<close>

lemma clean_text_ws_normal: "ws_normal (clean_text t)"
  unfolding clean_text_def
  by (rule ws_normal_js_trim) (auto simp: collapse_ws_spaces collapse_ws_no_double)

lemma clean_text_fixpoint: "ws_normal s \<Longrightarrow> \<not> has_asterisk None s \<Longrightarrow> clean_text s = s"
  by (simp add: clean_text_def strip_asterisk_no_match collapse_ws_id ws_normal_def)

lemma strip_asterisk_length: "length (strip_asterisk p s) \<le> length s"
  by (induction p s rule: strip_asterisk.induct) auto

lemma strip_asterisk_shorter: "has_asterisk p s \<Longrightarrow> length (strip_asterisk p s) < length s"
proof (induction p s rule: strip_asterisk.induct)
  case (1 p)
  then show ?case by simp
next
  case (2 p c cs)
  show ?case
  proof (cases "asterisk_at p (c # cs)")
    case True
    then have "8 \<le> length (c # cs)" by (simp add: asterisk_at_def)
    moreover have "length (strip_asterisk (Some ((c # cs) ! 7)) (drop 8 (c # cs))) \<le> length (drop 8 (c # cs))"
      by (rule strip_asterisk_length)
    ultimately show ?thesis using True by simp
  next
    case False
    with "2.prems" "2.IH"(2) show ?thesis by simp
  qed
qed

lemma ws_normal_hd: "ws_normal r \<Longrightarrow> r = [] \<or> \<not> is_js_space (hd r)"
  unfolding ws_normal_def by (metis js_trim_no_space_ends)

lemma classify_line_agent: "classify_line (''Agent: '' @ r) = (Agent, js_trim (CHR '' '' # r))"
  by (simp add: classify_line_def)

lemma classify_line_customer: "classify_line (''Customer: '' @ r) = (Customer, js_trim (CHR '' '' # r))"
  by (simp add: classify_line_def)

lemma format_line_clean_rest:
  assumes "classify_line l = (rl, js_trim (CHR '' '' # r))"
    and "ws_normal r" and "\<not> has_asterisk None r"
  shows "format_line time l =
           \<lparr>msg_role = rl, msg_text = r, msg_sentiment = ''Neutral'', msg_time = time\<rparr>"
proof -
  have "js_trim (CHR '' '' # r) = r"
    using js_trim_spaces_prefix [of "[CHR '' '']" r] assms(2)
    by (simp add: ws_normal_def is_js_space_def)
  moreover have "clean_text r = r" using assms(2,3) by (rule clean_text_fixpoint)
  ultimately show ?thesis using assms(1) by (simp add: format_line_def)
qed

section \<open>Properties of the formatter\<close>

text \<open>
  C3: A line \<open>Agent: text\<close> becomes an agent turn and a line \<open>Customer: text\<close> a
  customer turn whose text is \<open>text\<close> itself, when that text is already clean
  (single plain spaces, none at either end, no whole-word \<open>asterisk\<close>); the turn
  carries the placeholder sentiment \<open>Neutral\<close> and the shared display time.
\<close>

theorem format_line_speaker_prefix:
  assumes "ws_normal r" and "\<not> has_asterisk None r"
  shows "format_line time (''Agent: '' @ r) =
           \<lparr>msg_role = Agent, msg_text = r, msg_sentiment = ''Neutral'', msg_time = time\<rparr>
       \<and> format_line time (''Customer: '' @ r) =
           \<lparr>msg_role = Customer, msg_text = r, msg_sentiment = ''Neutral'', msg_time = time\<rparr>"
  using format_line_clean_rest [OF classify_line_agent assms]
    format_line_clean_rest [OF classify_line_customer assms] by simp

theorem format_line_speaker_prefix_witness:
  "format_line ''8:15:23 AM'' ''Agent: Hello'' =
     \<lparr>msg_role = Agent, msg_text = ''Hello'', msg_sentiment = ''Neutral'', msg_time = ''8:15:23 AM''\<rparr>
   \<and> format_line ''8:15:23 AM'' ''Customer: Hi'' =
     \<lparr>msg_role = Customer, msg_text = ''Hi'', msg_sentiment = ''Neutral'', msg_time = ''8:15:23 AM''\<rparr>"
proof -
  have "ws_normal ''Hello'' \<and> \<not> has_asterisk None ''Hello''"
    and "ws_normal ''Hi'' \<and> \<not> has_asterisk None ''Hi''"
    by (simp_all add: ws_normal_def asterisk_at_def js_simps)
  then show ?thesis
    using format_line_speaker_prefix [of "''Hello''" "''8:15:23 AM''"]
      format_line_speaker_prefix [of "''Hi''" "''8:15:23 AM''"] by simp
qed




text \<open>
  Cleaning is idempotent: a cleaned text is cleaned to itself.
\<close>

theorem clean_text_idempotent: "clean_text (clean_text t) = clean_text t"
  by (simp add: clean_text_fixpoint clean_text_ws_normal clean_text_no_asterisk)

end
