(* ===== verification/Sql.thy ===== *)
theory Sql
  imports Prelude
begin

text \<open>
  The semantics of the warehouse SQL the analytics queries are written in (BigQuery
  standard SQL), on a table given as a list of rows: a nullable column is an
  \<open>option\<close>, \<open>COUNTIF\<close> counts the rows whose condition is true (a \<open>NULL\<close>
  comparison is not), \<open>AVG\<close> and \<open>SUM\<close> range over the non-\<open>NULL\<close> values and are
  \<open>NULL\<close> when there is none, \<open>GROUP BY\<close> with \<open>COUNT(*)\<close> yields one row per
  distinct key (listed here in order of first appearance, the engine's order being
  unspecified), \<open>ORDER BY ... DESC\<close> is a stable sort on the negated key and
  \<open>LIMIT\<close> a prefix. These are the engine's rules, not code of the repository.
\<close>

section \<open>Definitions\<close>

definition non_null :: "'a option list \<Rightarrow> 'a list" where
  "non_null xs = [v. Some v \<leftarrow> xs]"

definition count_if :: "('r \<Rightarrow> bool) \<Rightarrow> 'r list \<Rightarrow> nat" where
  "count_if P rs = length (filter P rs)"

definition sql_avg :: "real option list \<Rightarrow> real option" where
  "sql_avg xs = (case non_null xs of [] \<Rightarrow> None | vs \<Rightarrow> Some (sum_list vs / real (length vs)))"

definition sql_sum :: "real option list \<Rightarrow> real option" where
  "sql_sum xs = (case non_null xs of [] \<Rightarrow> None | vs \<Rightarrow> Some (sum_list vs))"

definition group_count :: "('r \<Rightarrow> 'k) \<Rightarrow> 'r list \<Rightarrow> ('k \<times> nat) list" where
  "group_count key rs = map (\<lambda>k. (k, count_if (\<lambda>r. key r = k) rs)) (remdups (map key rs))"

definition order_desc :: "('a \<Rightarrow> nat) \<Rightarrow> 'a list \<Rightarrow> 'a list" where
  "order_desc f xs = sort_key (\<lambda>x. - int (f x)) xs"

definition safe_divide :: "real \<Rightarrow> real \<Rightarrow> real option" where
  "safe_divide a b = (if b = 0 then None else Some (a / b))"

text \<open>What \<open>GROUP BY k ORDER BY COUNT(*) DESC LIMIT n\<close> promises over the multiset of
  keys \<open>ts\<close>: at most \<open>n\<close> distinct keys with their exact positive counts, by
  non-increasing count, and a key is left out only when \<open>n\<close> keys are listed, each
  at least as frequent as it.\<close>

definition top_counts :: "nat \<Rightarrow> 'k list \<Rightarrow> ('k \<times> nat) list \<Rightarrow> bool" where
  "top_counts n ts q \<longleftrightarrow>
     length q \<le> n \<and> sorted_wrt (\<lambda>x y. snd y \<le> snd x) q \<and> distinct (map fst q)
     \<and> (\<forall>(t, c) \<in> set q. c = count_list ts t \<and> 0 < c)
     \<and> (\<forall>t \<in> set ts. t \<notin> fst ` set q \<longrightarrow> length q = n \<and> (\<forall>(t', c') \<in> set q. count_list ts t \<le> c'))"

declare non_null_def [sql_simps] count_if_def [sql_simps] sql_avg_def [sql_simps]
  sql_sum_def [sql_simps] group_count_def [sql_simps] order_desc_def [sql_simps]
  safe_divide_def [sql_simps] top_counts_def [sql_simps]

section \<open>Aggregates\<close>

lemma non_null_Nil [simp]: "non_null [] = []"
  by (simp add: non_null_def)

lemma non_null_all_None: "(\<forall>x \<in> set xs. x = None) \<Longrightarrow> non_null xs = []"
  by (induction xs) (auto simp: non_null_def)

lemma sql_avg_Nil [simp]: "sql_avg [] = None" and sql_sum_Nil [simp]: "sql_sum [] = None"
  by (simp_all add: sql_avg_def sql_sum_def)

lemma count_if_le: "count_if P rs \<le> length rs"
  by (simp add: count_if_def)

lemma count_if_Nil [simp]: "count_if P [] = 0"
  by (simp add: count_if_def)

lemma count_if_filter: "count_if P (filter Q rs) = count_if (\<lambda>r. Q r \<and> P r) rs"
  by (simp add: count_if_def filter_filter conj_commute)

lemma count_if_map_eq: "count_if (\<lambda>r. key r = k) rs = count_list (map key rs) k"
  by (induction rs) (auto simp: count_if_def)

section \<open>Grouping\<close>

lemma group_count_Nil [simp]: "group_count key [] = []"
  by (simp add: group_count_def)

lemma group_count_keys: "map fst (group_count key rs) = remdups (map key rs)"
  by (simp add: group_count_def comp_def)

lemma group_count_distinct: "distinct (map fst (group_count key rs))"
  by (simp add: group_count_keys)

lemma group_count_member:
  "(k, c) \<in> set (group_count key rs) \<longleftrightarrow> k \<in> key ` set rs \<and> c = count_if (\<lambda>r. key r = k) rs"
  by (auto simp: group_count_def)

lemma group_count_pos: "(k, c) \<in> set (group_count key rs) \<Longrightarrow> 0 < c"
  by (auto simp: group_count_member count_if_def filter_empty_conv)

text \<open>The groups of a \<open>GROUP BY\<close> partition the rows: their counts add up to the
  number of rows.\<close>

lemma group_count_sum: "sum_list (map snd (group_count key rs)) = length rs"
proof -
  have "sum_list (map snd (group_count key rs)) =
        sum_list (map (count_list (map key rs)) (remdups (map key rs)))"
    by (simp add: group_count_def comp_def count_if_map_eq)
  also have "\<dots> = sum (count_list (map key rs)) (set (map key rs))"
    by (simp only: sum_code)
  also have "\<dots> = length rs" by (simp add: sum_count_set)
  finally show ?thesis .
qed

section \<open>Ordering and limits\<close>

lemma order_desc_mset: "mset (order_desc f xs) = mset xs"
  by (simp add: order_desc_def)

lemma order_desc_set [simp]: "set (order_desc f xs) = set xs"
  by (metis order_desc_mset set_mset_mset)

lemma order_desc_sorted: "sorted_wrt (\<lambda>x y. f y \<le> f x) (order_desc f xs)"
proof -
  have "sorted (map (\<lambda>x. - int (f x)) (order_desc f xs))"
    by (simp add: order_desc_def sorted_sort_key)
  then show ?thesis by (simp add: sorted_map)
qed

lemma sorted_wrt_take_drop:
  "sorted_wrt R xs \<Longrightarrow> x \<in> set (take n xs) \<Longrightarrow> y \<in> set (drop n xs) \<Longrightarrow> R x y"
  by (metis append_take_drop_id sorted_wrt_append)

lemma perm_sum_list_map:
  fixes f :: "'a \<Rightarrow> 'b::comm_monoid_add"
  assumes "mset xs = mset ys"
  shows "sum_list (map f xs) = sum_list (map f ys)"
proof -
  have "sum_list (map f xs) = sum_mset (mset (map f xs))" by (simp only: sum_mset_sum_list)
  also have "\<dots> = sum_mset (mset (map f ys))" using assms by simp
  also have "\<dots> = sum_list (map f ys)" by (simp only: sum_mset_sum_list)
  finally show ?thesis .
qed

lemma perm_distinct_fst: "mset xs = mset ys \<Longrightarrow> distinct (map fst xs) = distinct (map fst ys)"
  by (metis mset_eq_imp_distinct_iff mset_map)

text \<open>\<open>ORDER BY ... DESC LIMIT n\<close> keeps the \<open>n\<close> largest: a row left out is no
  larger than any row kept, and rows are left out only when \<open>n\<close> are kept.\<close>

lemma take_order_desc_top:
  assumes "x \<in> set xs" and "x \<notin> set (take n (order_desc f xs))"
  shows "length (take n (order_desc f xs)) = n \<and> (\<forall>y \<in> set (take n (order_desc f xs)). f x \<le> f y)"
proof -
  let ?o = "order_desc f xs"
  have "x \<in> set ?o" using assms(1) by simp
  then have x: "x \<in> set (drop n ?o)" using assms(2) by (metis append_take_drop_id Un_iff set_append)
  then have "n < length ?o" by (metis drop_all empty_iff list.set(1) not_le_imp_less)
  moreover have "\<forall>y \<in> set (take n ?o). f x \<le> f y"
    using order_desc_sorted [of f xs] x by (blast dest: sorted_wrt_take_drop)
  ultimately show ?thesis by simp
qed

lemma take_order_desc_member: "y \<in> set (take n (order_desc f xs)) \<Longrightarrow> y \<in> set xs"
  by (metis in_set_takeD order_desc_set)

lemma take_order_desc_sorted: "sorted_wrt (\<lambda>x y. f y \<le> f x) (take n (order_desc f xs))"
  by (metis append_take_drop_id order_desc_sorted sorted_wrt_append)

lemma take_order_desc_distinct:
  "distinct (map fst xs) \<Longrightarrow> distinct (map fst (take n (order_desc f xs)))"
  by (metis distinct_take order_desc_mset perm_distinct_fst take_map)

lemma take_order_desc_group_count:
  "top_counts n ts (take n (order_desc snd (group_count id ts)))"
proof -
  let ?q = "take n (order_desc snd (group_count id ts))"
  have counts: "\<forall>(t, c) \<in> set ?q. c = count_list ts t \<and> 0 < c"
    by (auto simp: group_count_member count_if_map_eq dest!: take_order_desc_member
        intro: group_count_pos)
  have top: "length ?q = n \<and> (\<forall>(t', c') \<in> set ?q. count_list ts t \<le> c')"
    if "t \<in> set ts" "t \<notin> fst ` set ?q" for t
  proof -
    have "(t, count_list ts t) \<in> set (group_count id ts)"
      using that(1) by (simp add: group_count_member count_if_map_eq)
    moreover have "(t, count_list ts t) \<notin> set ?q" using that(2) by force
    ultimately show ?thesis using take_order_desc_top [of "(t, count_list ts t)" "group_count id ts" n snd]
      by auto
  qed
  have "sorted_wrt (\<lambda>x y. snd y \<le> snd x) ?q" by (rule take_order_desc_sorted)
  moreover have "distinct (map fst ?q)" by (rule take_order_desc_distinct [OF group_count_distinct])
  ultimately show ?thesis using counts top by (simp add: top_counts_def)
qed

section \<open>Slices of a two-key grouping\<close>

lemma group_count_length_filter:
  "x \<in> set (group_count key rs) \<Longrightarrow> length (filter (\<lambda>r. key r = fst x) rs) = snd x"
  by (cases x) (simp add: group_count_member count_if_def)

lemma group_count_slice:
  "filter (\<lambda>x. fst (fst x) = k) (group_count (\<lambda>r. (f r, g r)) rs) =
   group_count (\<lambda>r. (f r, g r)) (filter (\<lambda>r. f r = k) rs)"
proof -
  have keys: "remdups (map (\<lambda>r. (f r, g r)) (filter (\<lambda>r. f r = k) rs)) =
      filter (\<lambda>kl. fst kl = k) (remdups (map (\<lambda>r. (f r, g r)) rs))"
  proof -
    have "map (\<lambda>r. (f r, g r)) (filter (\<lambda>r. f r = k) rs) = filter (\<lambda>kl. fst kl = k) (map (\<lambda>r. (f r, g r)) rs)"
      by (simp add: filter_map comp_def)
    then show ?thesis by (simp add: remdups_filter)
  qed
  show ?thesis
    by (auto simp: group_count_def keys filter_map comp_def count_if_def filter_filter intro!: map_cong
        arg_cong [where f = length])
qed

lemma group_count_slice_sum:
  "sum_list (map snd (filter (\<lambda>x. fst (fst x) = k) (group_count (\<lambda>r. (f r, g r)) rs))) =
   count_if (\<lambda>r. f r = k) rs"
  by (simp add: group_count_slice group_count_sum count_if_def)

lemma sort_key_slice_sum:
  fixes xs :: "('a \<times> nat) list"
  shows "sum_list (map snd (filter P (sort_key h xs))) = sum_list (map snd (filter P xs))"
  by (rule perm_sum_list_map) simp

end
