(* ===== verification/Js_Number.thy ===== *)
theory Js_Number
  imports Prelude
begin

text \<open>
  The JavaScript number formatting the analytics handlers apply to warehouse values:
  \<open>Number.prototype.toFixed\<close>, \<open>parseFloat\<close> and \<open>Math.round\<close>. Numbers are
  \<open>real\<close>s: the model keeps the decimal arithmetic of the ECMAScript definitions and
  leaves out the rounding error of doubles. \<open>toFixed\<close> is modelled for values below
  \<open>10^21\<close> (above, JavaScript switches to exponent notation); \<open>parseFloat\<close> reads an
  optional sign, integer digits and fraction digits, which is every text \<open>toFixed\<close>
  produces (its exponent and \<open>Infinity\<close> forms are not modelled).
\<close>

section \<open>Definitions\<close>

definition is_digit :: "char \<Rightarrow> bool" where
  "is_digit c \<longleftrightarrow> (let n = (of_char c :: nat) in 48 \<le> n \<and> n \<le> 57)"

definition digit_char :: "nat \<Rightarrow> char" where
  "digit_char d = char_of (48 + d)"

definition digit_value :: "char \<Rightarrow> nat" where
  "digit_value c = of_char c - 48"

text \<open>\<open>String(n)\<close> for a natural number \<open>n\<close>.\<close>

fun digits_of_nat :: "nat \<Rightarrow> string" where
  "digits_of_nat n =
     (if n < 10 then [digit_char n] else digits_of_nat (n div 10) @ [digit_char (n mod 10)])"

definition digits_value :: "string \<Rightarrow> nat" where
  "digits_value ds = foldl (\<lambda>acc c. 10 * acc + digit_value c) 0 ds"

text \<open>
  \<open>x.toFixed(f)\<close>: the sign, then the integer \<open>n\<close> nearest to \<open>|x| * 10^f\<close> (the
  larger one on a tie, that is rounding half up) written with at least \<open>f + 1\<close>
  digits and a point before the last \<open>f\<close> of them.
\<close>

definition js_to_fixed :: "nat \<Rightarrow> real \<Rightarrow> string" where
  "js_to_fixed f x =
     (let s = (if x < 0 then ''-'' else []);
          n = nat (round (\<bar>x\<bar> * 10 ^ f));
          m = digits_of_nat n
      in if f = 0 then s @ m
         else let z = (if length m \<le> f then replicate (f + 1 - length m) (CHR ''0'') @ m else m);
                  k = length z
              in s @ take (k - f) z @ ''.'' @ drop (k - f) z)"

text \<open>\<open>parseFloat(s)\<close>; \<open>None\<close> is \<open>NaN\<close>.\<close>

definition parse_float :: "string \<Rightarrow> real option" where
  "parse_float s =
     (let t = dropWhile is_js_space s;
          (sg, u) = (case t of
                       c # r \<Rightarrow> if c = CHR ''-'' then (-1 :: real, r)
                                else if c = CHR ''+'' then (1, r) else (1, t)
                     | [] \<Rightarrow> (1, t));
          ip = takeWhile is_digit u;
          fp = (case dropWhile is_digit u of
                  c # r \<Rightarrow> if c = CHR ''.'' then takeWhile is_digit r else []
                | [] \<Rightarrow> [])
      in if ip = [] \<and> fp = [] then None
         else Some (sg * (real (digits_value ip) + real (digits_value fp) / 10 ^ length fp)))"

text \<open>The value \<open>parseFloat(x.toFixed(f))\<close> denotes: \<open>x\<close> rounded to \<open>f\<close> decimals,
  half away from zero.\<close>

definition fixed_round :: "nat \<Rightarrow> real \<Rightarrow> real" where
  "fixed_round f x =
     (if x < 0 then - (of_int (round (- x * 10 ^ f)) / 10 ^ f) else of_int (round (x * 10 ^ f)) / 10 ^ f)"

declare digits_of_nat.simps [simp del]
declare is_digit_def [js_simps] digit_char_def [js_simps] digit_value_def [js_simps]
  digits_value_def [js_simps] js_to_fixed_def [js_simps]
  parse_float_def [js_simps] fixed_round_def [js_simps]

section \<open>Digits\<close>

text \<open>Evaluation rules for \<open>digits_of_nat\<close> on literals, which do not unfold the
  recursion on a symbolic argument.\<close>

lemma digits_of_nat_numeral [js_simps]:
  "digits_of_nat (numeral k) =
     (if numeral k < (10::nat) then [digit_char (numeral k)]
      else digits_of_nat (numeral k div 10) @ [digit_char (numeral k mod 10)])"
  by (rule digits_of_nat.simps)

lemma digits_of_nat_Suc [js_simps]:
  "digits_of_nat (Suc n) =
     (if Suc n < 10 then [digit_char (Suc n)]
      else digits_of_nat (Suc n div 10) @ [digit_char (Suc n mod 10)])"
  by (rule digits_of_nat.simps)

lemma digits_of_nat_0 [js_simps]: "digits_of_nat 0 = [digit_char 0]"
  by (simp add: digits_of_nat.simps)

lemma digits_of_nat_1 [js_simps]: "digits_of_nat 1 = [digit_char 1]"
  by (simp add: digits_of_nat.simps)

lemma digit_char_is_digit: "d < 10 \<Longrightarrow> is_digit (digit_char d)"
  by (simp add: is_digit_def digit_char_def take_bit_eq_mod)

lemma digit_value_digit_char: "d < 10 \<Longrightarrow> digit_value (digit_char d) = d"
  by (simp add: digit_value_def digit_char_def take_bit_eq_mod)

lemma dot_not_digit [simp]: "\<not> is_digit (CHR ''.'')"
  by (simp add: is_digit_def)

lemma minus_not_digit [simp]: "\<not> is_digit (CHR ''-'')"
  by (simp add: is_digit_def)

lemma minus_not_space [simp]: "\<not> is_js_space (CHR ''-'')"
  by (simp add: is_js_space_def)

lemma zero_is_digit [simp]: "is_digit (CHR ''0'')"
  by (simp add: is_digit_def)

lemma digit_not_space: "is_digit c \<Longrightarrow> \<not> is_js_space c"
  by (auto simp: is_digit_def is_js_space_def Let_def)

lemma digits_of_nat_digits: "\<forall>c \<in> set (digits_of_nat n). is_digit c"
  by (induction n rule: digits_of_nat.induct)
    (subst digits_of_nat.simps, auto simp: digit_char_is_digit)

lemma digits_of_nat_not_Nil [simp]: "digits_of_nat n \<noteq> []"
  by (subst digits_of_nat.simps) simp

lemma digits_value_Nil [simp]: "digits_value [] = 0"
  by (simp add: digits_value_def)

lemma digits_value_append:
  "digits_value (xs @ ys) = digits_value xs * 10 ^ length ys + digits_value ys"
proof (induction ys rule: rev_induct)
  case Nil
  then show ?case by (simp add: digits_value_def)
next
  case (snoc y ys)
  then show ?case by (simp add: digits_value_def algebra_simps flip: append_assoc)
qed

lemma digits_value_zeros [simp]: "digits_value (replicate k (CHR ''0'') @ m) = digits_value m"
proof -
  have "digits_value (replicate k (CHR ''0'')) = 0"
    by (induction k) (simp_all add: digits_value_def digit_value_def replicate_append_same [symmetric])
  then show ?thesis by (simp add: digits_value_append)
qed

lemma digits_value_digits_of_nat [simp]: "digits_value (digits_of_nat n) = n"
proof (induction n rule: digits_of_nat.induct)
  case (1 n)
  show ?case
  proof (cases "n < 10")
    case True
    then show ?thesis
      by (subst digits_of_nat.simps) (simp add: digits_value_def digit_value_digit_char)
  next
    case False
    then have "digits_value (digits_of_nat n) = 10 * (n div 10) + n mod 10"
      using "1.IH" by (subst digits_of_nat.simps) (simp add: digits_value_def digit_value_digit_char)
    then show ?thesis by simp
  qed
qed

lemma takeWhile_digits_dot:
  "\<forall>c \<in> set a. is_digit c \<Longrightarrow> takeWhile is_digit (a @ CHR ''.'' # b) = a"
  by (simp add: takeWhile_append2)

lemma dropWhile_digits_dot:
  "\<forall>c \<in> set a. is_digit c \<Longrightarrow> dropWhile is_digit (a @ CHR ''.'' # b) = CHR ''.'' # b"
  by (simp add: dropWhile_append2)

lemma plus_not_digit [simp]: "\<not> is_digit (CHR ''+'')"
  by (simp add: is_digit_def)

lemma round_nonneg: "0 \<le> x \<Longrightarrow> 0 \<le> round (x :: real)"
  using round_mono [of 0 x] by simp

section \<open>\<open>parseFloat\<close> reads back what \<open>toFixed\<close> writes\<close>

lemma parse_float_digits:
  assumes "\<forall>c \<in> set a. is_digit c" and "a \<noteq> []"
  shows "parse_float a = Some (real (digits_value a))"
    and "\<forall>c \<in> set b. is_digit c \<Longrightarrow>
         parse_float (a @ CHR ''.'' # b) =
           Some (real (digits_value a) + real (digits_value b) / 10 ^ length b)"
proof -
  obtain c a' where a: "a = c # a'" using assms(2) by (cases a) auto
  have c: "is_digit c" "\<not> is_js_space c" "c \<noteq> CHR ''-''" "c \<noteq> CHR ''+''"
    using assms(1) a by (auto simp: digit_not_space)
  have all: "takeWhile is_digit a' = a'" "dropWhile is_digit a' = []"
    using assms(1) a by (simp_all add: takeWhile_eq_all_conv dropWhile_eq_Nil_conv)
  show "parse_float a = Some (real (digits_value a))"
    using c a by (simp add: parse_float_def all)
  assume b: "\<forall>c \<in> set b. is_digit c"
  then have tb: "takeWhile is_digit b = b" by (simp add: takeWhile_eq_all_conv)
  show "parse_float (a @ CHR ''.'' # b) =
           Some (real (digits_value a) + real (digits_value b) / 10 ^ length b)"
    using c a assms(1) takeWhile_digits_dot [OF assms(1), of b] dropWhile_digits_dot [OF assms(1), of b]
    by (simp add: parse_float_def tb)
qed

lemma parse_float_minus:
  assumes "w = c # w'" and "is_digit c"
  shows "parse_float (CHR ''-'' # w) = map_option uminus (parse_float w)"
proof -
  have "\<not> is_js_space c" "c \<noteq> CHR ''-''" "c \<noteq> CHR ''+''"
    using assms(2) by (auto simp: digit_not_space)
  then show ?thesis using assms(1) by (simp add: parse_float_def Let_def split: list.split)
qed

lemma to_fixed_digits:
  fixes f n :: nat
  assumes "0 < f"
  defines "m \<equiv> digits_of_nat n"
  defines "z \<equiv> (if length m \<le> f then replicate (f + 1 - length m) (CHR ''0'') @ m else m)"
  shows "take (length z - f) z \<noteq> [] \<and> length (drop (length z - f) z) = f
    \<and> (\<forall>c \<in> set z. is_digit c)
    \<and> real (digits_value (take (length z - f) z))
        + real (digits_value (drop (length z - f) z)) / 10 ^ f = real n / 10 ^ f"
proof -
  have len: "f + 1 \<le> length z" by (simp add: z_def)
  have dig: "\<forall>c \<in> set z. is_digit c"
    using digits_of_nat_digits [of n] by (auto simp: z_def m_def)
  have val: "digits_value z = n" by (simp add: z_def m_def)
  let ?a = "take (length z - f) z" and ?b = "drop (length z - f) z"
  have lb: "length ?b = f" using len by simp
  have "digits_value (?a @ ?b) = digits_value ?a * 10 ^ f + digits_value ?b"
    by (simp only: digits_value_append lb)
  then have "real n = real (digits_value ?a) * 10 ^ f + real (digits_value ?b)"
    using val by (metis append_take_drop_id of_nat_add of_nat_mult of_nat_numeral of_nat_power)
  then have "real n / 10 ^ f = real (digits_value ?a) + real (digits_value ?b) / 10 ^ f"
    by (simp add: field_simps)
  moreover have "?a \<noteq> []" using len by (cases z) auto
  ultimately show ?thesis using lb dig by simp
qed

text \<open>The round trip: \<open>parseFloat(x.toFixed(f))\<close> is \<open>x\<close> rounded to \<open>f\<close> decimals.\<close>

lemma parse_float_to_fixed: "parse_float (js_to_fixed f x) = Some (fixed_round f x)"
proof -
  define n where "n = nat (round (\<bar>x\<bar> * 10 ^ f))"
  have rn: "real n = of_int (round (\<bar>x\<bar> * 10 ^ f))"
    using round_nonneg [of "\<bar>x\<bar> * 10 ^ f"] by (simp add: n_def)
  define m where "m = digits_of_nat n"
  define z where "z = (if length m \<le> f then replicate (f + 1 - length m) (CHR ''0'') @ m else m)"
  define body where "body = (if f = 0 then m else take (length z - f) z @ ''.'' @ drop (length z - f) z)"
  have fx: "js_to_fixed f x = (if x < 0 then ''-'' else []) @ body"
    by (simp add: js_to_fixed_def Let_def n_def m_def z_def body_def)
  have md: "\<forall>c \<in> set m. is_digit c" "m \<noteq> []"
    by (simp_all add: m_def digits_of_nat_digits)
  have pb: "parse_float body = Some (real n / 10 ^ f)
      \<and> (\<exists>c w. body = c # w \<and> is_digit c)"
  proof (cases "f = 0")
    case True
    obtain c w where cw: "m = c # w" using md(2) by (cases m) auto
    have "digits_value m = n" by (simp add: m_def)
    with True cw show ?thesis using parse_float_digits(1) [OF md] md(1)
      by (simp add: body_def)
  next
    case False
    then have t: "take (length z - f) z \<noteq> [] \<and> length (drop (length z - f) z) = f
      \<and> (\<forall>c \<in> set z. is_digit c)
      \<and> real (digits_value (take (length z - f) z))
          + real (digits_value (drop (length z - f) z)) / 10 ^ f = real n / 10 ^ f"
      using to_fixed_digits [of f n, folded m_def, folded z_def] False by simp
    then have da: "\<forall>c \<in> set (take (length z - f) z). is_digit c"
      and db: "\<forall>c \<in> set (drop (length z - f) z). is_digit c"
      by (auto dest: in_set_takeD in_set_dropD)
    have "parse_float body = Some (real n / 10 ^ f)"
      using parse_float_digits(2) [OF da _ db] t False by (simp add: body_def)
    moreover have "\<exists>c w. body = c # w \<and> is_digit c"
    proof -
      obtain c w where cw: "take (length z - f) z = c # w"
        using t by (cases "take (length z - f) z") auto
      then have "is_digit c" using da by simp
      with cw False show ?thesis by (simp add: body_def)
    qed
    ultimately show ?thesis by blast
  qed
  then obtain c w where bw: "body = c # w" "is_digit c" by blast
  show ?thesis
  proof (cases "x < 0")
    case True
    then have "parse_float (js_to_fixed f x) = Some (- (real n / 10 ^ f))"
      using fx parse_float_minus [OF bw] pb bw by simp
    then show ?thesis using True rn by (simp add: fixed_round_def)
  next
    case False
    then show ?thesis using fx pb rn by (simp add: fixed_round_def)
  qed
qed

lemma fixed_round_1_bounds:
  assumes "0 \<le> x" and "x \<le> 100"
  shows "0 \<le> fixed_round 1 x \<and> fixed_round 1 x \<le> 100"
proof -
  have "round (x * 10) \<le> round (1000 :: real)" using assms(2) by (intro round_mono) simp
  moreover have "0 \<le> round (x * 10)" using assms(1) by (simp add: round_nonneg)
  ultimately show ?thesis using assms(1) by (simp add: fixed_round_def)
qed

text \<open>A share \<open>p / w\<close> in percent, rounded to one decimal, stays in [0, 100].\<close>

lemma percent_fixed_bounds:
  assumes "p \<le> w" and "0 < w"
  shows "0 \<le> fixed_round 1 (real p / real w * 100) \<and> fixed_round 1 (real p / real w * 100) \<le> 100"
proof -
  from assms have "0 \<le> real p / real w * 100" "real p / real w * 100 \<le> 100"
    by (simp_all add: field_simps)
  then show ?thesis by (rule fixed_round_1_bounds)
qed

end
