(* ===== verification/Warehouse.thy ===== *)
theory Warehouse
  imports Sql Js_Number
begin

text \<open>
  The two warehouse tables the analytics routes query, as row records: a row of
  \<open>costco_analytics.conversations_analytics\<close> (one per completed call; the fields
  the queries read, prefixed \<open>c_\<close> after the alias the leads query gives the table)
  and a row of \<open>costco_analytics.leads\<close> (prefixed \<open>l_\<close>). Nullable columns are
  options. Timestamps are seconds since the epoch in UTC, so \<open>DATE(timestamp)\<close> is
  the day number \<open>ts div 86400\<close> and \<open>EXTRACT(HOUR FROM timestamp)\<close> is
  \<open>ts mod 86400 div 3600\<close>. The clock (\<open>CURRENT_TIMESTAMP()\<close>) is the parameter
  \<open>now\<close> of each query. Also here: the query-parameter defaults of the routes
  (\<open>searchParams.get(k) || d\<close>) and \<open>parseInt\<close>.
\<close>

section \<open>Rows\<close>

record conv_row =
  c_session_id :: string
  c_timestamp :: int
  c_channel :: "string option"
  c_duration_seconds :: "real option"
  c_sentiment_score :: "real option"
  c_sentiment_label :: "string option"
  c_resolution_status :: "string option"
  c_customer_satisfaction :: "string option"
  c_business_opportunity :: "string option"
  c_lead_score :: "real option"
  c_opportunity_value_estimate :: "real option"
  c_topics :: "string list"
  c_primary_topic :: "string option"
  c_product_mentions :: "string list"
  c_issue_category :: "string option"

section \<open>Time\<close>

definition seconds_per_day :: int where
  "seconds_per_day = 86400"

definition day_of :: "int \<Rightarrow> int" where
  "day_of ts = ts div seconds_per_day"

definition hour_of :: "int \<Rightarrow> nat" where
  "hour_of ts = nat (ts mod seconds_per_day div 3600)"

text \<open>\<open>timestamp >= TIMESTAMP_SUB(CURRENT_TIMESTAMP(), INTERVAL d DAY)\<close>.\<close>

definition within_days :: "int \<Rightarrow> int \<Rightarrow> int \<Rightarrow> bool" where
  "within_days now d ts \<longleftrightarrow> now - d * seconds_per_day \<le> ts"

section \<open>Query parameters\<close>

text \<open>\<open>searchParams.get(k) || d\<close>: an absent or empty parameter gives the default.\<close>

definition param_or :: "string option \<Rightarrow> string \<Rightarrow> string" where
  "param_or p d = (case p of None \<Rightarrow> d | Some s \<Rightarrow> if s = [] then d else s)"

text \<open>
  \<open>parseInt(s)\<close> (radix 10): leading whitespace, an optional sign, then the longest
  run of decimal digits; \<open>None\<close> (\<open>NaN\<close>) when there is no digit. The \<open>0x\<close>
  prefix of a hexadecimal literal is read as \<open>0\<close> here.
\<close>

definition parse_int :: "string \<Rightarrow> int option" where
  "parse_int s =
     (let t = dropWhile is_js_space s;
          (sg, u) = (case t of
                       c # r \<Rightarrow> if c = CHR ''-'' then (-1 :: int, r)
                                else if c = CHR ''+'' then (1, r) else (1, t)
                     | [] \<Rightarrow> (1, t));
          ds = takeWhile is_digit u
      in if ds = [] then None else Some (sg * int (digits_value ds)))"

section \<open>Example rows\<close>

text \<open>A small conversations table for the examples of the analytics theories: two
  calls on day 0 (at 01:00 and 02:01) and one on day 1.\<close>

definition demo_row :: "string \<Rightarrow> int \<Rightarrow> string option \<Rightarrow> string option \<Rightarrow> string list \<Rightarrow> conv_row" where
  "demo_row sid ts res sat topics =
     \<lparr>c_session_id = sid, c_timestamp = ts, c_channel = Some ''phone'', c_duration_seconds = Some 300,
      c_sentiment_score = Some (1 / 2), c_sentiment_label = Some ''positive'',
      c_resolution_status = res, c_customer_satisfaction = sat, c_business_opportunity = None,
      c_lead_score = None, c_opportunity_value_estimate = None, c_topics = topics,
      c_primary_topic = None, c_product_mentions = [], c_issue_category = Some ''billing''\<rparr>"

definition demo_table :: "conv_row list" where
  "demo_table =
     [demo_row ''s1'' 3600 (Some ''resolved'') (Some ''satisfied'') [''wifi'', ''bluetooth''],
      demo_row ''s2'' 7300 (Some ''unresolved'') None [''wifi''],
      demo_row ''s3'' 90000 None None []]"

declare seconds_per_day_def [sql_simps] day_of_def [sql_simps] hour_of_def [sql_simps]
  within_days_def [sql_simps] param_or_def [js_simps] parse_int_def [js_simps]

lemma hour_of_lt_24: "hour_of ts < 24"
proof -
  have "ts mod seconds_per_day < 86400" "0 \<le> ts mod seconds_per_day"
    by (simp_all add: seconds_per_day_def)
  then show ?thesis by (simp add: hour_of_def nat_less_iff)
qed

lemma parse_int_digits:
  "\<forall>c \<in> set ds. is_digit c \<Longrightarrow> ds \<noteq> [] \<Longrightarrow> parse_int ds = Some (int (digits_value ds))"
proof -
  assume d: "\<forall>c \<in> set ds. is_digit c" and ne: "ds \<noteq> []"
  obtain c r where cr: "ds = c # r" using ne by (cases ds) auto
  then have "is_digit c" "\<not> is_js_space c" "c \<noteq> CHR ''-''" "c \<noteq> CHR ''+''"
    using d by (auto simp: digit_not_space)
  moreover have tr: "takeWhile is_digit r = r" using d cr by (simp add: takeWhile_eq_all_conv)
  ultimately show ?thesis using cr by (simp add: parse_int_def tr)
qed

lemma parse_int_digits_of_nat: "parse_int (digits_of_nat n) = Some (int n)"
  using parse_int_digits [of "digits_of_nat n"] by (simp add: digits_of_nat_digits)

text \<open>\<open>String(i)\<close> of an integer, and \<open>parseInt\<close> reading it back.\<close>

definition js_int_text :: "int \<Rightarrow> string" where
  "js_int_text i = (if i < 0 then ''-'' else []) @ digits_of_nat (nat \<bar>i\<bar>)"

declare js_int_text_def [js_simps]

lemma parse_int_js_int_text: "parse_int (js_int_text i) = Some i"
proof (cases "i < 0")
  case True
  have tw: "takeWhile is_digit (digits_of_nat (nat (- i))) = digits_of_nat (nat (- i))"
    by (simp add: takeWhile_eq_all_conv digits_of_nat_digits)
  from True show ?thesis by (simp add: js_int_text_def parse_int_def tw)
next
  case False
  then show ?thesis using parse_int_digits_of_nat [of "nat i"] by (simp add: js_int_text_def)
qed

end
