(* ===== verification/Dashboard.thy ===== *)
theory Dashboard
  imports Warehouse
begin

text \<open>
  \<open>GET /api/analytics/dashboard\<close> (\<open>src/app/api/analytics/dashboard/route.js\<close>).
  The handler picks a time filter from the \<open>range\<close> parameter, sends one query with
  five common table expressions (\<open>metrics\<close>, \<open>hourly_volume\<close>, \<open>top_topics\<close>,
  \<open>top_products\<close>, \<open>issue_distribution\<close>) to the warehouse, and reshapes the single
  result row: the metrics are spread into the response with the derived
  \<open>resolution_rate\<close>, \<open>satisfaction_rate\<close> (\<open>parseFloat\<close> of \<open>toFixed(1)\<close>) and
  \<open>avg_duration_minutes\<close>. The warehouse call is a parameter \<open>exec\<close> from the query
  (determined by its time filter) to an outcome: an error message, or the result
  rows. \<open>dashboard_warehouse\<close> is the outcome the SQL itself specifies.
\<close>

section \<open>The query\<close>

datatype time_filter = Same_Day | Last_Days int

definition dashboard_time_filter :: "string \<Rightarrow> time_filter" where
  "dashboard_time_filter r =
     (if r = ''today'' then Same_Day
      else if r = ''week'' then Last_Days 7
      else if r = ''month'' then Last_Days 30
      else Same_Day)"

definition in_window :: "time_filter \<Rightarrow> int \<Rightarrow> conv_row \<Rightarrow> bool" where
  "in_window tf now r =
     (case tf of
        Same_Day \<Rightarrow> day_of (c_timestamp r) = day_of now
      | Last_Days d \<Rightarrow> within_days now d (c_timestamp r))"

text \<open>The rows the query's \<open>WHERE ${timeFilter}\<close> selects.\<close>

definition dashboard_window :: "string option \<Rightarrow> int \<Rightarrow> conv_row list \<Rightarrow> conv_row list" where
  "dashboard_window range_param now table =
     filter (in_window (dashboard_time_filter (param_or range_param ''today'')) now) table"

record dash_metrics_row =
  total_conversations :: nat
  avg_sentiment :: "real option"
  avg_duration :: "real option"
  positive_count :: nat
  neutral_count :: nat
  negative_count :: nat
  resolved_count :: nat
  unresolved_count :: nat
  satisfied_count :: nat
  dissatisfied_count :: nat
  total_leads :: nat
  avg_lead_score :: "real option"
  total_opportunity_value :: "real option"

definition metrics_query :: "conv_row list \<Rightarrow> dash_metrics_row" where
  "metrics_query rs =
     \<lparr>total_conversations = length rs,
      avg_sentiment = sql_avg (map c_sentiment_score rs),
      avg_duration = sql_avg (map c_duration_seconds rs),
      positive_count = count_if (\<lambda>r. c_sentiment_label r = Some ''positive'') rs,
      neutral_count = count_if (\<lambda>r. c_sentiment_label r = Some ''neutral'') rs,
      negative_count = count_if (\<lambda>r. c_sentiment_label r = Some ''negative'') rs,
      resolved_count = count_if (\<lambda>r. c_resolution_status r = Some ''resolved'') rs,
      unresolved_count = count_if (\<lambda>r. c_resolution_status r = Some ''unresolved'') rs,
      satisfied_count = count_if (\<lambda>r. c_customer_satisfaction r = Some ''satisfied'') rs,
      dissatisfied_count = count_if (\<lambda>r. c_customer_satisfaction r = Some ''dissatisfied'') rs,
      total_leads = count_if (\<lambda>r. c_business_opportunity r \<noteq> None) rs,
      avg_lead_score = sql_avg (map c_lead_score rs),
      total_opportunity_value = sql_sum (map c_opportunity_value_estimate rs)\<rparr>"

definition hourly_volume_query :: "conv_row list \<Rightarrow> (nat \<times> nat) list" where
  "hourly_volume_query rs = sort_key fst (group_count (\<lambda>r. hour_of (c_timestamp r)) rs)"

definition top_topics_query :: "conv_row list \<Rightarrow> (string \<times> nat) list" where
  "top_topics_query rs = take 10 (order_desc snd (group_count id (concat (map c_topics rs))))"

definition top_products_query :: "conv_row list \<Rightarrow> (string \<times> nat) list" where
  "top_products_query rs =
     take 10 (order_desc snd (group_count id (concat (map c_product_mentions rs))))"

definition issue_distribution_query :: "conv_row list \<Rightarrow> (string option \<times> nat \<times> real option) list" where
  "issue_distribution_query rs =
     order_desc (\<lambda>(k, c, a). c)
       (map (\<lambda>(k, c). (k, c, sql_avg (map c_sentiment_score (filter (\<lambda>r. c_issue_category r = k) rs))))
          (group_count c_issue_category rs))"

record dashboard_row =
  dr_metrics :: dash_metrics_row
  dr_hourly_volume :: "(nat \<times> nat) list"
  dr_top_topics :: "(string \<times> nat) list"
  dr_top_products :: "(string \<times> nat) list"
  dr_issue_distribution :: "(string option \<times> nat \<times> real option) list"

definition dashboard_query :: "time_filter \<Rightarrow> int \<Rightarrow> conv_row list \<Rightarrow> dashboard_row" where
  "dashboard_query tf now table =
     (let rs = filter (in_window tf now) table
      in \<lparr>dr_metrics = metrics_query rs, dr_hourly_volume = hourly_volume_query rs,
          dr_top_topics = top_topics_query rs, dr_top_products = top_products_query rs,
          dr_issue_distribution = issue_distribution_query rs\<rparr>)"

text \<open>The query's single result row (a \<open>SELECT\<close> of scalar subqueries has exactly one).\<close>

definition dashboard_warehouse :: "int \<Rightarrow> conv_row list \<Rightarrow> time_filter \<Rightarrow> string + dashboard_row list" where
  "dashboard_warehouse now table tf = Inr [dashboard_query tf now table]"

section \<open>The response\<close>

record dash_metrics = dash_metrics_row +
  resolution_rate :: "real option"
  satisfaction_rate :: "real option"
  avg_duration_minutes :: int

text \<open>\<open>parseFloat(total > 0 ? (count / total * 100).toFixed(1) : 0)\<close>; \<open>None\<close> would be
  \<open>NaN\<close>.\<close>

definition js_rate :: "nat \<Rightarrow> nat \<Rightarrow> real option" where
  "js_rate part whole =
     (if 0 < whole then parse_float (js_to_fixed 1 (real part / real whole * 100))
      else parse_float ''0'')"

text \<open>\<open>avg_duration ? Math.round(avg_duration / 60) : 0\<close>.\<close>

definition avg_minutes :: "real option \<Rightarrow> int" where
  "avg_minutes d = (case d of None \<Rightarrow> 0 | Some v \<Rightarrow> if v = 0 then 0 else round (v / 60))"

text \<open>\<open>{...data.metrics, resolution_rate, satisfaction_rate, avg_duration_minutes}\<close>.\<close>

definition derive_metrics :: "dash_metrics_row \<Rightarrow> dash_metrics" where
  "derive_metrics m =
     dash_metrics_row.extend m
       (dash_metrics.fields (js_rate (resolved_count m) (total_conversations m))
          (js_rate (satisfied_count m) (total_conversations m)) (avg_minutes (avg_duration m)))"

record dashboard_body =
  db_metrics :: dash_metrics
  db_hourly_volume :: "(nat \<times> nat) list"
  db_top_topics :: "(string \<times> nat) list"
  db_top_products :: "(string \<times> nat) list"
  db_issue_distribution :: "(string option \<times> nat \<times> real option) list"
  db_time_range :: string

text \<open>
  The three responses: the all-zero payload of the \<open>rows.length === 0\<close> branch
  (carrying only the echoed \<open>timeRange\<close>; its other contents are constants), the
  reshaped result, and the 500 response with the error message.
\<close>

datatype dashboard_response =
    Dash_Empty string
  | Dash_Ok dashboard_body
  | Dash_Error string

definition dashboard_get ::
  "string option \<Rightarrow> (time_filter \<Rightarrow> string + dashboard_row list) \<Rightarrow> dashboard_response" where
  "dashboard_get range_param exec =
     (let time_range = param_or range_param ''today''
      in case exec (dashboard_time_filter time_range) of
           Inl err \<Rightarrow> Dash_Error err
         | Inr [] \<Rightarrow> Dash_Empty time_range
         | Inr (data # _) \<Rightarrow>
             Dash_Ok \<lparr>db_metrics = derive_metrics (dr_metrics data),
                      db_hourly_volume = dr_hourly_volume data,
                      db_top_topics = dr_top_topics data,
                      db_top_products = dr_top_products data,
                      db_issue_distribution = dr_issue_distribution data,
                      db_time_range = time_range\<rparr>)"

section \<open>Lemmas\<close>

lemma js_rate_exact: "0 < w \<Longrightarrow> js_rate p w = Some (fixed_round 1 (real p / real w * 100))"
  by (simp add: js_rate_def parse_float_to_fixed)

lemma js_rate_zero: "js_rate p 0 = Some 0"
  by (simp add: js_rate_def js_simps)

lemma js_rate_bounds: "p \<le> w \<Longrightarrow> \<exists>r. js_rate p w = Some r \<and> 0 \<le> r \<and> r \<le> 100 \<and> (w = 0 \<longrightarrow> r = 0)"
  by (cases "w = 0") (auto simp: js_rate_zero js_rate_exact dest: percent_fixed_bounds)

lemma derive_metrics_sel [simp]:
  "total_conversations (derive_metrics m) = total_conversations m"
  "avg_sentiment (derive_metrics m) = avg_sentiment m"
  "avg_duration (derive_metrics m) = avg_duration m"
  "positive_count (derive_metrics m) = positive_count m"
  "neutral_count (derive_metrics m) = neutral_count m"
  "negative_count (derive_metrics m) = negative_count m"
  "resolved_count (derive_metrics m) = resolved_count m"
  "unresolved_count (derive_metrics m) = unresolved_count m"
  "satisfied_count (derive_metrics m) = satisfied_count m"
  "dissatisfied_count (derive_metrics m) = dissatisfied_count m"
  "total_leads (derive_metrics m) = total_leads m"
  "avg_lead_score (derive_metrics m) = avg_lead_score m"
  "total_opportunity_value (derive_metrics m) = total_opportunity_value m"
  "avg_duration_minutes (derive_metrics m) = avg_minutes (avg_duration m)"
  "resolution_rate (derive_metrics m) = js_rate (resolved_count m) (total_conversations m)"
  "satisfaction_rate (derive_metrics m) = js_rate (satisfied_count m) (total_conversations m)"
  by (simp_all add: derive_metrics_def dash_metrics_row.defs dash_metrics.defs)

lemma dashboard_get_warehouse:
  "dashboard_get rg (dashboard_warehouse now table) =
     Dash_Ok \<lparr>db_metrics = derive_metrics (metrics_query (dashboard_window rg now table)),
              db_hourly_volume = hourly_volume_query (dashboard_window rg now table),
              db_top_topics = top_topics_query (dashboard_window rg now table),
              db_top_products = top_products_query (dashboard_window rg now table),
              db_issue_distribution = issue_distribution_query (dashboard_window rg now table),
              db_time_range = param_or rg ''today''\<rparr>"
  by (simp add: dashboard_get_def dashboard_warehouse_def dashboard_query_def dashboard_window_def Let_def)

lemma metrics_query_counts_le:
  "resolved_count (metrics_query rs) \<le> total_conversations (metrics_query rs)"
  "satisfied_count (metrics_query rs) \<le> total_conversations (metrics_query rs)"
  by (simp_all add: metrics_query_def count_if_le)

lemma hourly_volume_query_props:
  "sum_list (map snd (hourly_volume_query rs)) = length rs
   \<and> sorted (map fst (hourly_volume_query rs)) \<and> distinct (map fst (hourly_volume_query rs))
   \<and> (\<forall>(h, c) \<in> set (hourly_volume_query rs).
          h < 24 \<and> c = count_if (\<lambda>r. hour_of (c_timestamp r) = h) rs \<and> 0 < c)"
proof -
  let ?g = "group_count (\<lambda>r. hour_of (c_timestamp r)) rs"
  have m: "mset (hourly_volume_query rs) = mset ?g" by (simp add: hourly_volume_query_def)
  have "sum_list (map snd (hourly_volume_query rs)) = length rs"
    using perm_sum_list_map [OF m, of snd] by (simp add: group_count_sum)
  moreover have "distinct (map fst (hourly_volume_query rs))"
    using perm_distinct_fst [OF m] by (simp add: group_count_distinct)
  moreover have "\<forall>(h, c) \<in> set (hourly_volume_query rs).
      h < 24 \<and> c = count_if (\<lambda>r. hour_of (c_timestamp r) = h) rs \<and> 0 < c"
  proof (clarify)
    fix h c assume "(h, c) \<in> set (hourly_volume_query rs)"
    then have hc: "(h, c) \<in> set ?g" by (simp add: hourly_volume_query_def)
    then show "h < 24 \<and> c = count_if (\<lambda>r. hour_of (c_timestamp r) = h) rs \<and> 0 < c"
      using group_count_pos [OF hc] by (auto simp: group_count_member hour_of_lt_24)
  qed
  ultimately show ?thesis by (simp add: hourly_volume_query_def sorted_sort_key)
qed

lemma issue_distribution_query_props:
  "sum_list (map (\<lambda>(k, c, a). c) (issue_distribution_query rs)) = length rs
   \<and> sorted_wrt (\<lambda>(_, c, _) (_, c', _). c' \<le> c) (issue_distribution_query rs)
   \<and> distinct (map fst (issue_distribution_query rs))
   \<and> (\<forall>(k, c, a) \<in> set (issue_distribution_query rs).
          c = count_if (\<lambda>r. c_issue_category r = k) rs
          \<and> a = sql_avg (map c_sentiment_score (filter (\<lambda>r. c_issue_category r = k) rs)))"
proof -
  let ?g = "group_count c_issue_category rs"
  let ?m = "map (\<lambda>(k, c). (k, c, sql_avg (map c_sentiment_score (filter (\<lambda>r. c_issue_category r = k) rs)))) ?g"
  have m: "mset (issue_distribution_query rs) = mset ?m"
    by (simp add: issue_distribution_query_def order_desc_mset)
  have e1: "map (\<lambda>(k, c, a). c) ?m = map snd ?g" and e2: "map fst ?m = map fst ?g"
    by (simp_all add: comp_def split_def)
  have "sum_list (map (\<lambda>(k, c, a). c) ?m) = length rs"
    by (simp only: e1 group_count_sum)
  moreover have "distinct (map fst ?m)" by (simp only: e2 group_count_distinct)
  moreover have "sum_list (map (\<lambda>(k, c, a). c) (issue_distribution_query rs)) =
      sum_list (map (\<lambda>(k, c, a). c) ?m)"
    by (rule perm_sum_list_map [OF m])
  moreover have "distinct (map fst (issue_distribution_query rs)) = distinct (map fst ?m)"
    by (rule perm_distinct_fst [OF m])
  moreover have "sorted_wrt (\<lambda>(_, c, _) (_, c', _). c' \<le> c) (issue_distribution_query rs)"
    unfolding issue_distribution_query_def
    by (rule sorted_wrt_mono_rel [OF _ order_desc_sorted]) auto
  moreover have "set (issue_distribution_query rs) = set ?m"
    by (simp add: issue_distribution_query_def)
  ultimately show ?thesis by (auto simp: group_count_member)
qed

lemma demo_window_today:
  "dashboard_window (Some ''today'') 10000 demo_table =
     [demo_row ''s1'' 3600 (Some ''resolved'') (Some ''satisfied'') [''wifi'', ''bluetooth''],
      demo_row ''s2'' 7300 (Some ''unresolved'') None [''wifi'']]"
  by (simp add: dashboard_window_def demo_table_def demo_row_def sql_simps js_simps
      dashboard_time_filter_def in_window_def)

section \<open>Properties of the snapshot\<close>

text \<open>C1: For every range parameter, clock and table, the dashboard answers with a snapshot whose
  resolution and satisfaction rates are numbers (never \<open>NaN\<close>) between 0 and 100, and both are 0
  when no conversation is in the window.\<close>

lemma dashboard_rates_bounded:
  "case dashboard_get rg (dashboard_warehouse now table) of
     Dash_Ok b \<Rightarrow>
       \<exists>r s. resolution_rate (db_metrics b) = Some r \<and> satisfaction_rate (db_metrics b) = Some s
         \<and> 0 \<le> r \<and> r \<le> 100 \<and> 0 \<le> s \<and> s \<le> 100
         \<and> (total_conversations (db_metrics b) = 0 \<longrightarrow> r = 0 \<and> s = 0)
   | _ \<Rightarrow> False"
proof -
  let ?m = "metrics_query (dashboard_window rg now table)"
  obtain r where r: "js_rate (resolved_count ?m) (total_conversations ?m) = Some r \<and> 0 \<le> r \<and> r \<le> 100
      \<and> (total_conversations ?m = 0 \<longrightarrow> r = 0)"
    using js_rate_bounds [OF metrics_query_counts_le(1)] by blast
  obtain s where s: "js_rate (satisfied_count ?m) (total_conversations ?m) = Some s \<and> 0 \<le> s \<and> s \<le> 100
      \<and> (total_conversations ?m = 0 \<longrightarrow> s = 0)"
    using js_rate_bounds [OF metrics_query_counts_le(2)] by blast
  show ?thesis using r s by (auto simp: dashboard_get_warehouse)
qed

lemma dashboard_rates_bounded_witness:
  "case dashboard_get (Some ''month'') (dashboard_warehouse 10000 []) of
     Dash_Ok b \<Rightarrow> total_conversations (db_metrics b) = 0 \<and> resolution_rate (db_metrics b) = Some 0
   | _ \<Rightarrow> False"
  using dashboard_rates_bounded [of "Some ''month''" 10000 "[]"]
  by (simp add: dashboard_get_warehouse metrics_query_def dashboard_window_def)

text \<open>C34: When the window holds conversations, the resolution (satisfaction) rate is the share of
  resolved (satisfied) rows in percent, rounded to one decimal.\<close>

lemma dashboard_rates_exact:
  assumes "dashboard_window rg now table \<noteq> []"
  shows "case dashboard_get rg (dashboard_warehouse now table) of
     Dash_Ok b \<Rightarrow>
       resolution_rate (db_metrics b) =
         Some (fixed_round 1 (real (count_if (\<lambda>r. c_resolution_status r = Some ''resolved'') (dashboard_window rg now table))
           / real (length (dashboard_window rg now table)) * 100))
       \<and> satisfaction_rate (db_metrics b) =
         Some (fixed_round 1 (real (count_if (\<lambda>r. c_customer_satisfaction r = Some ''satisfied'') (dashboard_window rg now table))
           / real (length (dashboard_window rg now table)) * 100))
   | _ \<Rightarrow> False"
  using assms by (simp add: dashboard_get_warehouse js_rate_exact metrics_query_def)

lemma dashboard_rates_exact_witness:
  "dashboard_window (Some ''today'') 10000 demo_table \<noteq> []
   \<and> (case dashboard_get (Some ''today'') (dashboard_warehouse 10000 demo_table) of
        Dash_Ok b \<Rightarrow> resolution_rate (db_metrics b) = Some 50 \<and> satisfaction_rate (db_metrics b) = Some 50
      | _ \<Rightarrow> False)"
proof -
  have ne: "dashboard_window (Some ''today'') 10000 demo_table \<noteq> []"
    by (simp add: demo_window_today)
  have "fixed_round 1 (real 1 / real 2 * 100) = 50" by (simp add: fixed_round_def)
  with ne show ?thesis
    using dashboard_rates_exact [OF ne]
    by (simp add: demo_window_today demo_row_def sql_simps dashboard_get_warehouse)
qed

text \<open>C2: A window without conversations gives the snapshot with zero counts, empty lists and zero
  rates, but with the averages and the opportunity sum \<open>NULL\<close> (\<open>None\<close>): SQL's \<open>AVG\<close> and
  \<open>SUM\<close> of no row; the \<open>rows.length === 0\<close> branch is not taken.\<close>

lemma dashboard_empty_window:
  assumes "dashboard_window rg now table = []"
  shows "dashboard_get rg (dashboard_warehouse now table) =
    Dash_Ok \<lparr>db_metrics =
               \<lparr>total_conversations = 0, avg_sentiment = None, avg_duration = None,
                positive_count = 0, neutral_count = 0, negative_count = 0,
                resolved_count = 0, unresolved_count = 0, satisfied_count = 0,
                dissatisfied_count = 0, total_leads = 0, avg_lead_score = None,
                total_opportunity_value = None,
                resolution_rate = Some 0, satisfaction_rate = Some 0, avg_duration_minutes = 0\<rparr>,
             db_hourly_volume = [], db_top_topics = [], db_top_products = [],
             db_issue_distribution = [], db_time_range = param_or rg ''today''\<rparr>"
  using assms
  by (simp add: dashboard_get_warehouse metrics_query_def hourly_volume_query_def top_topics_query_def
      top_products_query_def issue_distribution_query_def order_desc_def derive_metrics_def
      dash_metrics_row.defs dash_metrics.defs js_rate_zero avg_minutes_def)

lemma dashboard_empty_window_witness:
  "dashboard_window (Some ''today'') 200000 demo_table = []
   \<and> dashboard_get (Some ''today'') (dashboard_warehouse 200000 demo_table) =
    Dash_Ok \<lparr>db_metrics =
               \<lparr>total_conversations = 0, avg_sentiment = None, avg_duration = None,
                positive_count = 0, neutral_count = 0, negative_count = 0,
                resolved_count = 0, unresolved_count = 0, satisfied_count = 0,
                dissatisfied_count = 0, total_leads = 0, avg_lead_score = None,
                total_opportunity_value = None,
                resolution_rate = Some 0, satisfaction_rate = Some 0, avg_duration_minutes = 0\<rparr>,
             db_hourly_volume = [], db_top_topics = [], db_top_products = [],
             db_issue_distribution = [], db_time_range = ''today''\<rparr>"
proof -
  have e: "dashboard_window (Some ''today'') 200000 demo_table = []"
    by (simp add: dashboard_window_def demo_table_def demo_row_def sql_simps js_simps
        dashboard_time_filter_def in_window_def)
  show ?thesis using dashboard_empty_window [OF e] e by (simp add: js_simps)
qed

text \<open>The hourly buckets partition the window: ordered by distinct hour of the day (below 24),
  each with the positive number of rows of that hour, the counts adding up to the window's size.\<close>

lemma dashboard_hourly_volume:
  "case dashboard_get rg (dashboard_warehouse now table) of
     Dash_Ok b \<Rightarrow>
       sum_list (map snd (db_hourly_volume b)) = length (dashboard_window rg now table)
       \<and> sorted (map fst (db_hourly_volume b)) \<and> distinct (map fst (db_hourly_volume b))
       \<and> (\<forall>(h, c) \<in> set (db_hourly_volume b). h < 24
             \<and> c = count_if (\<lambda>r. hour_of (c_timestamp r) = h) (dashboard_window rg now table) \<and> 0 < c)
   | _ \<Rightarrow> False"
  using hourly_volume_query_props [of "dashboard_window rg now table"]
  by (simp add: dashboard_get_warehouse)

lemma dashboard_hourly_volume_witness:
  "case dashboard_get (Some ''today'') (dashboard_warehouse 10000 demo_table) of
     Dash_Ok b \<Rightarrow> db_hourly_volume b = [(1, 1), (2, 1)]
       \<and> (\<forall>(h, c) \<in> set (db_hourly_volume b). h < 24
             \<and> c = count_if (\<lambda>r. hour_of (c_timestamp r) = h) (dashboard_window (Some ''today'') 10000 demo_table) \<and> 0 < c)
   | _ \<Rightarrow> False"
proof -
  show ?thesis
    using dashboard_hourly_volume [of "Some ''today''" 10000 demo_table]
    by (simp add: dashboard_get_warehouse demo_window_today hourly_volume_query_def demo_row_def sql_simps)
qed

text \<open>C36: The topic and product lists are the ten most frequent values (each occurrence in a row's
  array counted), with their exact counts, by non-increasing count.\<close>

lemma dashboard_top_lists:
  "case dashboard_get rg (dashboard_warehouse now table) of
     Dash_Ok b \<Rightarrow>
       top_counts 10 (concat (map c_topics (dashboard_window rg now table))) (db_top_topics b)
       \<and> top_counts 10 (concat (map c_product_mentions (dashboard_window rg now table))) (db_top_products b)
   | _ \<Rightarrow> False"
  by (simp add: dashboard_get_warehouse top_topics_query_def top_products_query_def
      take_order_desc_group_count)

lemma dashboard_top_lists_witness:
  "case dashboard_get (Some ''today'') (dashboard_warehouse 10000 demo_table) of
     Dash_Ok b \<Rightarrow> db_top_topics b = [(''wifi'', 2), (''bluetooth'', 1)]
       \<and> top_counts 10 [''wifi'', ''bluetooth'', ''wifi''] (db_top_topics b)
   | _ \<Rightarrow> False"
proof -
  show ?thesis
    using dashboard_top_lists [of "Some ''today''" 10000 demo_table]
    by (simp add: dashboard_get_warehouse demo_window_today top_topics_query_def demo_row_def sql_simps)
qed

text \<open>The issue distribution has one entry per issue category (\<open>NULL\<close> included) of the
  window, with its row count and average sentiment, by non-increasing count, the counts adding up
  to the window's size.\<close>

lemma dashboard_issue_distribution:
  "case dashboard_get rg (dashboard_warehouse now table) of
     Dash_Ok b \<Rightarrow>
       sum_list (map (\<lambda>(k, c, a). c) (db_issue_distribution b)) = length (dashboard_window rg now table)
       \<and> sorted_wrt (\<lambda>(_, c, _) (_, c', _). c' \<le> c) (db_issue_distribution b)
       \<and> distinct (map fst (db_issue_distribution b))
       \<and> (\<forall>(k, c, a) \<in> set (db_issue_distribution b).
             c = count_if (\<lambda>r. c_issue_category r = k) (dashboard_window rg now table)
             \<and> a = sql_avg (map c_sentiment_score
                     (filter (\<lambda>r. c_issue_category r = k) (dashboard_window rg now table))))
   | _ \<Rightarrow> False"
  using issue_distribution_query_props [of "dashboard_window rg now table"]
  by (simp add: dashboard_get_warehouse)

lemma dashboard_issue_distribution_witness:
  "case dashboard_get (Some ''today'') (dashboard_warehouse 10000 demo_table) of
     Dash_Ok b \<Rightarrow> db_issue_distribution b = [(Some ''billing'', 2, Some (1 / 2))]
       \<and> (\<forall>(k, c, a) \<in> set (db_issue_distribution b).
             c = count_if (\<lambda>r. c_issue_category r = k) (dashboard_window (Some ''today'') 10000 demo_table))
   | _ \<Rightarrow> False"
proof -
  show ?thesis
    using dashboard_issue_distribution [of "Some ''today''" 10000 demo_table]
    by (simp add: dashboard_get_warehouse demo_window_today issue_distribution_query_def demo_row_def sql_simps)
qed

end
