(* ===== verification/Leads.thy ===== *)
theory Leads
  imports Warehouse "HOL-Library.Product_Lexorder"
begin

text \<open>
  \<open>src/app/api/analytics/leads/route.js\<close>: \<open>GET\<close> lists the leads of the last 30 days
  matching the \<open>status\<close> and \<open>type\<close> parameters, joined with their conversation,
  ordered by score and recency and cut at \<open>limit\<close>, together with summary statistics
  of the whole 30-day window; \<open>POST\<close> applies a partial update to one lead. The leads
  table is a list of \<open>lead_row\<close>s; the query texts are built as in the code, and
  their meaning is given by the engine semantics below (the intended reading of each
  filter and assignment: a value holding a quote changes the text's meaning, see
  \<open>lead_update_injection\<close>).
\<close>

section \<open>The leads table\<close>

record lead_row =
  l_lead_id :: string
  l_session_id :: string
  l_identified_at :: int
  l_lead_type :: "string option"
  l_lead_score :: "real option"
  l_opportunity_value_estimate :: "real option"
  l_products_interested :: "string list"
  l_business_signals :: "string list"
  l_conversation_summary :: "string option"
  l_key_insights :: "string option"
  l_recommended_action :: "string option"
  l_priority :: "string option"
  l_status :: "string option"
  l_contacted_at :: "int option"
  l_converted_at :: "int option"
  l_conversion_value :: "real option"
  l_assigned_to :: "string option"

abbreviation sql_quote :: string where
  "sql_quote \<equiv> [CHR 0x27]"

section \<open>\<open>GET\<close>: the lead list\<close>

datatype lead_filter = Identified_Within_30_Days | Status_Is string | Lead_Type_Is string

text \<open>The \<open>filters\<close> array (lines 18--26).\<close>

definition lead_filters :: "string \<Rightarrow> string \<Rightarrow> lead_filter list" where
  "lead_filters status lead_type =
     [Identified_Within_30_Days]
     @ (if status \<noteq> ''all'' then [Status_Is status] else [])
     @ (if lead_type \<noteq> ''all'' then [Lead_Type_Is lead_type] else [])"

fun filter_sql :: "lead_filter \<Rightarrow> string" where
  "filter_sql Identified_Within_30_Days =
     ''l.identified_at >= TIMESTAMP_SUB(CURRENT_TIMESTAMP(), INTERVAL 30 DAY)''"
| "filter_sql (Status_Is s) = ''l.status = '' @ sql_quote @ s @ sql_quote"
| "filter_sql (Lead_Type_Is t) = ''l.lead_type = '' @ sql_quote @ t @ sql_quote"

definition where_clause :: "lead_filter list \<Rightarrow> string" where
  "where_clause fs = js_join '' AND '' (map filter_sql fs)"

text \<open>The engine's reading of each filter.\<close>

fun lead_filter_holds :: "int \<Rightarrow> lead_filter \<Rightarrow> lead_row \<Rightarrow> bool" where
  "lead_filter_holds now Identified_Within_30_Days l = within_days now 30 (l_identified_at l)"
| "lead_filter_holds now (Status_Is s) l = (l_status l = Some s)"
| "lead_filter_holds now (Lead_Type_Is t) l = (l_lead_type l = Some t)"

text \<open>A row of the lead list: the selected lead columns and the columns of the
  conversation the \<open>LEFT JOIN\<close> attaches (\<open>NULL\<close> when there is none).\<close>

record lead_view =
  v_lead_id :: string
  v_session_id :: string
  v_identified_at :: int
  v_lead_type :: "string option"
  v_lead_score :: "real option"
  v_opportunity_value_estimate :: "real option"
  v_products_interested :: "string list"
  v_business_signals :: "string list"
  v_conversation_summary :: "string option"
  v_key_insights :: "string option"
  v_recommended_action :: "string option"
  v_priority :: "string option"
  v_status :: "string option"
  v_contacted_at :: "int option"
  v_converted_at :: "int option"
  v_conversion_value :: "real option"
  v_sentiment_label :: "string option"
  v_sentiment_score :: "real option"
  v_channel :: "string option"
  v_conversation_timestamp :: "int option"

definition lead_view_of :: "lead_row \<Rightarrow> conv_row option \<Rightarrow> lead_view" where
  "lead_view_of l c =
     \<lparr>v_lead_id = l_lead_id l, v_session_id = l_session_id l, v_identified_at = l_identified_at l,
      v_lead_type = l_lead_type l, v_lead_score = l_lead_score l,
      v_opportunity_value_estimate = l_opportunity_value_estimate l,
      v_products_interested = l_products_interested l, v_business_signals = l_business_signals l,
      v_conversation_summary = l_conversation_summary l, v_key_insights = l_key_insights l,
      v_recommended_action = l_recommended_action l, v_priority = l_priority l,
      v_status = l_status l, v_contacted_at = l_contacted_at l, v_converted_at = l_converted_at l,
      v_conversion_value = l_conversion_value l,
      v_sentiment_label = (case c of None \<Rightarrow> None | Some r \<Rightarrow> c_sentiment_label r),
      v_sentiment_score = (case c of None \<Rightarrow> None | Some r \<Rightarrow> c_sentiment_score r),
      v_channel = (case c of None \<Rightarrow> None | Some r \<Rightarrow> c_channel r),
      v_conversation_timestamp = map_option c_timestamp c\<rparr>"

text \<open>\<open>l LEFT JOIN c ON l.session_id = c.session_id\<close>: one row per matching
  conversation, or one row with \<open>NULL\<close>s when none matches.\<close>

definition left_join :: "conv_row list \<Rightarrow> lead_row \<Rightarrow> lead_view list" where
  "left_join convs l =
     (case filter (\<lambda>c. c_session_id c = l_session_id l) convs of
        [] \<Rightarrow> [lead_view_of l None]
      | cs \<Rightarrow> map (\<lambda>c. lead_view_of l (Some c)) cs)"

text \<open>\<open>ORDER BY l.lead_score DESC, l.identified_at DESC\<close>: \<open>NULL\<close> scores last (the
  engine's default for a descending key); ties keep the table order.\<close>

definition lead_order_key :: "lead_view \<Rightarrow> (bool \<times> real) \<times> int" where
  "lead_order_key v =
     ((case v_lead_score v of None \<Rightarrow> (True, 0) | Some s \<Rightarrow> (False, - s)), - v_identified_at v)"

text \<open>The list query, \<open>LIMIT\<close> included: a limit that is \<open>NaN\<close> or negative makes the
  statement invalid, and the engine rejects it.\<close>

definition leads_query :: "int \<Rightarrow> lead_row list \<Rightarrow> conv_row list \<Rightarrow> lead_filter list \<Rightarrow> int option
    \<Rightarrow> string + lead_view list" where
  "leads_query now leads convs fs limit =
     (case limit of
        None \<Rightarrow> Inl ''invalid LIMIT''
      | Some n \<Rightarrow>
          if n < 0 then Inl ''invalid LIMIT''
          else Inr (take (nat n) (sort_key lead_order_key
                 (concat (map (left_join convs)
                    (filter (\<lambda>l. list_all (\<lambda>f. lead_filter_holds now f l) fs) leads))))))"

section \<open>\<open>GET\<close>: the statistics\<close>

record lead_stats_row =
  s_total_leads :: nat
  s_new_leads :: nat
  s_contacted_leads :: nat
  s_qualified_leads :: nat
  s_converted_leads :: nat
  s_avg_lead_score :: "real option"
  s_total_opportunity_value :: "real option"
  s_total_conversion_value :: "real option"
  s_business_center_count :: nat
  s_premium_product_count :: nat
  s_bulk_purchase_count :: nat

definition stats_query :: "int \<Rightarrow> lead_row list \<Rightarrow> lead_stats_row" where
  "stats_query now leads =
     (let ls = filter (\<lambda>l. within_days now 30 (l_identified_at l)) leads
      in \<lparr>s_total_leads = length ls,
          s_new_leads = count_if (\<lambda>l. l_status l = Some ''new'') ls,
          s_contacted_leads = count_if (\<lambda>l. l_status l = Some ''contacted'') ls,
          s_qualified_leads = count_if (\<lambda>l. l_status l = Some ''qualified'') ls,
          s_converted_leads = count_if (\<lambda>l. l_status l = Some ''converted'') ls,
          s_avg_lead_score = sql_avg (map l_lead_score ls),
          s_total_opportunity_value = sql_sum (map l_opportunity_value_estimate ls),
          s_total_conversion_value = sql_sum (map l_conversion_value ls),
          s_business_center_count = count_if (\<lambda>l. l_lead_type l = Some ''business_center'') ls,
          s_premium_product_count = count_if (\<lambda>l. l_lead_type l = Some ''premium_product'') ls,
          s_bulk_purchase_count = count_if (\<lambda>l. l_lead_type l = Some ''bulk_purchase'') ls\<rparr>)"

text \<open>\<open>statsRows[0] || {}\<close>: with no row every field is \<open>undefined\<close>, which the
  \<open>|| 0\<close> defaults and the tests below read as the all-zero row.\<close>

definition no_stats :: lead_stats_row where
  "no_stats =
     \<lparr>s_total_leads = 0, s_new_leads = 0, s_contacted_leads = 0, s_qualified_leads = 0,
      s_converted_leads = 0, s_avg_lead_score = None, s_total_opportunity_value = None,
      s_total_conversion_value = None, s_business_center_count = 0, s_premium_product_count = 0,
      s_bulk_purchase_count = 0\<rparr>"

text \<open>A JSON value that is a number or a string: \<open>conversion_rate\<close> is the string
  \<open>toFixed\<close> returns, or the number \<open>0\<close>.\<close>

datatype json_num = J_Num real | J_Str string

record lead_stats =
  ls_total_leads :: nat
  ls_new_leads :: nat
  ls_contacted_leads :: nat
  ls_qualified_leads :: nat
  ls_converted_leads :: nat
  ls_avg_lead_score :: "real option"
  ls_total_opportunity_value :: real
  ls_total_conversion_value :: real
  ls_conversion_rate :: json_num
  ls_business_center_count :: nat
  ls_premium_product_count :: nat
  ls_bulk_purchase_count :: nat

text \<open>\<open>x || 0\<close> on a nullable number.\<close>

definition or_zero :: "real option \<Rightarrow> real" where
  "or_zero v = (case v of None \<Rightarrow> 0 | Some x \<Rightarrow> x)"

definition derive_lead_stats :: "lead_stats_row \<Rightarrow> lead_stats" where
  "derive_lead_stats s =
     \<lparr>ls_total_leads = s_total_leads s, ls_new_leads = s_new_leads s,
      ls_contacted_leads = s_contacted_leads s, ls_qualified_leads = s_qualified_leads s,
      ls_converted_leads = s_converted_leads s,
      ls_avg_lead_score = (case s_avg_lead_score s of
                             None \<Rightarrow> Some 0
                           | Some a \<Rightarrow> if a = 0 then Some 0 else parse_float (js_to_fixed 1 a)),
      ls_total_opportunity_value = or_zero (s_total_opportunity_value s),
      ls_total_conversion_value = or_zero (s_total_conversion_value s),
      ls_conversion_rate =
        (if 0 < s_total_leads s
         then J_Str (js_to_fixed 1 (real (s_converted_leads s) / real (s_total_leads s) * 100))
         else J_Num 0),
      ls_business_center_count = s_business_center_count s,
      ls_premium_product_count = s_premium_product_count s,
      ls_bulk_purchase_count = s_bulk_purchase_count s\<rparr>"

text \<open>The responses: the list with the statistics and the echoed filters, or the 500
  response carrying the engine's error message.\<close>

datatype leads_response =
    Leads_Ok "lead_view list" lead_stats "string \<times> string \<times> int option"
  | Leads_Error string

definition leads_get ::
  "string option \<Rightarrow> string option \<Rightarrow> string option
   \<Rightarrow> (lead_filter list \<Rightarrow> int option \<Rightarrow> string + lead_view list)
   \<Rightarrow> string + lead_stats_row list \<Rightarrow> leads_response" where
  "leads_get status_p type_p limit_p exec_list exec_stats =
     (let status = param_or status_p ''new'';
          lead_type = param_or type_p ''all'';
          limit = parse_int (param_or limit_p ''50'')
      in case exec_list (lead_filters status lead_type) limit of
           Inl e \<Rightarrow> Leads_Error e
         | Inr rows \<Rightarrow>
             (case exec_stats of
                Inl e \<Rightarrow> Leads_Error e
              | Inr srows \<Rightarrow>
                  Leads_Ok rows (derive_lead_stats (case srows of [] \<Rightarrow> no_stats | s # _ \<Rightarrow> s))
                    (status, lead_type, limit)))"

text \<open>The outcome the statistics statement specifies on a table and a clock (an
  aggregate without \<open>GROUP BY\<close> returns exactly one row); the list statement's is
  \<open>leads_query\<close>.\<close>

definition leads_stats_warehouse :: "int \<Rightarrow> lead_row list \<Rightarrow> string + lead_stats_row list" where
  "leads_stats_warehouse now leads = Inr [stats_query now leads]"

section \<open>\<open>POST\<close>: the lead update\<close>

text \<open>The fields of the request body the handler reads. A text field is absent
  (\<open>None\<close>) or a string; \<open>conversion_value\<close> is absent, \<open>null\<close> (\<open>Some None\<close>) or
  a number, modelled as an integer amount.\<close>

record lead_update_body =
  b_lead_id :: "string option"
  b_status :: "string option"
  b_contacted_at :: "string option"
  b_converted_at :: "string option"
  b_conversion_value :: "int option option"
  b_assigned_to :: "string option"

datatype lead_update =
    Set_Status string
  | Set_Contacted_At string
  | Set_Converted_At string
  | Set_Conversion_Value "int option"
  | Set_Assigned_To string

text \<open>\<open>if (v) updates.push(...)\<close> for a text field.\<close>

definition opt_update :: "string option \<Rightarrow> (string \<Rightarrow> lead_update) \<Rightarrow> lead_update list" where
  "opt_update v f = (case v of None \<Rightarrow> [] | Some s \<Rightarrow> if s = [] then [] else [f s])"

text \<open>The \<open>updates\<close> array (lines 139--155), as the assignments it
  denotes.\<close>

definition lead_update_items :: "string \<Rightarrow> lead_update_body \<Rightarrow> lead_update list" where
  "lead_update_items status b =
     [Set_Status status]
     @ opt_update (b_contacted_at b) Set_Contacted_At
     @ opt_update (b_converted_at b) Set_Converted_At
     @ (case b_conversion_value b of None \<Rightarrow> [] | Some v \<Rightarrow> [Set_Conversion_Value v])
     @ opt_update (b_assigned_to b) Set_Assigned_To"

text \<open>The text of each entry (the template strings of lines 139--155).\<close>

fun update_sql :: "lead_update \<Rightarrow> string" where
  "update_sql (Set_Status s) = ''status = '' @ sql_quote @ s @ sql_quote"
| "update_sql (Set_Contacted_At t) = ''contacted_at = TIMESTAMP('' @ sql_quote @ t @ sql_quote @ '')''"
| "update_sql (Set_Converted_At t) = ''converted_at = TIMESTAMP('' @ sql_quote @ t @ sql_quote @ '')''"
| "update_sql (Set_Conversion_Value v) =
     ''conversion_value = '' @ (case v of None \<Rightarrow> ''null'' | Some x \<Rightarrow> js_int_text x)"
| "update_sql (Set_Assigned_To a) = ''assigned_to = '' @ sql_quote @ a @ sql_quote"

text \<open>\<open>SET ${updates.join(', ')}\<close>.\<close>

definition set_clause :: "lead_update list \<Rightarrow> string" where
  "set_clause us = js_join '', '' (map update_sql us)"

text \<open>The engine's reading of an assignment: \<open>TIMESTAMP(t)\<close> is the parameter
  \<open>tp\<close> (the engine's timestamp parser, \<open>None\<close> when \<open>t\<close> is no timestamp); an
  unparsable literal makes the whole statement fail.\<close>

fun resolve_update :: "(string \<Rightarrow> int option) \<Rightarrow> lead_update \<Rightarrow> (lead_row \<Rightarrow> lead_row) option" where
  "resolve_update tp (Set_Status s) = Some (\<lambda>l. l\<lparr>l_status := Some s\<rparr>)"
| "resolve_update tp (Set_Contacted_At t) = map_option (\<lambda>ts l. l\<lparr>l_contacted_at := Some ts\<rparr>) (tp t)"
| "resolve_update tp (Set_Converted_At t) = map_option (\<lambda>ts l. l\<lparr>l_converted_at := Some ts\<rparr>) (tp t)"
| "resolve_update tp (Set_Conversion_Value v) =
     Some (\<lambda>l. l\<lparr>l_conversion_value := map_option real_of_int v\<rparr>)"
| "resolve_update tp (Set_Assigned_To a) = Some (\<lambda>l. l\<lparr>l_assigned_to := Some a\<rparr>)"

text \<open>\<open>UPDATE leads SET ... WHERE lead_id = id\<close>: every row with that id gets all
  assignments; the statement is atomic.\<close>

definition run_update ::
  "(string \<Rightarrow> int option) \<Rightarrow> string \<Rightarrow> lead_update list \<Rightarrow> lead_row list \<Rightarrow> string + lead_row list" where
  "run_update tp lead_id us table =
     (case those (map (resolve_update tp) us) of
        None \<Rightarrow> Inl ''invalid timestamp''
      | Some fs \<Rightarrow> Inr (map (\<lambda>l. if l_lead_id l = lead_id then fold (\<lambda>f. f) fs l else l) table))"

datatype lead_post_response =
    Post_Bad_Request string
  | Post_Updated string "string list"
  | Post_Error string

text \<open>The handler as a state transition on the leads table: the request body
  (\<open>Inl\<close> when \<open>request.json()\<close> throws), the table before, the response and the
  table after.\<close>

definition leads_post ::
  "(string \<Rightarrow> int option) \<Rightarrow> string + lead_update_body \<Rightarrow> lead_row list
   \<Rightarrow> lead_post_response \<times> lead_row list" where
  "leads_post tp req table =
     (case req of
        Inl e \<Rightarrow> (Post_Error e, table)
      | Inr b \<Rightarrow>
          (case (b_lead_id b, b_status b) of
             (Some lead_id, Some status) \<Rightarrow>
               if lead_id = [] \<or> status = []
               then (Post_Bad_Request ''lead_id and status are required'', table)
               else (let us = lead_update_items status b
                     in case run_update tp lead_id us table of
                          Inl e \<Rightarrow> (Post_Error e, table)
                        | Inr table' \<Rightarrow> (Post_Updated lead_id (map update_sql us), table'))
           | _ \<Rightarrow> (Post_Bad_Request ''lead_id and status are required'', table)))"

text \<open>The tables reachable from a table by a sequence of \<open>POST\<close>
  requests.\<close>

inductive lead_reach :: "(string \<Rightarrow> int option) \<Rightarrow> lead_row list \<Rightarrow> lead_row list \<Rightarrow> bool"
  for tp where
  lead_reach_refl: "lead_reach tp t t"
| lead_reach_post: "lead_reach tp t0 t \<Longrightarrow> lead_reach tp t0 (snd (leads_post tp req t))"

text \<open>A row without the columns \<open>POST\<close> may write.\<close>

definition lead_identity :: "lead_row \<Rightarrow> lead_row" where
  "lead_identity l =
     l\<lparr>l_status := None, l_contacted_at := None, l_converted_at := None,
       l_conversion_value := None, l_assigned_to := None\<rparr>"

section \<open>Example leads\<close>

definition demo_lead ::
  "string \<Rightarrow> string \<Rightarrow> int \<Rightarrow> string option \<Rightarrow> string option \<Rightarrow> real option \<Rightarrow> lead_row" where
  "demo_lead lid sid ts status lead_type score =
     \<lparr>l_lead_id = lid, l_session_id = sid, l_identified_at = ts, l_lead_type = lead_type,
      l_lead_score = score, l_opportunity_value_estimate = Some 1000, l_products_interested = [],
      l_business_signals = [], l_conversation_summary = None, l_key_insights = None,
      l_recommended_action = None, l_priority = None, l_status = status, l_contacted_at = None,
      l_converted_at = None, l_conversion_value = None, l_assigned_to = None\<rparr>"

definition demo_leads :: "lead_row list" where
  "demo_leads =
     [demo_lead ''L1'' ''s1'' 3600 (Some ''new'') (Some ''business_center'') (Some 80),
      demo_lead ''L2'' ''s2'' 7200 (Some ''converted'') (Some ''bulk_purchase'') (Some 90),
      demo_lead ''L3'' ''s9'' 5000 (Some ''new'') None None]"

definition demo_update :: "string \<Rightarrow> string \<Rightarrow> lead_update_body" where
  "demo_update lid st =
     \<lparr>b_lead_id = Some lid, b_status = Some st, b_contacted_at = None, b_converted_at = None,
      b_conversion_value = None, b_assigned_to = None\<rparr>"

section \<open>Lemmas\<close>

lemma left_join_view:
  "v \<in> set (left_join convs l) \<Longrightarrow>
     v_lead_id v = l_lead_id l \<and> v_identified_at v = l_identified_at l \<and> v_status v = l_status l
     \<and> v_lead_type v = l_lead_type l \<and> v_lead_score v = l_lead_score l"
  by (auto simp: left_join_def lead_view_of_def split: list.splits)

lemma left_join_not_Nil [simp]: "left_join convs l \<noteq> []"
  by (simp add: left_join_def split: list.splits)

lemma lead_filters_holds:
  "list_all (\<lambda>f. lead_filter_holds now f l) (lead_filters status lead_type) \<longleftrightarrow>
     within_days now 30 (l_identified_at l)
     \<and> (status \<noteq> ''all'' \<longrightarrow> l_status l = Some status)
     \<and> (lead_type \<noteq> ''all'' \<longrightarrow> l_lead_type l = Some lead_type)"
  by (simp add: lead_filters_def)

text \<open>The rows the list statement selects before ordering and cutting.\<close>

lemma leads_query_Some:
  "0 \<le> n \<Longrightarrow> leads_query now leads convs fs (Some n) =
     Inr (take (nat n) (sort_key lead_order_key
        (concat (map (left_join convs) (filter (\<lambda>l. list_all (\<lambda>f. lead_filter_holds now f l) fs) leads)))))"
  by (simp add: leads_query_def)

lemma leads_query_rows:
  assumes "0 \<le> n"
  shows "leads_query now leads convs fs (Some n) = Inr rows \<Longrightarrow>
    length rows \<le> nat n \<and> sorted (map lead_order_key rows)
    \<and> (\<forall>v \<in> set rows. \<exists>l \<in> set leads. list_all (\<lambda>f. lead_filter_holds now f l) fs \<and> v \<in> set (left_join convs l))"
proof -
  assume q: "leads_query now leads convs fs (Some n) = Inr rows"
  let ?j = "concat (map (left_join convs) (filter (\<lambda>l. list_all (\<lambda>f. lead_filter_holds now f l) fs) leads))"
  have r: "rows = take (nat n) (sort_key lead_order_key ?j)" using q assms by (simp add: leads_query_Some)
  have "sorted (map lead_order_key rows)"
    unfolding r by (metis sorted_sort_key sorted_wrt_take take_map)
  moreover have "\<forall>v \<in> set rows. v \<in> set ?j" unfolding r by (auto dest: in_set_takeD)
  ultimately show ?thesis by (auto simp: r)
qed

lemma leads_get_warehouse:
  assumes "parse_int (param_or limit_p ''50'') = Some n" and "0 \<le> n"
  shows "leads_get status_p type_p limit_p (leads_query now leads convs) (leads_stats_warehouse now leads) =
    Leads_Ok (take (nat n) (sort_key lead_order_key
                (concat (map (left_join convs)
                   (filter (\<lambda>l. list_all (\<lambda>f. lead_filter_holds now f l)
                      (lead_filters (param_or status_p ''new'') (param_or type_p ''all''))) leads)))))
      (derive_lead_stats (stats_query now leads))
      (param_or status_p ''new'', param_or type_p ''all'', Some n)"
  using assms by (simp add: leads_get_def leads_query_Some leads_stats_warehouse_def Let_def)


text \<open>C33: With \<open>status=all\<close>, \<open>type=all\<close> and a limit that
  does not cut, the list is exactly the joined leads of the 30-day window, as a
  multiset.\<close>

lemma leads_all_complete:
  assumes "parse_int (param_or limit_p ''50'') = Some n" and "0 \<le> n"
    and "length (concat (map (left_join convs) (filter (\<lambda>l. within_days now 30 (l_identified_at l)) leads))) \<le> nat n"
  shows "case leads_get (Some ''all'') (Some ''all'') limit_p (leads_query now leads convs)
                (leads_stats_warehouse now leads) of
     Leads_Ok rows st f \<Rightarrow>
       mset rows = mset (concat (map (left_join convs) (filter (\<lambda>l. within_days now 30 (l_identified_at l)) leads)))
   | Leads_Error e \<Rightarrow> False"
  using assms by (simp add: leads_get_warehouse lead_filters_def param_or_def)

text \<open>A \<open>limit\<close> that is not a number or is negative makes the list
  statement fail, and the handler answers with the 500 error response.\<close>

lemma leads_invalid_limit:
  assumes "parse_int (param_or limit_p ''50'') = None \<or> (\<exists>n < 0. parse_int (param_or limit_p ''50'') = Some n)"
  shows "leads_get status_p type_p limit_p (leads_query now leads convs) stats = Leads_Error ''invalid LIMIT''"
  using assms by (auto simp: leads_get_def leads_query_def Let_def)

lemma stats_query_status_counts:
  "s_new_leads (stats_query now leads) + s_contacted_leads (stats_query now leads)
   + s_qualified_leads (stats_query now leads) + s_converted_leads (stats_query now leads)
   \<le> s_total_leads (stats_query now leads)"
proof -
  let ?ls = "filter (\<lambda>l. within_days now 30 (l_identified_at l)) leads"
  have c: "\<And>s. count_if (\<lambda>l. l_status l = Some s) ?ls = count_list (map l_status ?ls) (Some s)"
    by (rule count_if_map_eq)
  have c4: "count_list xs (Some ''new'') + count_list xs (Some ''contacted'')
      + count_list xs (Some ''qualified'') + count_list xs (Some ''converted'') \<le> length xs" for xs
    by (induction xs) auto
  show ?thesis using c4 [of "map l_status ?ls"] by (simp add: stats_query_def Let_def c)
qed

text \<open>C6: The statistics count no more leads by status than in total; the average
  score is the rounded average (0 without scores); the conversion rate is the
  \<open>toFixed(1)\<close> text of the converted share, which reads back as a number in [0,
  100], when there are leads, and the number 0 otherwise.\<close>

lemma leads_stats_derived:
  assumes "parse_int (param_or limit_p ''50'') = Some n" and "0 \<le> n"
  shows "case leads_get status_p type_p limit_p (leads_query now leads convs) (leads_stats_warehouse now leads) of
     Leads_Ok rows st f \<Rightarrow>
       ls_new_leads st + ls_contacted_leads st + ls_qualified_leads st + ls_converted_leads st \<le> ls_total_leads st
       \<and> ls_avg_lead_score st = Some (case s_avg_lead_score (stats_query now leads) of None \<Rightarrow> 0 | Some a \<Rightarrow> fixed_round 1 a)
       \<and> (case ls_conversion_rate st of
            J_Str t \<Rightarrow> 0 < ls_total_leads st
              \<and> parse_float t = Some (fixed_round 1 (real (ls_converted_leads st) / real (ls_total_leads st) * 100))
              \<and> 0 \<le> fixed_round 1 (real (ls_converted_leads st) / real (ls_total_leads st) * 100)
              \<and> fixed_round 1 (real (ls_converted_leads st) / real (ls_total_leads st) * 100) \<le> 100
          | J_Num x \<Rightarrow> ls_total_leads st = 0 \<and> x = 0)
   | Leads_Error e \<Rightarrow> False"
proof -
  let ?s = "stats_query now leads"
  have le: "s_converted_leads ?s \<le> s_total_leads ?s" using stats_query_status_counts [of now leads] by linarith
  have avg: "(case s_avg_lead_score ?s of None \<Rightarrow> Some 0 | Some a \<Rightarrow> if a = 0 then Some 0 else parse_float (js_to_fixed 1 a))
      = Some (case s_avg_lead_score ?s of None \<Rightarrow> 0 | Some a \<Rightarrow> fixed_round 1 a)"
    by (auto simp: parse_float_to_fixed fixed_round_def split: option.split)
  show ?thesis
    using assms stats_query_status_counts [of now leads] avg percent_fixed_bounds [OF le]
    by (simp add: leads_get_warehouse derive_lead_stats_def parse_float_to_fixed)
qed

lemma those_Some_set: "those xs = Some ys \<Longrightarrow> y \<in> set ys \<Longrightarrow> Some y \<in> set xs"
  by (induction xs arbitrary: ys) (auto split: option.splits)

lemma resolve_update_keeps:
  "resolve_update tp u = Some f \<Longrightarrow> lead_identity (f l) = lead_identity l \<and> l_lead_id (f l) = l_lead_id l"
  by (cases u) (auto simp: lead_identity_def)

lemma fold_resolved_keeps:
  "\<forall>f \<in> set fs. \<forall>l. lead_identity (f l) = lead_identity l \<and> l_lead_id (f l) = l_lead_id l \<Longrightarrow>
   lead_identity (fold (\<lambda>f. f) fs l) = lead_identity l \<and> l_lead_id (fold (\<lambda>f. f) fs l) = l_lead_id l"
  by (induction fs arbitrary: l) auto

text \<open>A successful update maps the table row by row, touching only the rows of the
  lead and, in them, only the columns \<open>POST\<close> may write.\<close>

lemma run_update_Inr:
  assumes "run_update tp lead_id us t = Inr t'"
  shows "\<exists>U. t' = map (\<lambda>l. if l_lead_id l = lead_id then U l else l) t
     \<and> (\<forall>l. lead_identity (U l) = lead_identity l \<and> l_lead_id (U l) = l_lead_id l)"
proof -
  obtain fs where fs: "those (map (resolve_update tp) us) = Some fs"
    and t': "t' = map (\<lambda>l. if l_lead_id l = lead_id then fold (\<lambda>f. f) fs l else l) t"
    using assms by (auto simp: run_update_def split: option.splits)
  have "\<forall>f \<in> set fs. \<forall>l. lead_identity (f l) = lead_identity l \<and> l_lead_id (f l) = l_lead_id l"
    using those_Some_set [OF fs] resolve_update_keeps by fastforce
  with t' show ?thesis by (blast dest: fold_resolved_keeps)
qed

lemma run_update_table_independent:
  "run_update tp lead_id us t = Inl e \<Longrightarrow> run_update tp lead_id us t' = Inl e"
  by (simp add: run_update_def split: option.splits)

lemma leads_post_cases:
  "snd (leads_post tp req t) = t
   \<or> (\<exists>b lead_id. req = Inr b \<and> b_lead_id b = Some lead_id \<and>
        run_update tp lead_id (lead_update_items (the (b_status b)) b) t = Inr (snd (leads_post tp req t)))"
  by (auto simp: leads_post_def Let_def split: sum.splits option.splits if_splits)

lemma leads_post_identity: "map lead_identity (snd (leads_post tp req t)) = map lead_identity t"
  using leads_post_cases [of tp req t] by (force dest: run_update_Inr)

text \<open>The row a successful update of lead \<open>b\<close> makes of \<open>l\<close>,
  column by column.\<close>


lemma leads_post_effect:
  "\<exists>U. (\<forall>l. l_lead_id (U l) = l_lead_id l)
     \<and> (\<forall>t. snd (leads_post tp (Inr b) t) = map (\<lambda>l. if Some (l_lead_id l) = b_lead_id b then U l else l) t)"
proof (cases "\<exists>fs lid st. b_lead_id b = Some lid \<and> lid \<noteq> [] \<and> b_status b = Some st \<and> st \<noteq> []
    \<and> those (map (resolve_update tp) (lead_update_items st b)) = Some fs")
  case True
  then obtain fs lid st where c: "b_lead_id b = Some lid" "lid \<noteq> []" "b_status b = Some st" "st \<noteq> []"
    and fs: "those (map (resolve_update tp) (lead_update_items st b)) = Some fs" by blast
  have "\<forall>f \<in> set fs. \<forall>l. lead_identity (f l) = lead_identity l \<and> l_lead_id (f l) = l_lead_id l"
    using those_Some_set [OF fs] resolve_update_keeps by fastforce
  then have "\<forall>l. l_lead_id (fold (\<lambda>f. f) fs l) = l_lead_id l" by (blast dest: fold_resolved_keeps)
  moreover have "\<forall>t. snd (leads_post tp (Inr b) t) =
      map (\<lambda>l. if Some (l_lead_id l) = b_lead_id b then fold (\<lambda>f. f) fs l else l) t"
    using c fs by (simp add: leads_post_def run_update_def Let_def)
  ultimately show ?thesis by blast
next
  case False
  then have "\<forall>t. snd (leads_post tp (Inr b) t) = t"
    by (auto simp: leads_post_def run_update_def Let_def split: option.splits)
  then show ?thesis by (intro exI [of _ "\<lambda>l. l"]) simp
qed


text \<open>Repeating a request changes nothing more: updates are idempotent.\<close>

lemma leads_post_idempotent:
  "snd (leads_post tp req (snd (leads_post tp req t))) = snd (leads_post tp req t)"
  by (auto simp: leads_post_def run_update_def lead_update_items_def opt_update_def Let_def
      split: sum.splits option.splits if_splits intro!: map_cong)

text \<open>C5: An update without a lead id or a status is refused with the 400 response and
  leaves the table as it was.\<close>

lemma leads_post_validation:
  assumes "\<not> js_truthy (b_lead_id b) \<or> \<not> js_truthy (b_status b)"
  shows "leads_post tp (Inr b) t = (Post_Bad_Request ''lead_id and status are required'', t)"
  using assms by (auto simp: leads_post_def js_truthy_def split: option.splits)

lemma leads_post_Updated:
  "leads_post tp (Inr b) t = (Post_Updated lid fs, t') \<Longrightarrow>
   \<exists>st. b_lead_id b = Some lid \<and> lid \<noteq> [] \<and> b_status b = Some st \<and> st \<noteq> []
     \<and> fs = map update_sql (lead_update_items st b)
     \<and> run_update tp lid (lead_update_items st b) t = Inr t'"
  by (auto simp: leads_post_def Let_def split: option.splits if_splits sum.splits)

lemma those_Cons_Some: "those (x # xs) = Some ys \<Longrightarrow> \<exists>y ys'. x = Some y \<and> those xs = Some ys' \<and> ys = y # ys'"
  by (auto split: option.splits)

lemma lead_update_items_status:
  "lead_update_items st b = Set_Status st # us \<Longrightarrow> u \<in> set us \<Longrightarrow> resolve_update tp u = Some f \<Longrightarrow>
   l_status (f l) = l_status l"
  by (auto simp: lead_update_items_def opt_update_def split: option.splits if_splits)

lemma fold_keeps_status:
  "\<forall>f \<in> set fs. \<forall>l. l_status (f l) = l_status l \<Longrightarrow> l_status (fold (\<lambda>f. f) fs l) = l_status l"
  by (induction fs arbitrary: l) auto

lemma run_update_status:
  assumes "run_update tp lid (lead_update_items st b) t = Inr t'" and "l \<in> set t'" and "l_lead_id l = lid"
  shows "l_status l = Some st"
proof -
  obtain us where us: "lead_update_items st b = Set_Status st # us"
    by (simp add: lead_update_items_def)
  obtain fs where fs: "those (map (resolve_update tp) (Set_Status st # us)) = Some fs"
    and t': "t' = map (\<lambda>l. if l_lead_id l = lid then fold (\<lambda>f. f) fs l else l) t"
    using assms(1) us by (auto simp: run_update_def split: option.splits)
  obtain fs' where fs': "those (map (resolve_update tp) us) = Some fs'"
    and fs_eq: "fs = (\<lambda>l. l\<lparr>l_status := Some st\<rparr>) # fs'"
    using those_Cons_Some [of _ "map (resolve_update tp) us"] fs by fastforce
  have "\<forall>f \<in> set fs'. \<forall>l. l_status (f l) = l_status l"
    using those_Some_set [OF fs'] lead_update_items_status [OF us] by fastforce
  then show ?thesis
    using assms(2,3) fold_keeps_status [of fs'] by (auto simp: t' fs_eq)
qed

lemma leads_post_status:
  "leads_post tp (Inr b) t = (Post_Updated lid fs, t') \<Longrightarrow> l \<in> set t' \<Longrightarrow> l_lead_id l = lid \<Longrightarrow>
   l_status l = b_status b"
  by (auto dest!: leads_post_Updated run_update_status)


lemma lead_reach_identity: "lead_reach tp t0 t \<Longrightarrow> map lead_identity t = map lead_identity t0"
  by (induction rule: lead_reach.induct) (simp_all add: leads_post_identity)

lemma stats_query_identity:
  assumes "map lead_identity t = map lead_identity t0"
  shows "s_total_leads (stats_query now t) = s_total_leads (stats_query now t0)
    \<and> s_avg_lead_score (stats_query now t) = s_avg_lead_score (stats_query now t0)
    \<and> s_total_opportunity_value (stats_query now t) = s_total_opportunity_value (stats_query now t0)
    \<and> s_business_center_count (stats_query now t) = s_business_center_count (stats_query now t0)
    \<and> s_premium_product_count (stats_query now t) = s_premium_product_count (stats_query now t0)
    \<and> s_bulk_purchase_count (stats_query now t) = s_bulk_purchase_count (stats_query now t0)"
proof -
  let ?W = "\<lambda>l. within_days now 30 (l_identified_at l)"
  have e: "map lead_identity (filter ?W t) = map lead_identity (filter ?W t0)"
    using arg_cong [OF assms, of "filter (\<lambda>l. within_days now 30 (l_identified_at l))"]
    by (simp add: filter_map comp_def lead_identity_def)
  have col: "map c (filter ?W t) = map c (filter ?W t0)" if "\<And>l. c (lead_identity l) = c l" for c :: "lead_row \<Rightarrow> 'a"
    using arg_cong [OF e, of "map c"] that by (simp add: comp_def)
  have "length (filter ?W t) = length (filter ?W t0)" by (metis e length_map)
  moreover have "map l_lead_score (filter ?W t) = map l_lead_score (filter ?W t0)"
    "map l_opportunity_value_estimate (filter ?W t) = map l_opportunity_value_estimate (filter ?W t0)"
    "map l_lead_type (filter ?W t) = map l_lead_type (filter ?W t0)"
    by (simp_all add: col lead_identity_def)
  ultimately show ?thesis by (simp add: stats_query_def Let_def count_if_map_eq)
qed



lemma demo_stats_row:
  "stats_query 10000 demo_leads =
     \<lparr>s_total_leads = 3, s_new_leads = 2, s_contacted_leads = 0, s_qualified_leads = 0,
      s_converted_leads = 1, s_avg_lead_score = Some 85, s_total_opportunity_value = Some 3000,
      s_total_conversion_value = None, s_business_center_count = 1, s_premium_product_count = 0,
      s_bulk_purchase_count = 1\<rparr>"
  by (simp add: stats_query_def demo_leads_def demo_lead_def sql_simps)

lemma leads_all_complete_witness:
  "parse_int (param_or None ''50'') = Some 50
   \<and> length (concat (map (left_join demo_table)
        (filter (\<lambda>l. within_days 10000 30 (l_identified_at l)) demo_leads))) \<le> nat 50
   \<and> (case leads_get (Some ''all'') (Some ''all'') None (leads_query 10000 demo_leads demo_table)
              (leads_stats_warehouse 10000 demo_leads) of
        Leads_Ok rows st f \<Rightarrow> length rows = 3
      | Leads_Error e \<Rightarrow> False)"
proof -
  have p: "parse_int (param_or None ''50'') = Some 50" by (simp add: js_simps)
  have l: "length (concat (map (left_join demo_table)
        (filter (\<lambda>l. within_days 10000 30 (l_identified_at l)) demo_leads))) \<le> nat 50"
    by (simp add: demo_leads_def demo_lead_def demo_table_def demo_row_def left_join_def sql_simps)
  show ?thesis
    using leads_all_complete [OF p _ l] p l
    by (simp add: leads_get_warehouse [OF p] lead_filters_def lead_order_key_def js_simps demo_leads_def demo_lead_def demo_table_def demo_row_def left_join_def
        lead_view_of_def sql_simps flip: size_mset)
qed

lemma leads_invalid_limit_witness:
  "parse_int (param_or (Some ''abc'') ''50'') = None
   \<and> leads_get None None (Some ''abc'') (leads_query 10000 demo_leads demo_table) (Inl ''unused'') =
     Leads_Error ''invalid LIMIT''"
proof -
  have h: "parse_int (param_or (Some ''abc'') ''50'') = None" by (simp add: js_simps)
  show ?thesis using leads_invalid_limit [of "Some ''abc''"] h by simp
qed

lemma leads_stats_derived_witness:
  "parse_int (param_or None ''50'') = Some 50
   \<and> (case leads_get None None None (leads_query 10000 demo_leads demo_table)
              (leads_stats_warehouse 10000 demo_leads) of
        Leads_Ok rows st f \<Rightarrow> ls_conversion_rate st = J_Str ''33.3'' \<and> ls_avg_lead_score st = Some 85
      | Leads_Error e \<Rightarrow> False)"
proof -
  have p: "parse_int (param_or None ''50'') = Some 50" by (simp add: js_simps)
  have "js_to_fixed 1 (real 1 / real 3 * 100) = ''33.3''" by (simp add: js_simps round_def)
  moreover have "js_to_fixed 1 85 = ''85.0''" by (simp add: js_simps round_def)
  ultimately show ?thesis
    using leads_stats_derived [OF p, where status_p = None and type_p = None and now = 10000
        and leads = demo_leads and convs = demo_table]
    by (simp add: p leads_get_warehouse [OF p] derive_lead_stats_def demo_stats_row js_simps)
qed

lemma leads_post_validation_witness:
  "\<not> js_truthy (b_status ((demo_update ''L1'' [])\<lparr>b_status := None\<rparr>))
   \<and> leads_post parse_int (Inr ((demo_update ''L1'' [])\<lparr>b_status := None\<rparr>)) demo_leads =
     (Post_Bad_Request ''lead_id and status are required'', demo_leads)"
  using leads_post_validation [of "(demo_update ''L1'' [])\<lparr>b_status := None\<rparr>" parse_int demo_leads]
  by (simp add: demo_update_def js_truthy_def)






end
