(* ===== verification/Trends.thy ===== *)
theory Trends
  imports Warehouse
begin

text \<open>
  \<open>GET /api/analytics/trends\<close> (\<open>src/app/api/analytics/trends/route.js\<close>). The
  handler picks a bucketing expression from \<open>period\<close> and a trailing window of
  \<open>days\<close> days, sends one query of four common table expressions (\<open>time_series\<close>,
  \<open>sentiment_trends\<close>, \<open>topic_trends\<close>, \<open>channel_distribution\<close>), each grouped by
  the bucket of the row's timestamp, and computes change metrics from the last two
  buckets. Buckets are values of \<open>period_value\<close>: the start of the hour (epoch
  seconds) for \<open>TIMESTAMP_TRUNC(timestamp, HOUR)\<close>, or the first day (epoch day
  number) of the day, week (weeks start on Sunday) or month for the \<open>DATE\<close>
  expressions; \<open>CAST(... AS STRING)\<close> renders them with the proleptic Gregorian
  calendar (\<open>civil_of_day\<close>). The engine's \<open>ARRAY_AGG\<close> is taken to keep the order
  of its input.
\<close>

section \<open>Calendar\<close>

text \<open>The civil date (year, month, day) of an epoch day number, and back: the
  engine's calendar.\<close>

definition civil_of_day :: "int \<Rightarrow> int \<times> int \<times> int" where
  "civil_of_day n =
     (let z = n + 719468; era = z div 146097; doe = z - era * 146097;
          yoe = (doe - doe div 1460 + doe div 36524 - doe div 146096) div 365;
          y = yoe + era * 400; doy = doe - (365 * yoe + yoe div 4 - yoe div 100);
          mp = (5 * doy + 2) div 153; d = doy - (153 * mp + 2) div 5 + 1;
          m = (if mp < 10 then mp + 3 else mp - 9)
      in (if m \<le> 2 then y + 1 else y, m, d))"

definition day_of_civil :: "int \<Rightarrow> int \<Rightarrow> int \<Rightarrow> int" where
  "day_of_civil y m d =
     (let y' = (if m \<le> 2 then y - 1 else y); era = y' div 400; yoe = y' - era * 400;
          mp = (m + 9) mod 12; doy = (153 * mp + 2) div 5 + d - 1;
          doe = yoe * 365 + yoe div 4 - yoe div 100 + doy
      in era * 146097 + doe - 719468)"

text \<open>\<open>DATE_TRUNC(date, WEEK)\<close>: the preceding Sunday (day 0 was a
  Thursday).\<close>

definition week_start :: "int \<Rightarrow> int" where
  "week_start d = d - (d + 4) mod 7"

definition month_start :: "int \<Rightarrow> int" where
  "month_start d = (case civil_of_day d of (y, m, _) \<Rightarrow> day_of_civil y m 1)"

definition pad_num :: "nat \<Rightarrow> int \<Rightarrow> string" where
  "pad_num w i = (let s = digits_of_nat (nat i) in replicate (w - length s) (CHR ''0'') @ s)"

definition date_text :: "int \<Rightarrow> string" where
  "date_text d =
     (case civil_of_day d of (y, m, dd) \<Rightarrow> pad_num 4 y @ ''-'' @ pad_num 2 m @ ''-'' @ pad_num 2 dd)"

section \<open>Buckets\<close>

datatype trend_period = Hourly | Daily | Weekly | Monthly

text \<open>The \<open>switch (period)\<close> of lines 18--38 (the unused
  \<open>timeFormat\<close> left out).\<close>

definition trend_period_of :: "string \<Rightarrow> trend_period" where
  "trend_period_of p =
     (if p = ''hourly'' then Hourly else if p = ''daily'' then Daily
      else if p = ''weekly'' then Weekly else if p = ''monthly'' then Monthly else Daily)"

datatype period_value = Period_Hour int | Period_Date int

text \<open>\<open>${timeGroup}\<close> evaluated on a timestamp.\<close>

fun time_group :: "trend_period \<Rightarrow> int \<Rightarrow> period_value" where
  "time_group Hourly ts = Period_Hour (ts - ts mod 3600)"
| "time_group Daily ts = Period_Date (day_of ts)"
| "time_group Weekly ts = Period_Date (week_start (day_of ts))"
| "time_group Monthly ts = Period_Date (month_start (day_of ts))"

text \<open>The order of \<open>ORDER BY time_period ASC\<close>, and
  \<open>CAST(time_period AS STRING)\<close>.\<close>

fun period_order :: "period_value \<Rightarrow> int" where
  "period_order (Period_Hour ts) = ts"
| "period_order (Period_Date d) = d"

fun period_text :: "period_value \<Rightarrow> string" where
  "period_text (Period_Hour ts) =
     date_text (day_of ts) @ '' '' @ pad_num 2 (ts mod seconds_per_day div 3600) @ '':00:00+00''"
| "period_text (Period_Date d) = date_text d"

section \<open>The query\<close>

text \<open>\<open>WHERE timestamp >= TIMESTAMP_SUB(CURRENT_TIMESTAMP(), INTERVAL ${days}
  DAY)\<close>.\<close>

definition trend_window :: "int \<Rightarrow> int \<Rightarrow> conv_row list \<Rightarrow> conv_row list" where
  "trend_window now days rs = filter (\<lambda>r. within_days now days (c_timestamp r)) rs"

text \<open>The aggregates of one bucket in \<open>time_series\<close> (lines
  43--54).\<close>

record ts_row =
  ts_conversation_count :: nat
  ts_avg_sentiment :: "real option"
  ts_avg_duration :: "real option"
  ts_positive_count :: nat
  ts_negative_count :: nat
  ts_resolved_count :: nat
  ts_satisfied_count :: nat
  ts_leads_count :: nat
  ts_avg_lead_score :: "real option"
  ts_opportunity_value :: "real option"

definition bucket_stats :: "conv_row list \<Rightarrow> ts_row" where
  "bucket_stats rs =
     \<lparr>ts_conversation_count = length rs,
      ts_avg_sentiment = sql_avg (map c_sentiment_score rs),
      ts_avg_duration = sql_avg (map c_duration_seconds rs),
      ts_positive_count = count_if (\<lambda>r. c_sentiment_label r = Some ''positive'') rs,
      ts_negative_count = count_if (\<lambda>r. c_sentiment_label r = Some ''negative'') rs,
      ts_resolved_count = count_if (\<lambda>r. c_resolution_status r = Some ''resolved'') rs,
      ts_satisfied_count = count_if (\<lambda>r. c_customer_satisfaction r = Some ''satisfied'') rs,
      ts_leads_count = count_if (\<lambda>r. c_business_opportunity r \<noteq> None) rs,
      ts_avg_lead_score = sql_avg (map c_lead_score rs),
      ts_opportunity_value = sql_sum (map c_opportunity_value_estimate rs)\<rparr>"

text \<open>The \<open>time_series\<close> expression: one row per bucket,
  ascending.\<close>

definition time_series_cte :: "trend_period \<Rightarrow> conv_row list \<Rightarrow> (period_value \<times> ts_row) list" where
  "time_series_cte p rs =
     map (\<lambda>(k, c). (k, bucket_stats (filter (\<lambda>r. time_group p (c_timestamp r) = k) rs)))
       (sort_key (\<lambda>x. period_order (fst x)) (group_count (\<lambda>r. time_group p (c_timestamp r)) rs))"

definition sentiment_trends_cte ::
  "trend_period \<Rightarrow> conv_row list \<Rightarrow> ((period_value \<times> string option) \<times> nat) list" where
  "sentiment_trends_cte p rs =
     sort_key (\<lambda>((k, l), c). period_order k)
       (group_count (\<lambda>r. (time_group p (c_timestamp r), c_sentiment_label r)) rs)"

definition topic_trends_cte :: "trend_period \<Rightarrow> conv_row list \<Rightarrow> ((period_value \<times> string) \<times> nat) list" where
  "topic_trends_cte p rs =
     group_count (\<lambda>r. (time_group p (c_timestamp r), the (c_primary_topic r)))
       (filter (\<lambda>r. c_primary_topic r \<noteq> None) rs)"

definition channel_distribution_cte ::
  "trend_period \<Rightarrow> conv_row list \<Rightarrow> ((period_value \<times> string option) \<times> nat) list" where
  "channel_distribution_cte p rs =
     sort_key (\<lambda>((k, l), c). period_order k)
       (group_count (\<lambda>r. (time_group p (c_timestamp r), c_channel r)) rs)"

text \<open>A row of the \<open>time_series\<close> array: the bucket's text, its aggregates and the
  rates \<open>SAFE_DIVIDE(count, conversation_count) * 100\<close> (lines 91--105).\<close>

record trend_point = ts_row +
  tp_period :: string
  tp_resolution_rate :: "real option"
  tp_satisfaction_rate :: "real option"

definition trend_point_of :: "period_value \<times> ts_row \<Rightarrow> trend_point" where
  "trend_point_of x =
     (case x of (k, s) \<Rightarrow>
        ts_row.extend s
          (trend_point.fields (period_text k)
             (map_option (\<lambda>q. q * 100) (safe_divide (real (ts_resolved_count s)) (real (ts_conversation_count s))))
             (map_option (\<lambda>q. q * 100) (safe_divide (real (ts_satisfied_count s)) (real (ts_conversation_count s))))))"

text \<open>\<open>ARRAY_AGG\<close> of no row is \<open>NULL\<close>.\<close>

definition array_agg :: "'a list \<Rightarrow> 'a list option" where
  "array_agg xs = (if xs = [] then None else Some xs)"

record trends_row =
  tr_time_series :: "trend_point list option"
  tr_sentiment_trends :: "(string \<times> string option \<times> nat) list option"
  tr_topic_trends :: "(string \<times> string \<times> nat) list option"
  tr_channel_distribution :: "(string \<times> string option \<times> nat) list option"

definition trends_query :: "trend_period \<Rightarrow> int \<Rightarrow> int \<Rightarrow> conv_row list \<Rightarrow> trends_row" where
  "trends_query p days now table =
     (let rs = trend_window now days table
      in \<lparr>tr_time_series = array_agg (map trend_point_of (time_series_cte p rs)),
          tr_sentiment_trends =
            array_agg (map (\<lambda>((k, l), c). (period_text k, l, c)) (sentiment_trends_cte p rs)),
          tr_topic_trends =
            array_agg (map (\<lambda>((k, l), c). (period_text k, l, c)) (topic_trends_cte p rs)),
          tr_channel_distribution =
            array_agg (map (\<lambda>((k, l), c). (period_text k, l, c)) (channel_distribution_cte p rs))\<rparr>)"

text \<open>The statement with \<open>INTERVAL ${days} DAY\<close>: \<open>NaN\<close> makes
  it invalid.\<close>

definition trends_warehouse ::
  "int \<Rightarrow> conv_row list \<Rightarrow> trend_period \<Rightarrow> int option \<Rightarrow> string + trends_row list" where
  "trends_warehouse now table p days =
     (case days of None \<Rightarrow> Inl ''invalid INTERVAL'' | Some d \<Rightarrow> Inr [trends_query p d now table])"

section \<open>The response\<close>

text \<open>A nullable number in JavaScript arithmetic: \<open>null\<close> counts as
  0.\<close>

definition to_number :: "real option \<Rightarrow> real" where
  "to_number v = (case v of None \<Rightarrow> 0 | Some x \<Rightarrow> x)"

record change_metrics =
  conversation_change :: int
  sentiment_change :: string
  resolution_change :: string
  leads_change :: int

text \<open>Lines 144--157: \<open>None\<close> is the empty object
  \<open>{}\<close>.\<close>

definition change_metrics_of :: "trend_point list \<Rightarrow> change_metrics option" where
  "change_metrics_of ts =
     (if 2 \<le> length ts then
        let latest = ts ! (length ts - 1); previous = ts ! (length ts - 2)
        in Some \<lparr>conversation_change = int (ts_conversation_count latest) - int (ts_conversation_count previous),
                 sentiment_change =
                   js_to_fixed 3 (to_number (ts_avg_sentiment latest) - to_number (ts_avg_sentiment previous)),
                 resolution_change =
                   js_to_fixed 1 (to_number (tp_resolution_rate latest) - to_number (tp_resolution_rate previous)),
                 leads_change = int (ts_leads_count latest) - int (ts_leads_count previous)\<rparr>
      else None)"

record trends_body =
  tb_time_series :: "trend_point list"
  tb_sentiment_trends :: "(string \<times> string option \<times> nat) list"
  tb_topic_trends :: "(string \<times> string \<times> nat) list"
  tb_channel_distribution :: "(string \<times> string option \<times> nat) list"
  tb_change_metrics :: "change_metrics option"
  tb_period :: string
  tb_days :: "int option"

datatype trends_response =
    Trends_Empty string "int option"
  | Trends_Ok trends_body
  | Trends_Error string

definition trends_get ::
  "string option \<Rightarrow> string option \<Rightarrow> (trend_period \<Rightarrow> int option \<Rightarrow> string + trends_row list)
   \<Rightarrow> trends_response" where
  "trends_get period_p days_p exec =
     (let period = param_or period_p ''daily''; days = parse_int (param_or days_p ''30'')
      in case exec (trend_period_of period) days of
           Inl e \<Rightarrow> Trends_Error e
         | Inr [] \<Rightarrow> Trends_Empty period days
         | Inr (data # _) \<Rightarrow>
             (let ts = (case tr_time_series data of None \<Rightarrow> [] | Some xs \<Rightarrow> xs)
              in Trends_Ok \<lparr>tb_time_series = ts,
                   tb_sentiment_trends = (case tr_sentiment_trends data of None \<Rightarrow> [] | Some xs \<Rightarrow> xs),
                   tb_topic_trends = (case tr_topic_trends data of None \<Rightarrow> [] | Some xs \<Rightarrow> xs),
                   tb_channel_distribution = (case tr_channel_distribution data of None \<Rightarrow> [] | Some xs \<Rightarrow> xs),
                   tb_change_metrics = change_metrics_of ts,
                   tb_period = period, tb_days = days\<rparr>))"

section \<open>Lemmas\<close>

text \<open>The calendar on an example: 15 March 2024 (a Friday) is day 19797; its month
  starts on day 19783 and its week on Sunday 10 March, day 19792.\<close>

lemma calendar_example:
  "civil_of_day 19797 = (2024, 3, 15) \<and> month_start 19797 = 19783 \<and> week_start 19797 = 19792
   \<and> date_text 19797 = ''2024-03-15''
   \<and> period_text (time_group Hourly (19797 * 86400 + 37000)) = ''2024-03-15 10:00:00+00''"
  by code_simp

text \<open>A week bucket is the Sunday on or before the day.\<close>

lemma week_start_bounds: "week_start d \<le> d \<and> d < week_start d + 7 \<and> (week_start d + 4) mod 7 = 0"
proof -
  have "week_start d + 4 = 7 * ((d + 4) div 7)"
    by (simp add: week_start_def minus_mod_eq_mult_div [symmetric])
  then show ?thesis by (simp add: week_start_def)
qed


lemma time_series_cte_counts:
  "map (\<lambda>x. ts_conversation_count (snd x)) (time_series_cte p rs) =
   map snd (sort_key (\<lambda>x. period_order (fst x)) (group_count (\<lambda>r. time_group p (c_timestamp r)) rs))"
  by (auto simp: time_series_cte_def bucket_stats_def case_prod_beta intro!: map_cong
      dest: group_count_length_filter)

lemma time_series_cte_keys:
  "map fst (time_series_cte p rs) =
   map fst (sort_key (\<lambda>x. period_order (fst x)) (group_count (\<lambda>r. time_group p (c_timestamp r)) rs))"
  by (simp add: time_series_cte_def case_prod_beta)

lemma time_series_cte_props:
  "sum_list (map (\<lambda>x. ts_conversation_count (snd x)) (time_series_cte p rs)) = length rs
   \<and> sorted (map (\<lambda>x. period_order (fst x)) (time_series_cte p rs))
   \<and> distinct (map fst (time_series_cte p rs))
   \<and> (\<forall>(k, s) \<in> set (time_series_cte p rs).
        ts_conversation_count s = count_if (\<lambda>r. time_group p (c_timestamp r) = k) rs \<and> 0 < ts_conversation_count s)"
proof -
  let ?g = "group_count (\<lambda>r. time_group p (c_timestamp r)) rs"
  let ?s = "sort_key (\<lambda>x. period_order (fst x)) ?g"
  have m: "mset ?s = mset ?g" by simp
  have "sum_list (map snd ?s) = length rs"
    using perm_sum_list_map [OF m, of snd] by (simp add: group_count_sum)
  moreover have "distinct (map fst ?s)"
    using perm_distinct_fst [OF m] by (simp add: group_count_distinct)
  moreover have "sorted (map (\<lambda>x. period_order (fst x)) ?s)"
    by (rule sorted_sort_key)
  moreover have "\<forall>(k, s) \<in> set (time_series_cte p rs).
        ts_conversation_count s = count_if (\<lambda>r. time_group p (c_timestamp r) = k) rs \<and> 0 < ts_conversation_count s"
    by (auto simp: time_series_cte_def bucket_stats_def group_count_member count_if_def filter_empty_conv)
  moreover have "map (\<lambda>x. period_order (fst x)) (time_series_cte p rs) = map (\<lambda>x. period_order (fst x)) ?s"
    using arg_cong [OF time_series_cte_keys [of p rs], of "map period_order"] by (simp add: comp_def)
  ultimately show ?thesis by (simp add: time_series_cte_counts time_series_cte_keys)
qed

text \<open>C35: The sentiment and channel breakdowns agree with the series: for every
  bucket, their counts add up to the bucket's conversation count.\<close>

lemma trends_sentiment_consistency:
  "\<forall>(k, s) \<in> set (time_series_cte p rs).
     sum_list (map snd (filter (\<lambda>x. fst (fst x) = k) (sentiment_trends_cte p rs))) = ts_conversation_count s
     \<and> sum_list (map snd (filter (\<lambda>x. fst (fst x) = k) (channel_distribution_cte p rs))) = ts_conversation_count s"
  using time_series_cte_props [of p rs]
  by (auto simp: sentiment_trends_cte_def channel_distribution_cte_def sort_key_slice_sum group_count_slice_sum)

lemma array_agg_or_Nil [simp]: "(case array_agg xs of None \<Rightarrow> [] | Some ys \<Rightarrow> ys) = xs"
  by (simp add: array_agg_def)

lemma trends_get_warehouse:
  assumes "parse_int (param_or days_p ''30'') = Some d"
  shows "trends_get period_p days_p (trends_warehouse now table) =
    (let p = trend_period_of (param_or period_p ''daily''); rs = trend_window now d table;
         ts = map trend_point_of (time_series_cte p rs)
     in Trends_Ok \<lparr>tb_time_series = ts,
          tb_sentiment_trends = map (\<lambda>((k, l), c). (period_text k, l, c)) (sentiment_trends_cte p rs),
          tb_topic_trends = map (\<lambda>((k, l), c). (period_text k, l, c)) (topic_trends_cte p rs),
          tb_channel_distribution = map (\<lambda>((k, l), c). (period_text k, l, c)) (channel_distribution_cte p rs),
          tb_change_metrics = change_metrics_of ts,
          tb_period = param_or period_p ''daily'', tb_days = Some d\<rparr>)"
  using assms by (simp add: trends_get_def trends_warehouse_def trends_query_def Let_def)

lemma trend_point_of_sel [simp]:
  "ts_conversation_count (trend_point_of x) = ts_conversation_count (snd x)"
  "ts_leads_count (trend_point_of x) = ts_leads_count (snd x)"
  "ts_avg_sentiment (trend_point_of x) = ts_avg_sentiment (snd x)"
  "tp_period (trend_point_of x) = period_text (fst x)"
  "tp_resolution_rate (trend_point_of x) =
     map_option (\<lambda>q. q * 100) (safe_divide (real (ts_resolved_count (snd x))) (real (ts_conversation_count (snd x))))"
  "tp_satisfaction_rate (trend_point_of x) =
     map_option (\<lambda>q. q * 100) (safe_divide (real (ts_satisfied_count (snd x))) (real (ts_conversation_count (snd x))))"
  by (simp_all add: trend_point_of_def split_beta ts_row.defs trend_point.defs)

text \<open>C7: Change metrics are present exactly when the series has at least two buckets;
  they are then the differences of the last two buckets: counts as integers, the average
  sentiment as toFixed(3) text and the resolution rate as toFixed(1) text, a null value
  counting as 0.\<close>

lemma trends_change_metrics:
  assumes "trends_get period_p days_p exec = Trends_Ok b"
  shows "case tb_change_metrics b of
     None \<Rightarrow> length (tb_time_series b) < 2
   | Some c \<Rightarrow>
       2 \<le> length (tb_time_series b)
       \<and> conversation_change c = int (ts_conversation_count (last (tb_time_series b)))
                                - int (ts_conversation_count (tb_time_series b ! (length (tb_time_series b) - 2)))
       \<and> leads_change c = int (ts_leads_count (last (tb_time_series b)))
                         - int (ts_leads_count (tb_time_series b ! (length (tb_time_series b) - 2)))
       \<and> sentiment_change c =
           js_to_fixed 3 (to_number (ts_avg_sentiment (last (tb_time_series b)))
                          - to_number (ts_avg_sentiment (tb_time_series b ! (length (tb_time_series b) - 2))))
       \<and> resolution_change c =
           js_to_fixed 1 (to_number (tp_resolution_rate (last (tb_time_series b)))
                          - to_number (tp_resolution_rate (tb_time_series b ! (length (tb_time_series b) - 2))))"
proof -
  obtain ts where cm: "tb_change_metrics b = change_metrics_of ts" "tb_time_series b = ts"
    using assms by (auto simp: trends_get_def Let_def split: sum.splits list.splits)
  have "2 \<le> length ts \<Longrightarrow> last ts = ts ! (length ts - 1)" by (rule last_conv_nth) auto
  then show ?thesis by (simp add: cm change_metrics_of_def Let_def)
qed

text \<open>C22: With a valid number of days, the series partitions the window: its bucket
  counts add up to the number of rows in the window, every bucket is non-empty, and its
  rates are the exact percentages of resolved and satisfied rows.\<close>

lemma trends_time_series:
  assumes "parse_int (param_or days_p ''30'') = Some d"
  shows "case trends_get period_p days_p (trends_warehouse now table) of
     Trends_Ok b \<Rightarrow>
       sum_list (map ts_conversation_count (tb_time_series b)) = length (trend_window now d table)
       \<and> (\<forall>x \<in> set (tb_time_series b). 0 < ts_conversation_count x
           \<and> tp_resolution_rate x = Some (real (ts_resolved_count x) / real (ts_conversation_count x) * 100)
           \<and> tp_satisfaction_rate x = Some (real (ts_satisfied_count x) / real (ts_conversation_count x) * 100))
   | _ \<Rightarrow> False"
proof -
  let ?p = "trend_period_of (param_or period_p ''daily'')"
  let ?rs = "trend_window now d table"
  have props: "sum_list (map (\<lambda>x. ts_conversation_count (snd x)) (time_series_cte ?p ?rs)) = length ?rs"
    "\<forall>(k, s) \<in> set (time_series_cte ?p ?rs). 0 < ts_conversation_count s"
    using time_series_cte_props [of ?p ?rs] by auto
  have r: "ts_resolved_count (trend_point_of x) = ts_resolved_count (snd x)"
    "ts_satisfied_count (trend_point_of x) = ts_satisfied_count (snd x)" for x
    by (simp_all add: trend_point_of_def split_beta ts_row.defs trend_point.defs)
  show ?thesis using props
    by (auto simp: trends_get_warehouse [OF assms] Let_def comp_def safe_divide_def r)
qed

text \<open>A days parameter that parseInt cannot read makes the statement invalid, and
  the handler answers with the 500 error response.\<close>

lemma trends_invalid_days:
  assumes "parse_int (param_or days_p ''30'') = None"
  shows "trends_get period_p days_p (trends_warehouse now table) = Trends_Error ''invalid INTERVAL''"
  using assms by (simp add: trends_get_def trends_warehouse_def)

lemma demo_trends_days: "parse_int (param_or None ''30'') = Some 30"
  by (simp add: js_simps)

lemma trends_change_metrics_witness:
  "case trends_get (Some ''daily'') None (trends_warehouse 100000 demo_table) of
     Trends_Ok b \<Rightarrow> length (tb_time_series b) = 2
       \<and> (case tb_change_metrics b of Some c \<Rightarrow> conversation_change c = -1 \<and> leads_change c = 0 | None \<Rightarrow> False)
   | _ \<Rightarrow> False"
proof -
  obtain b where b: "trends_get (Some ''daily'') None (trends_warehouse 100000 demo_table) = Trends_Ok b"
    by (simp add: trends_get_warehouse [OF demo_trends_days] Let_def)
  have tsb: "tb_time_series b = map trend_point_of (time_series_cte Daily (trend_window 100000 30 demo_table))"
    using b by (auto simp: trends_get_warehouse [OF demo_trends_days] Let_def trend_period_of_def param_or_def)
  have ts: "map (\<lambda>x. ts_conversation_count x) (tb_time_series b) = [2, 1]
      \<and> map (\<lambda>x. ts_leads_count x) (tb_time_series b) = [0, 0]"
    by (simp add: tsb demo_table_def demo_row_def time_series_cte_def trend_window_def bucket_stats_def
        sql_simps js_simps)
  then have "length (map ts_leads_count (tb_time_series b)) = 2" by simp
  then have "length (tb_time_series b) = 2" by simp
  with ts show ?thesis using trends_change_metrics [OF b]
    by (auto simp: b numeral_2_eq_2 length_Suc_conv split: option.splits)
qed

lemma demo_trend_window: "trend_window 100000 30 demo_table = demo_table"
  by (simp add: trend_window_def demo_table_def demo_row_def sql_simps)

lemma trends_time_series_witness:
  "case trends_get None None (trends_warehouse 100000 demo_table) of
     Trends_Ok b \<Rightarrow> sum_list (map ts_conversation_count (tb_time_series b)) = 3
   | _ \<Rightarrow> False"
proof -
  obtain b where b: "trends_get None None (trends_warehouse 100000 demo_table) = Trends_Ok b"
    by (simp add: trends_get_warehouse [OF demo_trends_days] Let_def)
  show ?thesis
    using trends_time_series [OF demo_trends_days, where period_p = None and now = 100000 and table = demo_table]
    by (simp add: b demo_trend_window, simp add: demo_table_def)
qed

lemma trends_sentiment_consistency_witness:
  "sum_list (map snd (filter (\<lambda>x. fst (fst x) = Period_Date 0) (sentiment_trends_cte Daily demo_table))) = 2"
proof -
  have "(Period_Date 0, bucket_stats (take 2 demo_table)) \<in> set (time_series_cte Daily demo_table)"
    by (simp add: time_series_cte_def demo_table_def demo_row_def sql_simps)
  then show ?thesis using trends_sentiment_consistency [of Daily demo_table]
    by (fastforce simp: bucket_stats_def demo_table_def)
qed

lemma trends_invalid_days_witness:
  "parse_int (param_or (Some ''x'') ''30'') = None
   \<and> trends_get None (Some ''x'') (trends_warehouse 100000 demo_table) = Trends_Error ''invalid INTERVAL''"
proof -
  have h: "parse_int (param_or (Some ''x'') ''30'') = None" by (simp add: js_simps)
  show ?thesis using trends_invalid_days [OF h] h by simp
qed

end
