(* ===== verification/Object_Store.thy ===== *)
theory Object_Store
  imports Prelude
begin

text \<open>
  The transcript files in the object-store bucket and the two routes that list them:
  \<open>GET /api/conversations\<close> (\<open>src/app/api/conversations/route.js\<close>) and
  \<open>GET /api/latest-session\<close> (\<open>src/app/api/latest-session/route.js\<close>). A file is its
  name, its creation time (epoch milliseconds, the value \<open>getTime()\<close> reads from
  \<open>metadata.timeCreated\<close>) and its contents. The listing \<open>getFiles({prefix})\<close> is an
  outcome: the storage error message, or the files under the prefix. Session
  identifiers and file names are related by \<open>name_of_session\<close> (the path the transcript
  route opens) and \<open>session_of_name\<close> (the two \<open>replace\<close> calls of the listing routes).
\<close>

section \<open>Files and names\<close>

record gcs_file =
  f_name :: string
  f_time_created :: int
  f_contents :: string

text \<open>\<open>bucket.getFiles({ prefix })\<close> on a bucket holding \<open>files\<close>.\<close>

definition list_prefix :: "string \<Rightarrow> gcs_file list \<Rightarrow> gcs_file list" where
  "list_prefix p files = filter (\<lambda>f. starts_with (f_name f) p) files"

definition transcript_prefix :: string where
  "transcript_prefix = ''transcripts/''"

text \<open>\<open>file.name.replace('transcripts/', '').replace('.json', '')\<close>.\<close>

definition session_of_name :: "string \<Rightarrow> string" where
  "session_of_name n = replace_first ''.json'' [] (replace_first transcript_prefix [] n)"

text \<open>\<open>`transcripts/${sessionId}.json`\<close> (\<open>src/app/api/transcript/route.js\<close>).\<close>

definition name_of_session :: "string \<Rightarrow> string" where
  "name_of_session s = transcript_prefix @ s @ ''.json''"

definition is_json_file :: "gcs_file \<Rightarrow> bool" where
  "is_json_file f \<longleftrightarrow> ends_with (f_name f) ''.json''"

section \<open>\<open>GET /api/conversations\<close>\<close>

record conv_summary =
  cs_session_id :: string
  cs_duration :: string
  cs_turns :: nat
  cs_channel :: string
  cs_start_time :: string
  cs_timestamp :: int

text \<open>One entry of the list; \<open>fmt\<close> is \<open>toLocaleString('en-US', ...)\<close> of the time.\<close>

definition conv_summary_of :: "(int \<Rightarrow> string) \<Rightarrow> gcs_file \<Rightarrow> conv_summary" where
  "conv_summary_of fmt f =
     \<lparr>cs_session_id = session_of_name (f_name f), cs_duration = ''0m00s'', cs_turns = 0,
      cs_channel = ''Audio'', cs_start_time = fmt (f_time_created f), cs_timestamp = f_time_created f\<rparr>"

text \<open>\<open>filter\<close>, \<open>map\<close>, \<open>sort((a, b) => b.timestamp - a.timestamp)\<close> (a stable sort,
  newest first) and \<open>slice(0, 50)\<close>.\<close>

definition conversations_list :: "(int \<Rightarrow> string) \<Rightarrow> gcs_file list \<Rightarrow> conv_summary list" where
  "conversations_list fmt files =
     take 50 (sort_key (\<lambda>c. - cs_timestamp c) (map (conv_summary_of fmt) (filter is_json_file files)))"

datatype conversations_response = Convs_Ok "conv_summary list" | Convs_Error string

definition conversations_get :: "(int \<Rightarrow> string) \<Rightarrow> string + gcs_file list \<Rightarrow> conversations_response" where
  "conversations_get fmt listing =
     (case listing of Inl e \<Rightarrow> Convs_Error e | Inr files \<Rightarrow> Convs_Ok (conversations_list fmt files))"

section \<open>\<open>GET /api/latest-session\<close>\<close>

datatype latest_response = Latest_None | Latest_Session string | Latest_Error string

definition latest_session_get :: "string + gcs_file list \<Rightarrow> latest_response" where
  "latest_session_get listing =
     (case listing of
        Inl e \<Rightarrow> Latest_Error e
      | Inr files \<Rightarrow>
          (case sort_key (\<lambda>f. - f_time_created f) (filter is_json_file files) of
             [] \<Rightarrow> Latest_None
           | f # _ \<Rightarrow> Latest_Session (session_of_name (f_name f))))"

text \<open>The listing the storage gives for a bucket that answers.\<close>

definition bucket_listing :: "gcs_file list \<Rightarrow> string + gcs_file list" where
  "bucket_listing store = Inr (list_prefix transcript_prefix store)"

section \<open>Example bucket\<close>

definition demo_file :: "string \<Rightarrow> int \<Rightarrow> gcs_file" where
  "demo_file n t = \<lparr>f_name = n, f_time_created = t, f_contents = []\<rparr>"

definition demo_files :: "gcs_file list" where
  "demo_files = [demo_file ''transcripts/sess-a.json'' 1000, demo_file ''transcripts/sess-b.json'' 2000,
                 demo_file ''transcripts/notes.txt'' 3000, demo_file ''audio/call.wav'' 4000]"



text \<open>C24: The latest-session route names the session the conversation list puts
  first: both answer the storage error, no session, or the identifier of the newest
  JSON transcript, the stable sort of one agreeing with that of the other.\<close>

lemma latest_agrees_with_conversations:
  "latest_session_get listing =
     (case conversations_get fmt listing of
        Convs_Error e \<Rightarrow> Latest_Error e
      | Convs_Ok [] \<Rightarrow> Latest_None
      | Convs_Ok (c # _) \<Rightarrow> Latest_Session (cs_session_id c))"
proof (cases listing)
  case (Inl e)
  then show ?thesis by (simp add: latest_session_get_def conversations_get_def)
next
  case (Inr files)
  have "sort_key (\<lambda>c. - cs_timestamp c) (map (conv_summary_of fmt) (filter is_json_file files)) =
      map (conv_summary_of fmt) (sort_key (\<lambda>f. - f_time_created f) (filter is_json_file files))"
    by (simp add: sort_key_map comp_def conv_summary_of_def)
  then show ?thesis using Inr
    by (auto simp: latest_session_get_def conversations_get_def conversations_list_def conv_summary_of_def
        split: list.splits)
qed

lemma starts_with_append_long:
  "length p \<le> length t \<Longrightarrow> starts_with (t @ y) p = starts_with t p"
  by (induction t p rule: starts_with.induct) auto

lemma json_starts_append:
  assumes "t \<noteq> []"
  shows "starts_with (t @ ''.json'') ''.json'' = starts_with t ''.json''"
proof (cases "5 \<le> length t")
  case True
  then show ?thesis by (simp add: starts_with_append_long)
next
  case False
  have "\<not> starts_with (t @ ''.json'') ''.json''"
  proof
    assume "starts_with (t @ ''.json'') ''.json''"
    then obtain r where r: "t @ ''.json'' = ''.json'' @ r" by (auto simp: starts_with_iff)
    have "(t @ ''.json'') ! length t = CHR ''.''" by (simp add: nth_append)
    moreover have "(''.json'' @ r) ! length t = ''.json'' ! length t"
      using False by (simp only: nth_append) simp
    moreover have "''.json'' ! length t \<noteq> CHR ''.''"
    proof -
      have "k < 4 \<Longrightarrow> ''json'' ! k \<noteq> CHR ''.''" for k by (auto simp: eval_nat_numeral less_Suc_eq)
      then show ?thesis using False assms by (cases "length t") auto
    qed
    ultimately show False using r by simp
  qed
  moreover have "\<not> starts_with t ''.json''" using False by (auto simp: starts_with_iff)
  ultimately show ?thesis by simp
qed

text \<open>Removing the first \<open>.json\<close> of \<open>x.json\<close>: the suffix when \<open>x\<close> holds none,
  otherwise the first one inside \<open>x\<close>.\<close>

lemma replace_first_json_append:
  "replace_first ''.json'' rep (x @ ''.json'') =
     (if contains x ''.json'' then replace_first ''.json'' rep x @ ''.json'' else x @ rep)"
proof (induction x)
  case Nil
  show ?case using replace_first_prefix [of "''.json''" rep "[]"] by simp
next
  case (Cons c cs)
  have st: "starts_with ((c # cs) @ ''.json'') ''.json'' = starts_with (c # cs) ''.json''"
    by (rule json_starts_append) simp
  show ?case
  proof (cases "starts_with (c # cs) ''.json''")
    case True
    define x where "x = c # cs"
    have t: "starts_with x ''.json''" using True by (simp only: x_def)
    then have "5 \<le> length x" by (auto simp: starts_with_iff)
    then have d: "drop (length ''.json'') (x @ ''.json'') = drop (length ''.json'') x @ ''.json''" by simp
    have st': "starts_with (x @ ''.json'') ''.json''" unfolding x_def by (rule st [THEN iffD2, OF True])
    have l: "replace_first ''.json'' rep (x @ ''.json'') = rep @ drop (length ''.json'') (x @ ''.json'')"
      by (rule replace_first_starts [OF st'])
    have r: "replace_first ''.json'' rep x = rep @ drop (length ''.json'') x"
      by (rule replace_first_starts [OF t])
    have "contains x ''.json''" using True by (simp add: x_def)
    then show ?thesis unfolding x_def [symmetric] using l r d by simp
  next
    case False
    with st Cons.IH show ?thesis by (simp del: starts_with.simps)
  qed
qed

text \<open>C25: The listing routes read back the session identifier from the file name the
  transcript route opens, for every identifier without \<open>.json\<close> in it.\<close>

lemma session_name_roundtrip:
  assumes "\<not> contains s ''.json''"
  shows "session_of_name (name_of_session s) = s"
  using assms by (simp add: session_of_name_def name_of_session_def transcript_prefix_def replace_first_json_append)

text \<open>C11: The conversation list holds at most 50 entries, newest first, each the
  summary of a JSON file of the listing; a JSON file left out is no newer than every
  listed one, and then the list is full.\<close>

lemma conversations_newest_first:
  "length (conversations_list fmt files) \<le> 50
   \<and> sorted_wrt (\<lambda>a b. cs_timestamp b \<le> cs_timestamp a) (conversations_list fmt files)
   \<and> (\<forall>c \<in> set (conversations_list fmt files). \<exists>f \<in> set files. is_json_file f \<and> c = conv_summary_of fmt f)
   \<and> (\<forall>f \<in> set files. is_json_file f \<longrightarrow> conv_summary_of fmt f \<notin> set (conversations_list fmt files) \<longrightarrow>
        length (conversations_list fmt files) = 50
        \<and> (\<forall>c \<in> set (conversations_list fmt files). f_time_created f \<le> cs_timestamp c))"
proof -
  let ?m = "map (conv_summary_of fmt) (filter is_json_file files)"
  let ?o = "sort_key (\<lambda>c. - cs_timestamp c) ?m"
  have s: "sorted_wrt (\<lambda>a b. cs_timestamp b \<le> cs_timestamp a) ?o"
    using sorted_sort_key [of "\<lambda>c. - cs_timestamp c" ?m] by (simp add: sorted_map)
  have "sorted_wrt (\<lambda>a b. cs_timestamp b \<le> cs_timestamp a) (take 50 ?o)"
    using s by (metis append_take_drop_id sorted_wrt_append)
  moreover have "\<forall>c \<in> set (take 50 ?o). \<exists>f \<in> set files. is_json_file f \<and> c = conv_summary_of fmt f"
  proof
    fix c assume "c \<in> set (take 50 ?o)"
    then have "c \<in> set ?m" by (metis in_set_takeD set_sort)
    then show "\<exists>f \<in> set files. is_json_file f \<and> c = conv_summary_of fmt f" by auto
  qed
  moreover have "length (take 50 ?o) = 50 \<and> (\<forall>c \<in> set (take 50 ?o). f_time_created f \<le> cs_timestamp c)"
    if "f \<in> set files" "is_json_file f" "conv_summary_of fmt f \<notin> set (take 50 ?o)" for f
    using take_sort_key_top [of "conv_summary_of fmt f" ?m "50" "\<lambda>c. - cs_timestamp c"] that
    by (auto simp: conv_summary_of_def)
  ultimately show ?thesis by (simp add: conversations_list_def)
qed

lemma contains_append_suffix: "contains (s @ p) p"
  by (simp add: contains_iff) (metis append_Nil2)

lemma listed_name_split:
  assumes "starts_with n transcript_prefix" and "ends_with n ''.json''"
  shows "\<exists>x. n = transcript_prefix @ x @ ''.json''"
proof -
  obtain r where r: "n = transcript_prefix @ r" using assms(1) by (auto simp: starts_with_iff)
  obtain q where q: "n = q @ ''.json''" using assms(2) by (auto simp: ends_with_iff)
  have "5 \<le> length r"
  proof (rule ccontr)
    assume short: "\<not> 5 \<le> length r"
    have "n ! (length n - 5) = CHR ''.''" by (simp add: q nth_append)
    moreover have "n ! (length n - 5) = transcript_prefix ! (7 + length r)"
    proof -
      have e: "length n - 5 = 7 + length r" by (simp add: r transcript_prefix_def)
      have "n ! (7 + length r) = transcript_prefix ! (7 + length r)"
        using short unfolding r by (simp only: nth_append) (simp add: transcript_prefix_def)
      then show ?thesis by (simp only: e)
    qed
    moreover have "k < 5 \<Longrightarrow> transcript_prefix ! (7 + k) \<noteq> CHR ''.''" for k
      by (auto simp: transcript_prefix_def eval_nat_numeral less_Suc_eq)
    ultimately show False using short by simp
  qed
  moreover have lp: "length transcript_prefix = 12" by (simp add: transcript_prefix_def)
  ultimately have "drop (length n - 5) n = drop (length r - 5) r" by (simp add: r)
  moreover have "drop (length n - 5) n = ''.json''" by (simp add: q)
  ultimately have "r = take (length r - 5) r @ ''.json''" by (metis append_take_drop_id)
  with r show ?thesis by metis
qed

lemma listed_session_name:
  assumes "starts_with n transcript_prefix" and "ends_with n ''.json''"
    and "\<not> contains (session_of_name n) ''.json''"
  shows "name_of_session (session_of_name n) = n"
proof -
  obtain x where n: "n = transcript_prefix @ x @ ''.json''" using listed_name_split [OF assms(1,2)] by blast
  have s: "session_of_name n =
      (if contains x ''.json'' then replace_first ''.json'' [] x @ ''.json'' else x)"
    by (simp add: n session_of_name_def replace_first_json_append)
  have "\<not> contains x ''.json''"
    using assms(3) s contains_append_suffix by (metis (full_types))
  then show ?thesis using s by (simp add: n name_of_session_def)
qed

lemma latest_session_file:
  assumes "latest_session_get (bucket_listing store) = Latest_Session s"
    and "\<not> contains s ''.json''"
  shows "\<exists>f \<in> set store. f_name f = name_of_session s"
proof -
  obtain f fs where o: "sort_key (\<lambda>f. - f_time_created f) (filter is_json_file (list_prefix transcript_prefix store)) = f # fs"
    and s: "s = session_of_name (f_name f)"
    using assms(1) by (auto simp: latest_session_get_def bucket_listing_def split: list.splits)
  have "f \<in> set (filter is_json_file (list_prefix transcript_prefix store))"
    by (metis o list.set_intros(1) set_sort)
  then have f: "f \<in> set store" "starts_with (f_name f) transcript_prefix" "ends_with (f_name f) ''.json''"
    by (auto simp: list_prefix_def is_json_file_def)
  have "name_of_session s = f_name f" using listed_session_name [OF f(2,3)] assms(2) s by simp
  with f(1) show ?thesis by metis
qed

lemma session_name_roundtrip_witness:
  "\<not> contains ''sess-a'' ''.json'' \<and> session_of_name (name_of_session ''sess-a'') = ''sess-a''"
proof -
  have c: "\<not> contains ''sess-a'' ''.json''" by simp
  show ?thesis using c session_name_roundtrip [OF c] by simp
qed

lemma demo_conversations:
  "conversations_list fmt demo_files = [conv_summary_of fmt (demo_file ''transcripts/sess-b.json'' 2000),
                                        conv_summary_of fmt (demo_file ''transcripts/sess-a.json'' 1000)]"
  by (simp add: conversations_list_def demo_files_def is_json_file_def ends_with_def demo_file_def conv_summary_of_def)

lemma conversations_newest_first_witness:
  "length (conversations_list (\<lambda>_. ''Jan 1'') demo_files) \<le> 50
   \<and> cs_timestamp (conversations_list (\<lambda>_. ''Jan 1'') demo_files ! 1)
       \<le> cs_timestamp (conversations_list (\<lambda>_. ''Jan 1'') demo_files ! 0)
   \<and> cs_session_id (hd (conversations_list (\<lambda>_. ''Jan 1'') demo_files)) = ''sess-b''"
proof -
  have "sorted_wrt (\<lambda>a b. cs_timestamp b \<le> cs_timestamp a) (conversations_list (\<lambda>_. ''Jan 1'') demo_files)"
    and "length (conversations_list (\<lambda>_. ''Jan 1'') demo_files) \<le> 50"
    using conversations_newest_first [of "\<lambda>_. ''Jan 1''" demo_files] by simp_all
  then show ?thesis
    by (simp add: demo_conversations conv_summary_of_def demo_file_def session_of_name_def transcript_prefix_def)
qed

text \<open>The two \<open>replace\<close> calls remove the first \<open>.json\<close>, not the suffix: the
  session \<open>a.jsonb\<close> is listed as \<open>ab.json\<close>, and the transcript route then looks for
  \<open>transcripts/ab.json.json\<close>.\<close>

lemma session_name_inner_json:
  "session_of_name (name_of_session ''a.jsonb'') = ''ab.json''"
  by (simp add: session_of_name_def name_of_session_def transcript_prefix_def)

text \<open>A file named \<open>transcripts/.json\<close> is listed with the empty session identifier.\<close>

lemma session_name_empty:
  "session_of_name (name_of_session []) = []"
  by (simp add: session_of_name_def name_of_session_def transcript_prefix_def)

end
