(* ===== verification/Json.thy ===== *)
theory Json
  imports Prelude
begin

text \<open>
  JSON documents as the routes read them: the values \<open>JSON.parse\<close> produces, property
  access \<open>v.k\<close> (which throws on \<open>null\<close> and gives \<open>undefined\<close>, here \<open>None\<close>, on a
  missing key or on a value that is not an object), and JavaScript truthiness of what
  it returns. An object lists its keys once each, as \<open>JSON.parse\<close> leaves them. The
  parser itself is a library the routes call; it enters the models
  as a parameter from the text to an error message or a value.
\<close>

datatype json = JNull | JBool bool | JNum real | JStr string | JArr "json list" | JObj "(string \<times> json) list"

text \<open>Property access \<open>v.k\<close>: \<open>Inl\<close> is the \<open>TypeError\<close> of reading a property of
  \<open>null\<close>, \<open>None\<close> is \<open>undefined\<close>.\<close>

fun json_field :: "string \<Rightarrow> json \<Rightarrow> json option" where
  "json_field k (JObj kvs) = map_of kvs k"
| "json_field k v = None"

definition json_get :: "string \<Rightarrow> json \<Rightarrow> string + json option" where
  "json_get k v = (if v = JNull then Inl ''Cannot read properties of null'' else Inr (json_field k v))"

text \<open>The truthiness of a property value (\<open>undefined\<close> is \<open>None\<close>).\<close>

fun json_truthy :: "json option \<Rightarrow> bool" where
  "json_truthy None = False"
| "json_truthy (Some JNull) = False"
| "json_truthy (Some (JBool b)) = b"
| "json_truthy (Some (JNum x)) = (x \<noteq> 0)"
| "json_truthy (Some (JStr s)) = (s \<noteq> [])"
| "json_truthy (Some (JArr vs)) = True"
| "json_truthy (Some (JObj kvs)) = True"

end
