(* ===== verification/Brace_Match.thy ===== *)
theory Brace_Match
  imports Prelude
begin

text \<open>
  The extraction of the JSON object from the language model's answer in
  \<open>getGeminiSuggestions\<close> (\<open>src/app/api/transcript/route.js\<close>, line 46):
  \<open>content.match(/\{[\s\S]*\}/)\<close>. \<open>json_match\<close> computes it as the span from the
  first \<open>{\<close> to the last \<open>}\<close>; \<open>rx_search\<close> is the regular-expression engine's
  leftmost search with the greedy star as structural recursion, and
  \<open>rx_engine\<close> the same search as the engine runs it, one loop over a start position
  and the length the star holds, as a \<open>partial_function (option)\<close> whose result
  \<open>None\<close> would be a search that does not stop.
\<close>

text \<open>\<open>content.match(/\{[\s\S]*\}/)\<close>: the leftmost match of a greedy pattern runs from
  the first \<open>{\<close> to the last \<open>}\<close> after it.\<close>

definition json_match :: "string \<Rightarrow> string option" where
  "json_match content =
     (let a = dropWhile (\<lambda>c. c \<noteq> CHR ''{'') content;
          b = rev (dropWhile (\<lambda>c. c \<noteq> CHR ''}'') (rev a))
      in if a = [] \<or> b = [] then None else Some b)"

text \<open>A reference for the match: the regular-expression engine's search, trying each
  start from the left, matching \<open>{\<close>, letting \<open>[\s\S]*\<close> take as much as it can and
  backtracking one character at a time until \<open>}\<close> matches.\<close>

fun rx_star :: "string \<Rightarrow> nat \<Rightarrow> string option" where
  "rx_star r 0 = None"
| "rx_star r (Suc k) = (if r ! k = CHR ''}'' then Some (take (Suc k) r) else rx_star r k)"

fun rx_search :: "string \<Rightarrow> string option" where
  "rx_search [] = None"
| "rx_search (c # cs) =
     (if c = CHR ''{'' then (case rx_star cs (length cs) of Some m \<Rightarrow> Some (c # m) | None \<Rightarrow> rx_search cs)
      else rx_search cs)"

text \<open>The engine's loop: at start \<open>i\<close>, with the star holding \<open>k\<close> characters after a
  \<open>{\<close>, it tries \<open>}\<close> next; it gives one character back while it can, then moves the
  start on. The star first takes everything after the \<open>{\<close>.\<close>

partial_function (option) rx_loop :: "string \<Rightarrow> nat \<Rightarrow> nat \<Rightarrow> string option option" where
  "rx_loop s i k =
     (if length s \<le> i then Some None
      else if s ! i \<noteq> CHR ''{'' then rx_loop s (Suc i) (length s - Suc (Suc i))
      else if Suc (i + k) < length s \<and> s ! Suc (i + k) = CHR ''}'' then Some (Some (take (k + 2) (drop i s)))
      else if k = 0 then rx_loop s (Suc i) (length s - Suc (Suc i))
      else rx_loop s i (k - 1))"

definition rx_engine :: "string \<Rightarrow> string option option" where
  "rx_engine s = rx_loop s 0 (length s - 1)"

lemma rx_star_last:
  "k \<le> length r \<Longrightarrow> rx_star r k =
     (if CHR ''}'' \<in> set (take k r) then Some (rev (dropWhile (\<lambda>c. c \<noteq> CHR ''}'') (rev (take k r)))) else None)"
proof (induction k)
  case 0
  then show ?case by simp
next
  case (Suc k)
  then have t: "take (Suc k) r = take k r @ [r ! k]" by (simp add: take_Suc_conv_app_nth)
  show ?case using Suc by (auto simp: t)
qed

lemma json_match_Cons:
  "json_match (c # cs) =
     (if c = CHR ''{'' then (if CHR ''}'' \<in> set cs then Some (c # rev (dropWhile (\<lambda>c. c \<noteq> CHR ''}'') (rev cs))) else None)
      else json_match cs)"
  by (auto simp: json_match_def Let_def dropWhile_append3 dropWhile_eq_Nil_conv)

lemma json_match_no_close: "CHR ''}'' \<notin> set s \<Longrightarrow> json_match s = None"
  by (induction s) (simp_all add: json_match_Cons, simp add: json_match_def)


lemma json_match_Some_iff:
  "json_match s = Some m \<longleftrightarrow>
     (\<exists>a b. s = a @ m @ b \<and> CHR ''{'' \<notin> set a \<and> CHR ''}'' \<notin> set b \<and> m \<noteq> []
        \<and> hd m = CHR ''{'' \<and> last m = CHR ''}'')"
  (is "?l \<longleftrightarrow> ?r")
proof
  assume l: ?l
  define A where "A = dropWhile (\<lambda>c. c \<noteq> CHR ''{'') s"
  define D where "D = dropWhile (\<lambda>c. c \<noteq> CHR ''}'') (rev A)"
  define t where "t = takeWhile (\<lambda>c. c \<noteq> CHR ''}'') (rev A)"
  have mD: "m = rev D" and ne: "A \<noteq> []" "D \<noteq> []"
    using l by (auto simp: json_match_def Let_def A_def D_def split: if_splits)
  have sA: "s = takeWhile (\<lambda>c. c \<noteq> CHR ''{'') s @ A" by (simp add: A_def)
  have AD: "A = rev D @ rev t"
  proof -
    have "rev A = t @ D" by (simp add: t_def D_def)
    then show ?thesis by (simp add: rev_swap)
  qed
  have hA: "hd A = CHR ''{''" using hd_dropWhile [of "\<lambda>c. c \<noteq> CHR ''{''" s] ne(1) unfolding A_def by blast
  have hD: "hd D = CHR ''}''" using hd_dropWhile [of "\<lambda>c. c \<noteq> CHR ''}''" "rev A"] ne(2) unfolding D_def by blast
  have "s = takeWhile (\<lambda>c. c \<noteq> CHR ''{'') s @ m @ rev t" using sA AD mD by simp
  moreover have "CHR ''{'' \<notin> set (takeWhile (\<lambda>c. c \<noteq> CHR ''{'') s)" by (auto dest: set_takeWhileD)
  moreover have "CHR ''}'' \<notin> set (rev t)" by (auto simp: t_def dest: set_takeWhileD)
  moreover have "hd m = CHR ''{''" using hA AD mD ne(2) by simp
  moreover have "last m = CHR ''}''" using hD mD ne(2) by (simp add: last_rev)
  ultimately show ?r using mD ne(2) by blast
next
  assume ?r
  then obtain a b where s: "s = a @ m @ b" and a: "CHR ''{'' \<notin> set a" and b: "CHR ''}'' \<notin> set b"
    and m: "m \<noteq> []" "hd m = CHR ''{''" "last m = CHR ''}''" by blast
  have da: "dropWhile (\<lambda>c. c \<noteq> CHR ''{'') a = []" using a by (auto simp: dropWhile_eq_Nil_conv)
  have dm: "dropWhile (\<lambda>c. c \<noteq> CHR ''{'') (m @ b) = m @ b" using m by (cases m) simp_all
  have d1: "dropWhile (\<lambda>c. c \<noteq> CHR ''{'') s = m @ b" using da dm a by (simp add: s dropWhile_append2)
  have db: "dropWhile (\<lambda>c. c \<noteq> CHR ''}'') (rev b) = []" using b by (auto simp: dropWhile_eq_Nil_conv)
  have dr: "dropWhile (\<lambda>c. c \<noteq> CHR ''}'') (rev m) = rev m"
  proof -
    have "rev m \<noteq> []" "hd (rev m) = CHR ''}''" using m by (simp_all add: hd_rev)
    then show ?thesis by (cases "rev m") simp_all
  qed
  have "dropWhile (\<lambda>c. c \<noteq> CHR ''}'') (rev b @ rev m) = dropWhile (\<lambda>c. c \<noteq> CHR ''}'') (rev m)"
    by (rule dropWhile_append2) (use b in auto)
  then have "dropWhile (\<lambda>c. c \<noteq> CHR ''}'') (rev (m @ b)) = rev m" using dr by simp
  moreover have "CHR ''}'' \<in> set m" using m by (metis last_in_set)
  ultimately show ?l using d1 m by (simp add: json_match_def)
qed

text \<open>The greedy span runs over two objects and the text between them.\<close>

lemma json_match_two_objects: "json_match ''x {a} y {b} z'' = Some ''{a} y {b}''"
  by (simp add: json_match_def)

lemma rx_loop_star:
  assumes "i < length s" and "s ! i = CHR ''{''" and "k \<le> length s - Suc i"
  shows "rx_loop s i k =
    (case rx_star (drop (Suc i) s) (min (Suc k) (length s - Suc i)) of
       Some m \<Rightarrow> Some (Some (CHR ''{'' # m))
     | None \<Rightarrow> rx_loop s (Suc i) (length s - Suc (Suc i)))"
  using assms(3)
proof (induction k)
  case 0
  have d: "drop i s = s ! i # drop (Suc i) s" using assms(1) by (simp add: Cons_nth_drop_Suc)
  show ?case
  proof (cases "Suc i < length s")
    case True
    then have "min (Suc 0) (length s - Suc i) = Suc 0" by simp
    then show ?thesis using True assms(2) by (subst rx_loop.simps) (simp add: d take_Suc_conv_app_nth)
  next
    case False
    then have "length s - Suc i = 0" by simp
    then show ?thesis using False assms(1,2) by (subst rx_loop.simps) simp
  qed
next
  case (Suc k)
  have d: "drop i s = s ! i # drop (Suc i) s" using assms(1) by (simp add: Cons_nth_drop_Suc)
  show ?case
  proof (cases "Suc (Suc (i + k)) < length s")
    case True
    then have m: "min (Suc (Suc k)) (length s - Suc i) = Suc (Suc k)" "min (Suc k) (length s - Suc i) = Suc k"
      by simp_all
    have "drop (Suc i) s ! Suc k = s ! Suc (i + Suc k)" using True by simp
    then show ?thesis using True assms(1,2) Suc by (subst rx_loop.simps) (auto simp: m d)
  next
    case False
    then have "Suc k = length s - Suc i" using Suc.prems by simp
    then have m: "min (Suc (Suc k)) (length s - Suc i) = min (Suc k) (length s - Suc i)" by simp
    show ?thesis using False assms(1,2) Suc by (subst rx_loop.simps) (simp add: m)
  qed
qed

lemma rx_loop_search: "i \<le> length s \<Longrightarrow> rx_loop s i (length s - Suc i) = Some (rx_search (drop i s))"
proof (induction "length s - i" arbitrary: i)
  case 0
  then have "length s \<le> i" by simp
  then show ?case by (subst rx_loop.simps) simp
next
  case (Suc n)
  then have i: "i < length s" and n: "n = length s - Suc i" by simp_all
  have d: "drop i s = s ! i # drop (Suc i) s" using i by (simp add: Cons_nth_drop_Suc)
  have IH: "rx_loop s (Suc i) (length s - Suc (Suc i)) = Some (rx_search (drop (Suc i) s))"
    using Suc.hyps(1) [of "Suc i"] n i by simp
  show ?case
  proof (cases "s ! i = CHR ''{''")
    case True
    have "length (drop (Suc i) s) = length s - Suc i" by simp
    then show ?thesis using rx_loop_star [OF i True order_refl] IH True
      by (simp add: d split: option.splits)
  next
    case False
    then show ?thesis using i IH by (subst rx_loop.simps) (simp add: d)
  qed
qed


end
