(* ===== verification/Transcript_Endpoint.thy ===== *)
theory Transcript_Endpoint
  imports Transcript_Format Object_Store Json Brace_Match
begin

text \<open>
  \<open>GET /api/transcript\<close> and its suggestion generator \<open>getGeminiSuggestions\<close>
  (\<open>src/app/api/transcript/route.js\<close>). JSON documents are values of \<open>json\<close>;
  \<open>JSON.parse\<close> is the parameter \<open>parse\<close> (an error message or a value), the language
  model is the parameter \<open>gen\<close> (from the prompt to an error, covering every throw of
  the call chain, or the text of the first candidate), and
  \<open>new Date(data.transcribedAt).toLocaleTimeString()\<close> is the parameter \<open>time_of\<close>.
  The files are those of the bucket (\<open>Object_Store\<close>).
\<close>

section \<open>Reading the document\<close>

text \<open>\<open>(data.transcript || '').split\<close>: a falsy value gives \<open>''\<close>, a string
  itself, and anything else has no \<open>split\<close> method.\<close>

definition text_or_empty :: "json option \<Rightarrow> string + string" where
  "text_or_empty v =
     (if \<not> json_truthy v then Inr []
      else case v of Some (JStr s) \<Rightarrow> Inr s | _ \<Rightarrow> Inl ''transcript.split is not a function'')"

section \<open>The suggestion generator\<close>

abbreviation nl :: string where "nl \<equiv> [CHR 0x0A]"

definition dq :: "string \<Rightarrow> string" where
  "dq s = [CHR 0x22] @ s @ [CHR 0x22]"

text \<open>The prompt of lines 17--40, with the transcript in its place.\<close>

definition prompt_text :: "string \<Rightarrow> string" where
  "prompt_text transcript =
     ''You are an AI assistant for Costco Smart Appliance Support agents. Analyze this customer service conversation and provide:'' @ nl @ nl
     @ ''1. **Agent Behavior Suggestions** (3-5 bullet points):'' @ nl
     @ ''   - What should the agent do next?'' @ nl
     @ ''   - How to handle the customer'' @ [CHR 0x27] @ ''s needs professionally?'' @ nl @ nl
     @ ''2. **Upsell Opportunity** (Yes/No + explanation):'' @ nl
     @ ''   - Can we offer extended warranty, accessories, or related products?'' @ nl @ nl
     @ ''3. **Recommended Questions** (3-4 short questions):'' @ nl
     @ ''   - Questions the agent should ask to help the customer'' @ nl @ nl
     @ ''Conversation:'' @ nl @ transcript @ nl @ nl
     @ ''Respond in this exact JSON format:'' @ nl @ ''{'' @ nl
     @ ''  '' @ dq ''behavior'' @ '': ['' @ dq ''suggestion 1'' @ '', '' @ dq ''suggestion 2'' @ '', ''
       @ dq ''suggestion 3'' @ ''],'' @ nl
     @ ''  '' @ dq ''upsell'' @ '': {'' @ nl
     @ ''    '' @ dq ''possibility'' @ '': '' @ dq ''Yes'' @ '' or '' @ dq ''No'' @ '','' @ nl
     @ ''    '' @ dq ''explanation'' @ '': '' @ dq ''brief explanation'' @ nl
     @ ''  },'' @ nl
     @ ''  '' @ dq ''questions'' @ '': ['' @ dq ''question 1?'' @ '', '' @ dq ''question 2?'' @ '', ''
       @ dq ''question 3?'' @ '']'' @ nl
     @ ''}''"

text \<open>The bundle of the \<open>catch\<close> branch (lines 55--72).\<close>

definition fallback_suggestions :: json where
  "fallback_suggestions =
     JObj [(''behavior'', JArr [
              JStr (''Acknowledge customer'' @ [CHR 0x27] @ ''s smart appliance needs positively''),
              JStr ''Ask for specific device model to provide accurate guidance'',
              JStr ''Provide clear step-by-step instructions'',
              JStr ''Verify each step completed before moving forward'']),
           (''upsell'', JObj [(''possibility'', JStr ''Yes''),
              (''explanation'', JStr ''Customer has smart appliance - opportunity for extended warranty or accessories'')]),
           (''questions'', JArr [
              JStr ''What is your appliance model number?'',
              JStr ''Is your device powered on and connected?'',
              JStr ''Do you have the companion app installed?'',
              JStr ''Would you like help with any other features?''])]"

definition get_suggestions ::
  "(string \<Rightarrow> string + string) \<Rightarrow> (string \<Rightarrow> string + json) \<Rightarrow> string \<Rightarrow> json" where
  "get_suggestions gen parse transcript =
     (case gen (prompt_text transcript) of
        Inl e \<Rightarrow> fallback_suggestions
      | Inr content \<Rightarrow>
          (case json_match content of
             None \<Rightarrow> fallback_suggestions
           | Some m \<Rightarrow> (case parse m of Inl e \<Rightarrow> fallback_suggestions | Inr j \<Rightarrow> j)))"

text \<open>The shape the prompt asks for (lines 33--40): \<open>behavior\<close> and \<open>questions\<close>
  arrays of strings and an \<open>upsell\<close> object with string \<open>possibility\<close> and
  \<open>explanation\<close>.\<close>

fun is_jstr :: "json \<Rightarrow> bool" where
  "is_jstr (JStr s) = True"
| "is_jstr v = False"

fun str_array :: "json option \<Rightarrow> bool" where
  "str_array (Some (JArr vs)) = list_all is_jstr vs"
| "str_array v = False"

definition is_jstr_opt :: "json option \<Rightarrow> bool" where
  "is_jstr_opt v = (case v of Some j \<Rightarrow> is_jstr j | None \<Rightarrow> False)"

fun upsell_ok :: "json option \<Rightarrow> bool" where
  "upsell_ok (Some (JObj u)) = (is_jstr_opt (map_of u ''possibility'') \<and> is_jstr_opt (map_of u ''explanation''))"
| "upsell_ok v = False"

fun suggestion_bundle :: "json \<Rightarrow> bool" where
  "suggestion_bundle (JObj kvs) =
     (str_array (map_of kvs ''behavior'') \<and> upsell_ok (map_of kvs ''upsell'') \<and> str_array (map_of kvs ''questions''))"
| "suggestion_bundle v = False"

section \<open>The handler\<close>

text \<open>The four responses: 400 without a session id, 404 without its file (both with
  constant bodies), the transcript with \<open>sessionId\<close>, \<open>audioFile\<close> and
  \<open>transcribedAt\<close> copied from the document (\<open>None\<close> when undefined), and 500 with
  the message of what was thrown.\<close>

datatype transcript_response =
    T_Bad_Request
  | T_Not_Found
  | T_Ok "message list" json "json option" "json option" "json option"
  | T_Error string

text \<open>Lines 102--145: the document downloaded, parsed and answered.\<close>

definition transcript_of_contents ::
  "(json option \<Rightarrow> string) \<Rightarrow> (string \<Rightarrow> string + json) \<Rightarrow> (string \<Rightarrow> string + string)
   \<Rightarrow> string \<Rightarrow> transcript_response" where
  "transcript_of_contents time_of parse gen contents =
     (case parse contents of
        Inl e \<Rightarrow> T_Error e
      | Inr data \<Rightarrow>
          (case json_get ''transcript'' data of
             Inl e \<Rightarrow> T_Error e
           | Inr tv \<Rightarrow>
               (case text_or_empty tv of
                  Inl e \<Rightarrow> T_Error e
                | Inr transcript \<Rightarrow>
                    let ta = json_field ''transcribedAt'' data
                    in T_Ok (format_messages (time_of ta) transcript)
                         (get_suggestions gen parse transcript)
                         (json_field ''sessionId'' data) (json_field ''audioFile'' data) ta)))"

text \<open>Lines 76--159; \<open>file.exists()\<close> looks the name up in the bucket.\<close>

definition transcript_get ::
  "(json option \<Rightarrow> string) \<Rightarrow> (string \<Rightarrow> string + json) \<Rightarrow> (string \<Rightarrow> string + string)
   \<Rightarrow> string option \<Rightarrow> gcs_file list \<Rightarrow> transcript_response" where
  "transcript_get time_of parse gen session_p store =
     (case session_p of
        None \<Rightarrow> T_Bad_Request
      | Some sid \<Rightarrow>
          if sid = [] then T_Bad_Request
          else (case find (\<lambda>f. f_name f = name_of_session sid) store of
                  None \<Rightarrow> T_Not_Found
                | Some file \<Rightarrow> transcript_of_contents time_of parse gen (f_contents file)))"

section \<open>Example documents\<close>

definition demo_doc :: json where
  "demo_doc = JObj [(''sessionId'', JStr ''sess-b''), (''transcript'', JStr ''Agent: Hello''),
                    (''transcribedAt'', JStr ''2024-03-15T10:00:00Z'')]"

definition demo_parse :: "string \<Rightarrow> string + json" where
  "demo_parse s = (if s = ''doc'' then Inr demo_doc
                   else if s = ''num'' then Inr (JObj [(''transcript'', JNum 42)])
                   else Inl ''Unexpected token'')"

definition demo_store :: "gcs_file list" where
  "demo_store = [\<lparr>f_name = ''transcripts/sess-b.json'', f_time_created = 2000, f_contents = ''doc''\<rparr>,
                 \<lparr>f_name = ''transcripts/sess-n.json'', f_time_created = 1000, f_contents = ''num''\<rparr>]"

lemma get_suggestions_cases:
  "get_suggestions gen parse t = fallback_suggestions
   \<or> (\<exists>content m. gen (prompt_text t) = Inr content \<and> json_match content = Some m
        \<and> parse m = Inr (get_suggestions gen parse t))"
  by (auto simp: get_suggestions_def split: sum.splits option.splits)

text \<open>The suggestions are the fallback bundle, or the parse of a span of the
  model's answer that starts with the first \<open>{\<close> and ends with the last \<open>}\<close>.\<close>

lemma suggestions_from_braces:
  "get_suggestions gen parse t = fallback_suggestions
   \<or> (\<exists>content a m b. gen (prompt_text t) = Inr content \<and> content = a @ m @ b
        \<and> CHR ''{'' \<notin> set a \<and> CHR ''}'' \<notin> set b \<and> m \<noteq> [] \<and> hd m = CHR ''{'' \<and> last m = CHR ''}''
        \<and> parse m = Inr (get_suggestions gen parse t))"
  using get_suggestions_cases [of gen parse t] by (auto simp: json_match_Some_iff)

text \<open>C8: When the model call fails, its answer holds no braced span, or that span
  does not parse, the suggestions are exactly the fallback bundle: four behaviour
  tips, upsell possibility \<open>Yes\<close> and four questions.\<close>

lemma suggestions_fallback:
  assumes "gen (prompt_text t) = Inl e
    \<or> (gen (prompt_text t) = Inr c \<and> json_match c = None)
    \<or> (gen (prompt_text t) = Inr c \<and> json_match c = Some m \<and> parse m = Inl e)"
  shows "get_suggestions gen parse t = fallback_suggestions
    \<and> (\<exists>bs x qs. get_suggestions gen parse t =
          JObj [(''behavior'', JArr bs), (''upsell'', JObj [(''possibility'', JStr ''Yes''), (''explanation'', x)]),
                (''questions'', JArr qs)] \<and> length bs = 4 \<and> length qs = 4)"
  using assms by (auto simp: get_suggestions_def fallback_suggestions_def)

lemma suggestions_fallback_witness:
  "get_suggestions (\<lambda>_. Inl ''quota exceeded'') (\<lambda>_. Inl ''Unexpected token'') ''Agent: Hi'' = fallback_suggestions"
  using suggestions_fallback [of "\<lambda>_. Inl ''quota exceeded''" "''Agent: Hi''" "''quota exceeded''"] by simp



text \<open>The parsed answer is not checked against the schema: a model answering \<open>{}\<close>
  gives an empty object as the suggestions.\<close>

lemma suggestions_unchecked:
  "get_suggestions (\<lambda>_. Inr ''{}'') (\<lambda>_. Inr (JObj [])) t = JObj []
   \<and> \<not> suggestion_bundle (get_suggestions (\<lambda>_. Inr ''{}'') (\<lambda>_. Inr (JObj [])) t)"
  by (simp add: get_suggestions_def json_match_def)

lemma transcript_of_contents_answers:
  "transcript_of_contents time_of parse gen contents \<noteq> T_Bad_Request
   \<and> transcript_of_contents time_of parse gen contents \<noteq> T_Not_Found"
  by (simp add: transcript_of_contents_def Let_def split: sum.splits)

text \<open>C9: The transcript route answers 400 exactly when the session id is missing
  or empty, and 404 exactly when the bucket has no file
  \<open>transcripts/<id>.json\<close>.\<close>

lemma transcript_get_request_errors:
  "(transcript_get time_of parse gen session_p store = T_Bad_Request \<longleftrightarrow> session_p = None \<or> session_p = Some [])
   \<and> (transcript_get time_of parse gen (Some sid) store = T_Not_Found
        \<longleftrightarrow> sid \<noteq> [] \<and> name_of_session sid \<notin> f_name ` set store)"
  using transcript_of_contents_answers
  by (auto simp: transcript_get_def find_None_iff split: option.splits dest!: find_Some_mem intro: image_eqI [OF sym])

lemma text_or_empty_Inr:
  "text_or_empty v = Inr t \<longleftrightarrow>
     v = Some (JStr t) \<or> (t = [] \<and> v \<in> {None, Some JNull, Some (JBool False), Some (JNum 0)})"
  by (cases v rule: json_truthy.cases) (auto simp: text_or_empty_def)

lemma transcript_get_found:
  "sid \<noteq> [] \<Longrightarrow> find (\<lambda>f. f_name f = name_of_session sid) store = Some fl \<Longrightarrow>
   transcript_get time_of parse gen (Some sid) store = transcript_of_contents time_of parse gen (f_contents fl)"
  by (simp add: transcript_get_def)

text \<open>C28: For a stored JSON object whose \<open>transcript\<close> is a string (or is missing,
  null, false or 0, read as the empty text), the route answers the formatted
  messages of that text, the suggestions for it, and the copied fields.\<close>

lemma transcript_get_ok:
  assumes "sid \<noteq> []" and "find (\<lambda>f. f_name f = name_of_session sid) store = Some fl"
    and "parse (f_contents fl) = Inr data" and "data \<noteq> JNull"
    and "json_field ''transcript'' data = Some (JStr t)
         \<or> (t = [] \<and> json_field ''transcript'' data \<in> {None, Some JNull, Some (JBool False), Some (JNum 0)})"
  shows "transcript_get time_of parse gen (Some sid) store =
    T_Ok (format_messages (time_of (json_field ''transcribedAt'' data)) t) (get_suggestions gen parse t)
      (json_field ''sessionId'' data) (json_field ''audioFile'' data) (json_field ''transcribedAt'' data)"
proof -
  have "text_or_empty (json_field ''transcript'' data) = Inr t" using assms(5) by (simp only: text_or_empty_Inr)
  then show ?thesis using assms(3,4)
    by (simp add: transcript_get_found [OF assms(1,2)] transcript_of_contents_def json_get_def Let_def)
qed


text \<open>C26: The session the latest-session route names opens in the transcript route
  (neither 400 nor 404), when it is not empty and holds no \<open>.json\<close>.\<close>

lemma latest_session_opens:
  assumes "latest_session_get (bucket_listing store) = Latest_Session s"
    and "\<not> contains s ''.json''" and "s \<noteq> []"
  shows "transcript_get time_of parse gen (Some s) store \<noteq> T_Bad_Request
    \<and> transcript_get time_of parse gen (Some s) store \<noteq> T_Not_Found"
proof -
  obtain f where "f \<in> set store" "f_name f = name_of_session s"
    using latest_session_file [OF assms(1,2)] by blast
  then obtain g where "find (\<lambda>f. f_name f = name_of_session s) store = Some g"
    by (metis (mono_tags, lifting) find_None_iff not_Some_eq)
  then show ?thesis using assms(3) transcript_of_contents_answers by (simp add: transcript_get_found)
qed

lemma demo_latest: "latest_session_get (bucket_listing demo_files) = Latest_Session ''sess-b''"
  by (simp add: latest_session_get_def bucket_listing_def list_prefix_def demo_files_def demo_file_def
      is_json_file_def ends_with_def transcript_prefix_def session_of_name_def)

lemma latest_session_opens_witness:
  "latest_session_get (bucket_listing demo_files) = Latest_Session ''sess-b''
   \<and> transcript_get (\<lambda>_. ''10:00:00 AM'') (\<lambda>_. Inl ''Unexpected end of JSON input'') (\<lambda>_. Inl ''offline'')
       (Some ''sess-b'') demo_files \<noteq> T_Not_Found"
  using demo_latest latest_session_opens [OF demo_latest] by simp

lemma transcript_get_ok_witness:
  "transcript_get (\<lambda>_. ''10:00:00 AM'') demo_parse (\<lambda>_. Inl ''offline'') (Some ''sess-b'') demo_store =
     T_Ok (format_messages ''10:00:00 AM'' ''Agent: Hello'') fallback_suggestions (Some (JStr ''sess-b'')) None
       (Some (JStr ''2024-03-15T10:00:00Z''))"
proof -
  have f: "find (\<lambda>f. f_name f = name_of_session ''sess-b'') demo_store = Some (hd demo_store)"
    by (simp add: demo_store_def name_of_session_def transcript_prefix_def)
  have p: "demo_parse (f_contents (hd demo_store)) = Inr demo_doc" by (simp add: demo_store_def demo_parse_def)
  have "transcript_get (\<lambda>_. ''10:00:00 AM'') demo_parse (\<lambda>_. Inl ''offline'') (Some ''sess-b'') demo_store =
     T_Ok (format_messages ''10:00:00 AM'' ''Agent: Hello'') (get_suggestions (\<lambda>_. Inl ''offline'') demo_parse ''Agent: Hello'')
       (json_field ''sessionId'' demo_doc) (json_field ''audioFile'' demo_doc) (json_field ''transcribedAt'' demo_doc)"
    using transcript_get_ok [where sid = "''sess-b''" and store = demo_store and fl = "hd demo_store"
        and parse = demo_parse and data = demo_doc and t = "''Agent: Hello''"
        and time_of = "\<lambda>_. ''10:00:00 AM''" and gen = "\<lambda>_. Inl ''offline''"] f p
    by (simp add: demo_doc_def)
  then show ?thesis by (simp add: demo_doc_def get_suggestions_def)
qed



end
