(* ===== verification/Chatbot.thy ===== *)
theory Chatbot
  imports Json
begin

text \<open>
  \<open>POST /api/chatbot\<close> (\<open>src/app/api/chatbot/route.js\<close>): the question of the request
  body is validated, embedded in a prompt and sent to the language model, whose answer
  is returned trimmed. \<open>request.json()\<close> is the parameter \<open>parse\<close> and the model call
  with its reading of the first candidate is the parameter \<open>gen\<close>, as in the
  transcript route.
\<close>

datatype chat_response =
    Chat_Bad_Request
  | Chat_Answer string
  | Chat_Error string

text \<open>The prompt of lines 25--29.\<close>

definition chat_prompt :: "string \<Rightarrow> string" where
  "chat_prompt q =
     ''You are a Costco Smart Appliance Support assistant with knowledge about smart fridges, washers, switches, and other connected home appliances.''
     @ [CHR 0x0A, CHR 0x0A] @ ''Question: '' @ q @ [CHR 0x0A, CHR 0x0A]
     @ ''Provide a helpful 2-3 sentence answer about smart appliance setup, WiFi/Bluetooth connectivity, troubleshooting, or Costco products.''"

text \<open>\<open>const { question } = await request.json()\<close> throws on a \<open>null\<close> body; a falsy
  question, or a string of blanks, is the 400 answer; \<open>question.trim\<close> throws on a
  truthy question that is not a string; every throw is the 500 answer with its
  message.\<close>

definition chatbot_post ::
  "(string \<Rightarrow> string + json) \<Rightarrow> (string \<Rightarrow> string + string) \<Rightarrow> string \<Rightarrow> chat_response" where
  "chatbot_post parse gen body =
     (case parse body of
        Inl e \<Rightarrow> Chat_Error e
      | Inr data \<Rightarrow>
          if data = JNull then Chat_Error ''Cannot destructure property question of null''
          else
            (let q = json_field ''question'' data in
             if \<not> json_truthy q then Chat_Bad_Request
             else case q of
                    Some (JStr s) \<Rightarrow>
                      if js_trim s = [] then Chat_Bad_Request
                      else (case gen (chat_prompt s) of
                              Inl e \<Rightarrow> Chat_Error e
                            | Inr answer \<Rightarrow> Chat_Answer (js_trim answer))
                  | _ \<Rightarrow> Chat_Error ''question.trim is not a function''))"

definition demo_chat_parse :: "string \<Rightarrow> string + json" where
  "demo_chat_parse b =
     (if b = ''blank'' then Inr (JObj [(''question'', JStr ''   '')])
      else if b = ''wifi'' then Inr (JObj [(''question'', JStr '' How do I pair my fridge? '')])
      else Inl ''Unexpected token'')"

text \<open>C23: The chatbot answers 400 exactly when the body parses to a value that is not
  \<open>null\<close> and whose question is falsy or only blanks; the model is then not
  consulted.\<close>

lemma chatbot_bad_request:
  "chatbot_post parse gen body = Chat_Bad_Request \<longleftrightarrow>
     (\<exists>data. parse body = Inr data \<and> data \<noteq> JNull
        \<and> (\<not> json_truthy (json_field ''question'' data)
           \<or> (\<exists>s. json_field ''question'' data = Some (JStr s) \<and> js_trim s = [])))"
  by (auto simp: chatbot_post_def Let_def split: sum.splits option.splits json.splits if_splits)

lemma chatbot_bad_request_witness:
  "chatbot_post demo_chat_parse (\<lambda>_. Inr ''unused'') ''blank'' = Chat_Bad_Request"
  using chatbot_bad_request [of demo_chat_parse "\<lambda>_. Inr ''unused''" "''blank''"]
  by (simp add: demo_chat_parse_def js_simps)

text \<open>An answer of the chatbot is the trimmed text the model gave for the prompt
  of a question that is a string with a non-blank character; it neither starts nor
  ends with a blank.\<close>

lemma chatbot_answer:
  assumes "chatbot_post parse gen body = Chat_Answer a"
  shows "\<exists>data q r. parse body = Inr data \<and> json_field ''question'' data = Some (JStr q) \<and> js_trim q \<noteq> []
           \<and> gen (chat_prompt q) = Inr r \<and> a = js_trim r
           \<and> (a = [] \<or> \<not> is_js_space (hd a) \<and> \<not> is_js_space (last a))"
proof -
  obtain data q r where "parse body = Inr data" "json_field ''question'' data = Some (JStr q)" "js_trim q \<noteq> []"
      "gen (chat_prompt q) = Inr r" "a = js_trim r"
    using assms by (auto simp: chatbot_post_def Let_def split: sum.splits option.splits json.splits if_splits)
  moreover have "a = [] \<or> \<not> is_js_space (hd a) \<and> \<not> is_js_space (last a)"
    using js_trim_no_space_ends [of r a] \<open>a = js_trim r\<close> by auto
  ultimately show ?thesis by blast
qed

lemma chatbot_answer_witness:
  "chatbot_post demo_chat_parse (\<lambda>_. Inr '' Open the app. '') ''wifi'' = Chat_Answer ''Open the app.''
   \<and> ''Open the app.'' = js_trim '' Open the app. ''"
proof -
  have a: "chatbot_post demo_chat_parse (\<lambda>_. Inr '' Open the app. '') ''wifi'' = Chat_Answer ''Open the app.''"
    by (simp add: chatbot_post_def demo_chat_parse_def js_simps)
  then show ?thesis using chatbot_answer [OF a] by auto
qed

text \<open>When the model call fails for a valid question, the chatbot answers the 500
  error response with the failure's message.\<close>

lemma chatbot_model_failure:
  assumes "parse body = Inr data" and "json_field ''question'' data = Some (JStr q)"
    and "js_trim q \<noteq> []" and "gen (chat_prompt q) = Inl e"
  shows "chatbot_post parse gen body = Chat_Error e"
proof -
  have "data \<noteq> JNull" using assms(2) by auto
  moreover have "q \<noteq> []" using assms(3) by (auto simp: js_simps)
  ultimately show ?thesis using assms by (simp add: chatbot_post_def)
qed

lemma chatbot_model_failure_witness:
  "chatbot_post demo_chat_parse (\<lambda>_. Inl ''DEADLINE_EXCEEDED'') ''wifi'' = Chat_Error ''DEADLINE_EXCEEDED''"
  using chatbot_model_failure [of demo_chat_parse "''wifi''" "JObj [(''question'', JStr '' How do I pair my fridge? '')]"
      "'' How do I pair my fridge? ''" "\<lambda>_. Inl ''DEADLINE_EXCEEDED''" "''DEADLINE_EXCEEDED''"]
  by (simp add: demo_chat_parse_def js_simps)

end
