(* ===== verification/Agent_Page.thy ===== *)
theory Agent_Page
  imports Transcript_Endpoint Chatbot
begin

text \<open>
  The agent-assist page \<open>Home\<close> (\<open>src/app/page.js\<close>) as a state machine. Its
  \<open>useState\<close> hooks are the fields of \<open>page_state\<close>; the fetches it has issued
  and not yet seen answered are the list \<open>ps_pending\<close>, so that a response may arrive
  in any order; each handler (\<open>fetchLatestSession\<close>, \<open>fetchConversations\<close>,
  \<open>fetchTranscript\<close>, \<open>sendChatMessage\<close>, the clicks and the timers) is a branch of
  \<open>page_step\<close>, and the effects run on mount are \<open>page_mount\<close>. A response carries
  the value of the route's model (\<open>latest_response\<close>, \<open>conversations_response\<close>,
  \<open>transcript_response\<close>, \<open>chat_response\<close>), and the page reads the fields of its
  JSON body from it; a fetch that throws (network failure, unreadable body) is the
  event \<open>Fail\<close>. The default conversation shown before any transcript is a parameter
  of the initial state.
\<close>

datatype tab = Tab_Transcript | Tab_Assist

datatype request = Req_Latest | Req_Convs | Req_Transcript string | Req_Chat string

datatype response =
    R_Latest latest_response
  | R_Convs conversations_response
  | R_Transcript transcript_response
  | R_Chat chat_response

datatype chat_msg = User_Msg string | Bot_Msg string

record page_state =
  ps_tab :: tab
  ps_conversations :: "conv_summary list"
  ps_selected :: "string option"
  ps_transcript :: "message list"
  ps_suggestions :: json
  ps_loading :: bool
  ps_chat_open :: bool
  ps_chat_messages :: "chat_msg list"
  ps_chat_input :: string
  ps_chat_loading :: bool
  ps_pending :: "request list"

datatype page_event =
    Click_Latest
  | Tick_Convs
  | Tick_Transcript
  | Select string
  | Set_Tab tab
  | Chat_Type string
  | Chat_Enter
  | Chat_Button
  | Chat_Ask string
  | Chat_Toggle
  | Chat_Close
  | Resp request response
  | Fail request

definition page_init :: "message list \<Rightarrow> page_state" where
  "page_init dflt =
     \<lparr>ps_tab = Tab_Transcript, ps_conversations = [], ps_selected = None, ps_transcript = dflt,
      ps_suggestions = JObj [], ps_loading = True, ps_chat_open = False, ps_chat_messages = [],
      ps_chat_input = [], ps_chat_loading = False, ps_pending = []\<rparr>"

definition issue :: "request \<Rightarrow> page_state \<Rightarrow> page_state" where
  "issue r s = s\<lparr>ps_pending := ps_pending s @ [r]\<rparr>"

text \<open>\<open>setSelectedConv(v)\<close>: the effect on \<open>[selectedConv]\<close> runs again only when the
  value changes, and fetches at once when it is truthy (its interval polls on).\<close>

definition select_conv :: "string \<Rightarrow> page_state \<Rightarrow> page_state" where
  "select_conv v s =
     (let s' = s\<lparr>ps_selected := Some v\<rparr>
      in if ps_selected s \<noteq> Some v \<and> v \<noteq> [] then issue (Req_Transcript v) s' else s')"

text \<open>The mount effects in their order: the URL's \<open>sessionId\<close> or
  \<open>fetchLatestSession()\<close>, then \<open>fetchConversations()\<close>.\<close>

definition page_mount :: "message list \<Rightarrow> string option \<Rightarrow> page_state" where
  "page_mount dflt url =
     (let s = page_init dflt;
          s1 = (if url \<noteq> None \<and> url \<noteq> Some [] then s\<lparr>ps_selected := url\<rparr> else issue Req_Latest s);
          s2 = issue Req_Convs s1
      in case ps_selected s2 of Some v \<Rightarrow> issue (Req_Transcript v) s2 | None \<Rightarrow> s2)"

text \<open>\<open>sendChatMessage(question)\<close>: \<open>msg = question || chatInput\<close>; a blank message
  returns; otherwise the question is appended, the input cleared when no question
  was given, and the request issued.\<close>

definition send_chat :: "string \<Rightarrow> page_state \<Rightarrow> page_state" where
  "send_chat question s =
     (let msg = (if question \<noteq> [] then question else ps_chat_input s)
      in if js_trim msg = [] then s
         else issue (Req_Chat msg)
                (s\<lparr>ps_chat_messages := ps_chat_messages s @ [User_Msg msg],
                   ps_chat_input := (if question \<noteq> [] then ps_chat_input s else []),
                   ps_chat_loading := True\<rparr>))"

text \<open>The fields of the response bodies the page reads.\<close>

definition latest_session_id :: "latest_response \<Rightarrow> string option" where
  "latest_session_id r = (case r of Latest_Session s \<Rightarrow> Some s | _ \<Rightarrow> None)"

definition response_conversations :: "conversations_response \<Rightarrow> conv_summary list" where
  "response_conversations r = (case r of Convs_Ok cs \<Rightarrow> cs | Convs_Error e \<Rightarrow> [])"

definition response_messages :: "transcript_response \<Rightarrow> message list" where
  "response_messages r = (case r of T_Ok ms sug sid af ta \<Rightarrow> ms | _ \<Rightarrow> [])"

definition response_suggestions :: "transcript_response \<Rightarrow> json" where
  "response_suggestions r =
     (case r of
        T_Ok ms sug sid af ta \<Rightarrow> if json_truthy (Some sug) then sug else JObj []
      | T_Not_Found \<Rightarrow> JObj [(''behavior'', JArr [JStr ''No transcript available'']),
                         (''upsell'', JObj [(''possibility'', JStr ''No''), (''explanation'', JStr [])]),
                         (''questions'', JArr [])]
      | T_Error e \<Rightarrow> JObj [(''behavior'', JArr [JStr ''Error loading transcript'']),
                         (''upsell'', JObj [(''possibility'', JStr ''No''), (''explanation'', JStr [])]),
                         (''questions'', JArr [])]
      | T_Bad_Request \<Rightarrow> JObj [])"

definition chat_answer_text :: "chat_response \<Rightarrow> string" where
  "chat_answer_text r =
     (case r of
        Chat_Answer a \<Rightarrow> a
      | Chat_Bad_Request \<Rightarrow> ''Please ask a question''
      | Chat_Error e \<Rightarrow> ''Unable to process request. Please try again.'')"

text \<open>A response to a pending request, by the handler that issued it; a request is
  answered by its own route (\<open>resp_matches\<close>).\<close>

fun on_response :: "request \<Rightarrow> response \<Rightarrow> page_state \<Rightarrow> page_state" where
  "on_response Req_Latest (R_Latest r) s =
     (case latest_session_id r of Some v \<Rightarrow> if v \<noteq> [] then select_conv v s else s | None \<Rightarrow> s)"
| "on_response Req_Convs (R_Convs r) s =
     s\<lparr>ps_conversations := response_conversations r, ps_loading := False\<rparr>"
| "on_response (Req_Transcript sid) (R_Transcript r) s =
     (if response_messages r \<noteq> []
      then s\<lparr>ps_transcript := response_messages r, ps_suggestions := response_suggestions r\<rparr>
      else s)"
| "on_response (Req_Chat m) (R_Chat r) s =
     s\<lparr>ps_chat_messages := ps_chat_messages s @ [Bot_Msg (chat_answer_text r)],
       ps_chat_open := True, ps_chat_loading := False\<rparr>"
| "on_response q r s = s"

fun on_failure :: "request \<Rightarrow> page_state \<Rightarrow> page_state" where
  "on_failure Req_Convs s = s\<lparr>ps_loading := False\<rparr>"
| "on_failure (Req_Chat m) s =
     s\<lparr>ps_chat_messages := ps_chat_messages s @ [Bot_Msg ''Sorry, I encountered an error. Please try again.''],
       ps_chat_loading := False\<rparr>"
| "on_failure q s = s"

fun resp_matches :: "request \<Rightarrow> response \<Rightarrow> bool" where
  "resp_matches Req_Latest (R_Latest r) = True"
| "resp_matches Req_Convs (R_Convs r) = True"
| "resp_matches (Req_Transcript v) (R_Transcript r) = True"
| "resp_matches (Req_Chat m) (R_Chat r) = True"
| "resp_matches q r = False"

definition settle :: "request \<Rightarrow> page_state \<Rightarrow> page_state" where
  "settle q s = s\<lparr>ps_pending := remove1 q (ps_pending s)\<rparr>"

fun page_step :: "page_state \<Rightarrow> page_event \<Rightarrow> page_state" where
  "page_step s Click_Latest = issue Req_Latest s"
| "page_step s Tick_Convs = issue Req_Convs s"
| "page_step s Tick_Transcript =
     (case ps_selected s of Some v \<Rightarrow> if v \<noteq> [] then issue (Req_Transcript v) s else s | None \<Rightarrow> s)"
| "page_step s (Select v) = select_conv v s"
| "page_step s (Set_Tab t) = s\<lparr>ps_tab := t\<rparr>"
| "page_step s (Chat_Type v) = s\<lparr>ps_chat_input := v\<rparr>"
| "page_step s Chat_Enter = send_chat [] s"
| "page_step s Chat_Button = (if ps_chat_loading s \<or> js_trim (ps_chat_input s) = [] then s else send_chat [] s)"
| "page_step s (Chat_Ask q) = send_chat q s"
| "page_step s Chat_Toggle = s\<lparr>ps_chat_open := \<not> ps_chat_open s\<rparr>"
| "page_step s Chat_Close = s\<lparr>ps_chat_open := False\<rparr>"
| "page_step s (Resp q r) =
     (if q \<in> set (ps_pending s) \<and> resp_matches q r then on_response q r (settle q s) else s)"
| "page_step s (Fail q) = (if q \<in> set (ps_pending s) then on_failure q (settle q s) else s)"

definition page_run :: "page_state \<Rightarrow> page_event list \<Rightarrow> page_state" where
  "page_run s evs = foldl page_step s evs"

inductive page_reach :: "message list \<Rightarrow> page_state \<Rightarrow> bool" for dflt where
  page_reach_mount: "page_reach dflt (page_mount dflt url)"
| page_reach_step: "page_reach dflt s \<Longrightarrow> page_reach dflt (page_step s ev)"

text \<open>The invariant of the page: each question in the chat history is followed, in
  number, by an answer or by its request in flight; with no chat request in flight
  the chat is not loading; every transcript request names a non-empty session.\<close>

fun is_user_msg :: "chat_msg \<Rightarrow> bool" where
  "is_user_msg (User_Msg m) = True"
| "is_user_msg (Bot_Msg m) = False"

fun is_chat_req :: "request \<Rightarrow> bool" where
  "is_chat_req (Req_Chat m) = True"
| "is_chat_req q = False"

definition page_inv :: "page_state \<Rightarrow> bool" where
  "page_inv s \<longleftrightarrow>
     length (filter is_user_msg (ps_chat_messages s))
       = length (filter (Not \<circ> is_user_msg) (ps_chat_messages s)) + length (filter is_chat_req (ps_pending s))
     \<and> (filter is_chat_req (ps_pending s) = [] \<longrightarrow> \<not> ps_chat_loading s)
     \<and> (\<forall>v. Req_Transcript v \<in> set (ps_pending s) \<longrightarrow> v \<noteq> [])"

lemma page_inv_issue:
  "\<not> is_chat_req r \<Longrightarrow> (\<forall>v. r = Req_Transcript v \<longrightarrow> v \<noteq> []) \<Longrightarrow> page_inv s \<Longrightarrow> page_inv (issue r s)"
  by (auto simp: page_inv_def issue_def)

lemma page_inv_select: "page_inv s \<Longrightarrow> page_inv (select_conv v s)"
  by (auto simp: select_conv_def Let_def page_inv_def issue_def)

lemma page_inv_send: "page_inv s \<Longrightarrow> page_inv (send_chat q s)"
  by (auto simp: send_chat_def Let_def page_inv_def issue_def)

lemma page_inv_answer:
  assumes "page_inv s" and "Req_Chat m \<in> set (ps_pending s)"
    and "ps_pending t = remove1 (Req_Chat m) (ps_pending s)"
    and "ps_chat_messages t = ps_chat_messages s @ [Bot_Msg a]" and "\<not> ps_chat_loading t"
  shows "page_inv t"
  using assms length_filter_remove1 [OF assms(2), of is_chat_req]
  by (auto simp: page_inv_def dest: in_set_remove1_in)

lemma page_inv_settle_other:
  assumes "page_inv s" and "q \<in> set (ps_pending s)" and "\<not> is_chat_req q"
  shows "page_inv (settle q s)"
proof -
  have "length (filter is_chat_req (remove1 q (ps_pending s))) = length (filter is_chat_req (ps_pending s))"
    using length_filter_remove1 [OF assms(2), of is_chat_req] assms(3) by simp
  moreover have "filter is_chat_req (remove1 q (ps_pending s)) = [] \<longleftrightarrow> filter is_chat_req (ps_pending s) = []"
    using calculation by (metis length_0_conv)
  ultimately show ?thesis using assms(1) by (auto simp: page_inv_def settle_def dest: in_set_remove1_in)
qed

lemma page_inv_mount: "page_inv (page_mount dflt url)"
  by (auto simp: page_mount_def page_init_def page_inv_def issue_def Let_def split: option.splits)

lemma page_inv_fields:
  "page_inv s \<Longrightarrow> page_inv (s\<lparr>ps_tab := t\<rparr>) \<and> page_inv (s\<lparr>ps_chat_input := i\<rparr>) \<and> page_inv (s\<lparr>ps_chat_open := b\<rparr>)
     \<and> page_inv (s\<lparr>ps_loading := l\<rparr>) \<and> page_inv (s\<lparr>ps_conversations := cs\<rparr>)
     \<and> page_inv (s\<lparr>ps_transcript := ms, ps_suggestions := j\<rparr>)"
  by (simp add: page_inv_def)

lemma page_inv_response:
  assumes "page_inv s" and "q \<in> set (ps_pending s)" and "resp_matches q r"
  shows "page_inv (on_response q r (settle q s))"
proof (cases q)
  case (Req_Chat m)
  then obtain c where "r = R_Chat c" using assms(3) by (cases r) auto
  then show ?thesis using assms(1,2) Req_Chat by (auto intro: page_inv_answer simp: settle_def)
next
  case Req_Latest
  then have "page_inv (settle q s)" using page_inv_settle_other assms(1,2) by simp
  then show ?thesis using Req_Latest assms(3) page_inv_select
    by (cases r) (auto split: option.splits)
next
  case Req_Convs
  then have "page_inv (settle q s)" using page_inv_settle_other assms(1,2) by simp
  then show ?thesis using Req_Convs assms(3) page_inv_fields by (cases r) auto
next
  case (Req_Transcript v)
  then have "page_inv (settle q s)" using page_inv_settle_other assms(1,2) by simp
  then show ?thesis using Req_Transcript assms(3) page_inv_fields by (cases r) auto
qed

lemma page_inv_failure:
  assumes "page_inv s" and "q \<in> set (ps_pending s)"
  shows "page_inv (on_failure q (settle q s))"
proof (cases q)
  case (Req_Chat m)
  then show ?thesis using assms by (auto intro: page_inv_answer simp: settle_def)
qed (use page_inv_settle_other [OF assms] page_inv_fields in auto)

lemma page_inv_step: "page_inv s \<Longrightarrow> page_inv (page_step s ev)"
  by (cases ev)
     (auto simp: page_inv_issue page_inv_select page_inv_send page_inv_fields page_inv_response page_inv_failure
        split: option.splits)

text \<open>C12: Every state the page reaches from its mount satisfies \<open>page_inv\<close>: as
  many questions in the chat as answers plus chat requests in flight, no loading
  indicator without a chat request in flight, and transcript requests only for
  non-empty sessions.\<close>

lemma page_reach_inv: "page_reach dflt s \<Longrightarrow> page_inv s"
  by (induction rule: page_reach.induct) (simp_all add: page_inv_mount page_inv_step)

lemma page_reach_inv_witness:
  "length (filter is_user_msg (ps_chat_messages
      (page_step (page_step (page_mount [] None) (Chat_Type ''wifi'')) Chat_Enter))) = 1
   \<and> length (filter is_chat_req (ps_pending
      (page_step (page_step (page_mount [] None) (Chat_Type ''wifi'')) Chat_Enter))) = 1
   \<and> ps_chat_loading (page_step (page_step (page_mount [] None) (Chat_Type ''wifi'')) Chat_Enter)"
proof -
  have "page_reach [] (page_step (page_step (page_mount [] None) (Chat_Type ''wifi'')) Chat_Enter)"
    by (intro page_reach_step page_reach_mount)
  then have "page_inv (page_step (page_step (page_mount [] None) (Chat_Type ''wifi'')) Chat_Enter)"
    by (rule page_reach_inv)
  then show ?thesis
    by (simp add: page_inv_def page_mount_def page_init_def issue_def send_chat_def Let_def js_simps)
qed

text \<open>A transcript response with messages replaces the messages shown, whatever
  session it was asked for; a response without messages (404, 500, 400) and a failed
  fetch leave them as they are.\<close>

lemma page_transcript_response:
  assumes "Req_Transcript v \<in> set (ps_pending s)"
  shows "ps_transcript (page_step s (Resp (Req_Transcript v) (R_Transcript r))) =
           (if response_messages r \<noteq> [] then response_messages r else ps_transcript s)
         \<and> ps_transcript (page_step s (Fail q)) = ps_transcript s"
  using assms by (cases q) (simp_all add: settle_def)

lemma page_transcript_response_witness:
  "ps_transcript (page_step (page_mount [] (Some ''A'')) (Resp (Req_Transcript ''A'') (R_Transcript T_Not_Found))) = []"
  using page_transcript_response [of "''A''" "page_mount [] (Some ''A'')" T_Not_Found Req_Latest]
  by (simp add: page_mount_def page_init_def issue_def Let_def response_messages_def)

lemma transcript_get_shows:
  assumes "sid \<noteq> []" and "find (\<lambda>f. f_name f = name_of_session sid) store = Some fl"
    and "parse (f_contents fl) = Inr data" and "data \<noteq> JNull" and "json_field ''transcript'' data = Some (JStr t)"
  shows "response_messages (transcript_get time_of parse gen (Some sid) store) =
           format_messages (time_of (json_field ''transcribedAt'' data)) t"
  using assms by (simp add: transcript_get_found transcript_of_contents_def json_get_def text_or_empty_def
      Let_def response_messages_def)

text \<open>C13: Opened without a session in its URL, the page selects the session the
  latest-session route names and, once the transcript route answers for it, shows
  the formatted messages of that session's stored transcript.\<close>

lemma page_shows_latest:
  assumes "latest_session_get (bucket_listing store) = Latest_Session sid" and "sid \<noteq> []"
    and "find (\<lambda>f. f_name f = name_of_session sid) store = Some fl"
    and "parse (f_contents fl) = Inr data" and "data \<noteq> JNull" and "json_field ''transcript'' data = Some (JStr t)"
    and "format_messages (time_of (json_field ''transcribedAt'' data)) t \<noteq> []"
  shows "ps_selected (page_run (page_mount dflt None)
            [Resp Req_Latest (R_Latest (latest_session_get (bucket_listing store))),
             Resp (Req_Transcript sid) (R_Transcript (transcript_get time_of parse gen (Some sid) store))]) = Some sid
       \<and> ps_transcript (page_run (page_mount dflt None)
            [Resp Req_Latest (R_Latest (latest_session_get (bucket_listing store))),
             Resp (Req_Transcript sid) (R_Transcript (transcript_get time_of parse gen (Some sid) store))])
         = format_messages (time_of (json_field ''transcribedAt'' data)) t"
  using assms transcript_get_shows [where sid = sid and store = store and fl = fl and parse = parse and data = data
      and t = t and time_of = time_of and gen = gen]
  by (simp add: page_run_def page_mount_def page_init_def issue_def settle_def select_conv_def Let_def
      latest_session_id_def)

lemma demo_store_latest: "latest_session_get (bucket_listing demo_store) = Latest_Session ''sess-b''"
  by (simp add: latest_session_get_def bucket_listing_def list_prefix_def demo_store_def
      is_json_file_def ends_with_def transcript_prefix_def session_of_name_def)

lemma page_shows_latest_witness:
  "ps_transcript (page_run (page_mount [] None)
      [Resp Req_Latest (R_Latest (latest_session_get (bucket_listing demo_store))),
       Resp (Req_Transcript ''sess-b'') (R_Transcript (transcript_get (\<lambda>_. ''10:00:00 AM'') demo_parse
          (\<lambda>_. Inl ''offline'') (Some ''sess-b'') demo_store))])
   = format_messages ''10:00:00 AM'' ''Agent: Hello''"
proof -
  have f: "find (\<lambda>f. f_name f = name_of_session ''sess-b'') demo_store = Some (hd demo_store)"
    by (simp add: demo_store_def name_of_session_def transcript_prefix_def)
  have p: "demo_parse (f_contents (hd demo_store)) = Inr demo_doc" by (simp add: demo_store_def demo_parse_def)
  have n: "format_messages ''10:00:00 AM'' ''Agent: Hello'' \<noteq> []"
    by (simp add: format_messages_def transcript_lines_def js_simps)
  show ?thesis
    using page_shows_latest [where store = demo_store and sid = "''sess-b''" and fl = "hd demo_store"
        and parse = demo_parse and data = demo_doc and t = "''Agent: Hello''" and time_of = "\<lambda>_. ''10:00:00 AM''"
        and gen = "\<lambda>_. Inl ''offline''" and dflt = "[]"] demo_store_latest f p n
    by (simp add: demo_doc_def)
qed

text \<open>A transcript response is shown whatever session it was asked for: after a switch
  from \<open>A\<close> to \<open>B\<close>, a late answer for \<open>A\<close> replaces the messages of \<open>B\<close>.\<close>

lemma page_stale_transcript:
  assumes "ma \<noteq> []" and "mb \<noteq> []"
  shows "ps_selected (page_run (page_mount dflt (Some ''A''))
            [Select ''B'', Resp (Req_Transcript ''B'') (R_Transcript (T_Ok mb j None None None)),
             Resp (Req_Transcript ''A'') (R_Transcript (T_Ok ma j None None None))]) = Some ''B''
       \<and> ps_transcript (page_run (page_mount dflt (Some ''A''))
            [Select ''B'', Resp (Req_Transcript ''B'') (R_Transcript (T_Ok mb j None None None)),
             Resp (Req_Transcript ''A'') (R_Transcript (T_Ok ma j None None None))]) = ma"
  using assms by (simp add: page_run_def page_mount_def page_init_def issue_def settle_def select_conv_def
      Let_def response_messages_def)

text \<open>Enter sends while an answer is awaited (only the button is disabled): the answers
  may come back in the other order, and the chat stops loading at the first one.\<close>

lemma page_chat_overlap:
  "page_run ((page_mount dflt None)\<lparr>ps_chat_input := ''wifi''\<rparr>)
      [Chat_Enter, Chat_Type ''reset'', Chat_Enter, Resp (Req_Chat ''reset'') (R_Chat (Chat_Answer ''R''))]
   = ((page_mount dflt None)\<lparr>ps_chat_open := True,
        ps_chat_messages := [User_Msg ''wifi'', User_Msg ''reset'', Bot_Msg ''R''],
        ps_chat_input := [], ps_chat_loading := False,
        ps_pending := [Req_Latest, Req_Convs, Req_Chat ''wifi'']\<rparr>)"
  by (simp add: page_run_def page_mount_def page_init_def issue_def settle_def send_chat_def Let_def
      chat_answer_text_def js_simps)

end
