(* ===== verification/Agent_View.thy ===== *)
theory Agent_View
  imports Agent_Page
begin

text \<open>
  What the agent-assist page (\<open>src/app/page.js\<close>) renders from its state: the
  transcript panel, the assist panel built from the \<open>suggestions\<close> object the
  transcript route delivered (with the page's own defaults where it has none), the
  recommended-question buttons and what a click on one does, and the chat widget.
  A value the JSX cannot render is a failed render (\<open>None\<close>): React throws on an
  object used as a child and on \<open>.map\<close> of a value that is not an array.
\<close>

section \<open>The transcript panel\<close>

record message_view =
  mv_label :: string
  mv_sentiment :: "string option"
  mv_time :: string
  mv_text :: string

text \<open>Lines 198--237: the speaker label, the sentiment badge when the sentiment is
  not empty, the time and the text of each message.\<close>

definition message_view_of :: "message \<Rightarrow> message_view" where
  "message_view_of m =
     \<lparr>mv_label = (if msg_role m = Agent then ''Agent'' else ''Customer''),
      mv_sentiment = (if msg_sentiment m = [] then None else Some (msg_sentiment m)),
      mv_time = msg_time m, mv_text = msg_text m\<rparr>"

definition transcript_panel :: "page_state \<Rightarrow> message_view list" where
  "transcript_panel s = map message_view_of (ps_transcript s)"

section \<open>The assist panel\<close>

text \<open>A JSON value as a React child: objects cannot be rendered, arrays render their
  items, everything else renders as text or nothing.\<close>

fun child_ok :: "json \<Rightarrow> bool" where
  "child_ok (JObj kvs) = False"
| "child_ok (JArr vs) = list_all child_ok vs"
| "child_ok v = True"

text \<open>\<open>x && x.length > 0 ? x.map(...) : defaults\<close>: \<open>Some (Some vs)\<close> renders the
  items, \<open>Some None\<close> the defaults, \<open>None\<close> is a failed render (a non-empty string,
  or an object with a positive \<open>length\<close>, has no \<open>map\<close>).\<close>

fun listed :: "json option \<Rightarrow> json list option option" where
  "listed (Some (JArr vs)) = Some (if vs = [] then None else Some vs)"
| "listed (Some (JStr s)) = (if s = [] then Some None else None)"
| "listed (Some (JObj kvs)) =
     (case map_of kvs ''length'' of Some (JNum x) \<Rightarrow> if 0 < x then None else Some None | _ \<Rightarrow> Some None)"
| "listed v = Some None"

definition default_tips :: "string list" where
  "default_tips =
     [''Acknowledge customer'' @ [CHR 0x27] @ ''s smart appliance needs and provide warm greeting'',
      ''Ask for specific device model and connection type to provide accurate guidance'',
      ''Provide clear step-by-step WiFi or Bluetooth setup instructions'',
      ''Verify each step is completed before moving to the next instruction'',
      ''Confirm successful connection and offer additional feature assistance'']"

definition default_questions :: "string list" where
  "default_questions =
     [''How do I set up WiFi on smart fridge?'', ''How do I connect via Bluetooth?'',
      ''How to reset smart appliance?'', ''Troubleshooting connection issues?'']"

definition default_explanation :: string where
  "default_explanation =
     ''Customer setting up smart fridge - great opportunity to offer extended warranty, water filter subscription, or SmartThings hub for additional smart home integration.''"

record assist_view =
  av_tips :: "json list"
  av_possibility :: json
  av_explanation :: json
  av_questions :: "json list"

definition or_default :: "json option \<Rightarrow> json \<Rightarrow> json" where
  "or_default v d = (case v of Some j \<Rightarrow> if json_truthy (Some j) then j else d | None \<Rightarrow> d)"

definition upsell_field :: "string \<Rightarrow> json \<Rightarrow> json option" where
  "upsell_field k sug = (case json_field ''upsell'' sug of Some u \<Rightarrow> json_field k u | None \<Rightarrow> None)"

text \<open>Lines 251--361.\<close>

definition assist_panel :: "json \<Rightarrow> assist_view option" where
  "assist_panel sug =
     (case (listed (json_field ''behavior'' sug), listed (json_field ''questions'' sug)) of
        (Some b, Some q) \<Rightarrow>
          let tips = (case b of Some vs \<Rightarrow> vs | None \<Rightarrow> map JStr default_tips);
              qs = (case q of Some vs \<Rightarrow> vs | None \<Rightarrow> map JStr default_questions);
              pos = or_default (upsell_field ''possibility'' sug) (JStr ''Yes'');
              expl = or_default (upsell_field ''explanation'' sug) (JStr default_explanation)
          in if list_all child_ok tips \<and> list_all child_ok qs \<and> child_ok pos \<and> child_ok expl
             then Some \<lparr>av_tips = tips, av_possibility = pos, av_explanation = expl, av_questions = qs\<rparr>
             else None
      | _ \<Rightarrow> None)"

text \<open>\<open>onClick={() => sendChatMessage(q)}\<close>: a string question is sent; a falsy one
  falls back to the input; a truthy non-string makes \<open>msg.trim\<close> throw before any
  state changes.\<close>

definition click_question :: "json \<Rightarrow> page_state \<Rightarrow> page_state" where
  "click_question q s =
     (case q of JStr t \<Rightarrow> send_chat t s
      | _ \<Rightarrow> if json_truthy (Some q) then s else send_chat [] s)"

section \<open>The chat widget\<close>

datatype chat_line = Chat_Placeholder | Chat_Line chat_msg | Chat_Thinking

text \<open>Lines 374--397: the placeholder of an empty history, the history, and the
  thinking indicator while \<open>chatLoading\<close>.\<close>

definition chat_panel :: "page_state \<Rightarrow> chat_line list" where
  "chat_panel s =
     (if ps_chat_messages s = [] then [Chat_Placeholder] else [])
     @ map Chat_Line (ps_chat_messages s)
     @ (if ps_chat_loading s then [Chat_Thinking] else [])"

lemma listed_str_array:
  "str_array v \<Longrightarrow> \<exists>vs. v = Some (JArr vs) \<and> list_all is_jstr vs
     \<and> listed v = Some (if vs = [] then None else Some vs)"
  by (cases v rule: str_array.cases) auto

lemma is_jstr_child_ok: "is_jstr j \<Longrightarrow> child_ok j"
  by (cases j) auto

lemma or_default_jstr: "is_jstr_opt v \<Longrightarrow> is_jstr d \<Longrightarrow> is_jstr (or_default v d)"
  by (auto simp: or_default_def is_jstr_opt_def split: option.splits)

lemma upsell_fields:
  "upsell_ok (json_field ''upsell'' j) \<Longrightarrow>
     is_jstr_opt (upsell_field ''possibility'' j) \<and> is_jstr_opt (upsell_field ''explanation'' j)"
  by (cases "json_field ''upsell'' j" rule: upsell_ok.cases) (auto simp: upsell_field_def)

text \<open>C17: The assist panel renders the suggestions of every value with the schema of
  the prompt, and the page's initial empty object: at least one tip and one question,
  all strings, and string upsell texts, so each question button sends its text to the
  chatbot.\<close>

lemma assist_panel_renders:
  assumes "suggestion_bundle j \<or> j = JObj []"
  shows "\<exists>v. assist_panel j = Some v \<and> av_tips v \<noteq> [] \<and> av_questions v \<noteq> []
           \<and> list_all is_jstr (av_tips v) \<and> list_all is_jstr (av_questions v)
           \<and> is_jstr (av_possibility v) \<and> is_jstr (av_explanation v)"
  using assms
proof
  assume "j = JObj []"
  then show ?thesis
    by (simp add: assist_panel_def Let_def or_default_def upsell_field_def default_tips_def default_questions_def)
next
  assume b: "suggestion_bundle j"
  then obtain kvs where j: "j = JObj kvs" by (cases j) auto
  have s: "str_array (json_field ''behavior'' j)" "upsell_ok (json_field ''upsell'' j)"
      "str_array (json_field ''questions'' j)" using b j by simp_all
  obtain bs where bs: "json_field ''behavior'' j = Some (JArr bs)" "list_all is_jstr bs"
      "listed (json_field ''behavior'' j) = Some (if bs = [] then None else Some bs)"
    using listed_str_array [OF s(1)] by blast
  obtain qs where qs: "json_field ''questions'' j = Some (JArr qs)" "list_all is_jstr qs"
      "listed (json_field ''questions'' j) = Some (if qs = [] then None else Some qs)"
    using listed_str_array [OF s(3)] by blast
  have p: "is_jstr (or_default (upsell_field ''possibility'' j) (JStr ''Yes''))"
   and e: "is_jstr (or_default (upsell_field ''explanation'' j) (JStr default_explanation))"
    using upsell_fields [OF s(2)] by (simp_all add: or_default_jstr)
  have c: "list_all child_ok xs" if "list_all is_jstr xs" for xs
    using that by (simp add: list_all_iff is_jstr_child_ok)
  have d: "list_all is_jstr (map JStr default_tips)" "list_all is_jstr (map JStr default_questions)"
    "default_tips \<noteq> []" "default_questions \<noteq> []"
    by (simp_all add: default_tips_def default_questions_def)
  show ?thesis using bs(2,3) qs(2,3) p e c d is_jstr_child_ok
    by (simp add: assist_panel_def Let_def)
qed

lemma assist_panel_renders_witness:
  "av_possibility (the (assist_panel fallback_suggestions)) = JStr ''Yes''
   \<and> length (av_questions (the (assist_panel fallback_suggestions))) = 4
   \<and> length (av_tips (the (assist_panel (JObj [])))) = 5"
proof -
  have "suggestion_bundle fallback_suggestions" by (simp add: fallback_suggestions_def is_jstr_opt_def)
  then obtain v where "assist_panel fallback_suggestions = Some v"
    using assist_panel_renders [of fallback_suggestions] by blast
  then show ?thesis
    by (auto simp: assist_panel_def fallback_suggestions_def Let_def or_default_def upsell_field_def
        default_tips_def default_questions_def split: if_splits)
qed

text \<open>A model answer whose \<open>behavior\<close> is a string passes the route (no schema check)
  and makes the panel's \<open>.map\<close> throw.\<close>

lemma assist_panel_string_behavior:
  "assist_panel (JObj [(''behavior'', JStr ''Greet the customer'')]) = None"
  by (simp add: assist_panel_def)

end
