(* ===== verification/Analytics_Page.thy ===== *)
theory Analytics_Page
  imports Dashboard Trends Leads
begin

text \<open>
  The analytics page \<open>Analytics\<close> (\<open>src/app/analytics/page.js\<close>) as a state machine,
  in the manner of \<open>Agent_Page\<close>: its \<open>useState\<close> hooks are the fields of
  \<open>ap_state\<close>, the fetches in flight are \<open>ap_pending\<close>, \<open>fetchAnalytics\<close> is
  \<open>ap_fetch\<close> (the request chosen by the view and range at the time of the call), the
  effect on \<open>[timeRange, activeView]\<close> and its 30-second interval are the events of
  \<open>ap_step\<close>, and a response carries the value of the route's model. \<open>ap_panel\<close> is
  the choice of what the page renders, and \<open>bar_widths\<close>, \<open>volume_heights\<close> the
  sizes of the bars it draws.
\<close>

datatype view = View_Dashboard | View_Trends | View_Leads

datatype areq = AReq_Dashboard string | AReq_Trends int | AReq_Leads

datatype aresp = AR_Dashboard dashboard_response | AR_Trends trends_response | AR_Leads leads_response

record ap_state =
  ap_range :: string
  ap_dashboard :: "dashboard_response option"
  ap_trends :: "trends_response option"
  ap_leads :: "leads_response option"
  ap_loading :: bool
  ap_view :: view
  ap_pending :: "areq list"

datatype ap_event =
    AP_Range string
  | AP_View view
  | AP_Tick
  | AP_Resp areq aresp
  | AP_Fail areq

text \<open>\<open>days = timeRange === 'today' ? 7 : timeRange === 'week' ? 30 : 90\<close>.\<close>

definition range_days :: "string \<Rightarrow> int" where
  "range_days r = (if r = ''today'' then 7 else if r = ''week'' then 30 else 90)"

fun request_of :: "view \<Rightarrow> string \<Rightarrow> areq" where
  "request_of View_Dashboard r = AReq_Dashboard r"
| "request_of View_Trends r = AReq_Trends (range_days r)"
| "request_of View_Leads r = AReq_Leads"

definition ap_init :: ap_state where
  "ap_init =
     \<lparr>ap_range = ''today'', ap_dashboard = None, ap_trends = None, ap_leads = None, ap_loading = True,
      ap_view = View_Dashboard, ap_pending = []\<rparr>"

definition ap_fetch :: "ap_state \<Rightarrow> ap_state" where
  "ap_fetch s = s\<lparr>ap_loading := True, ap_pending := ap_pending s @ [request_of (ap_view s) (ap_range s)]\<rparr>"

definition ap_mount :: ap_state where
  "ap_mount = ap_fetch ap_init"

fun aresp_matches :: "areq \<Rightarrow> aresp \<Rightarrow> bool" where
  "aresp_matches (AReq_Dashboard r) (AR_Dashboard d) = True"
| "aresp_matches (AReq_Trends n) (AR_Trends t) = True"
| "aresp_matches AReq_Leads (AR_Leads l) = True"
| "aresp_matches q r = False"

text \<open>The \<open>set...Data(data)\<close> of each branch, then the \<open>finally\<close>.\<close>

fun ap_on_response :: "aresp \<Rightarrow> ap_state \<Rightarrow> ap_state" where
  "ap_on_response (AR_Dashboard d) s = s\<lparr>ap_dashboard := Some d\<rparr>"
| "ap_on_response (AR_Trends t) s = s\<lparr>ap_trends := Some t\<rparr>"
| "ap_on_response (AR_Leads l) s = s\<lparr>ap_leads := Some l\<rparr>"

definition ap_settle :: "areq \<Rightarrow> ap_state \<Rightarrow> ap_state" where
  "ap_settle q s = s\<lparr>ap_pending := remove1 q (ap_pending s), ap_loading := False\<rparr>"

fun ap_step :: "ap_state \<Rightarrow> ap_event \<Rightarrow> ap_state" where
  "ap_step s (AP_Range r) = (if r = ap_range s then s else ap_fetch (s\<lparr>ap_range := r\<rparr>))"
| "ap_step s (AP_View v) = (if v = ap_view s then s else ap_fetch (s\<lparr>ap_view := v\<rparr>))"
| "ap_step s AP_Tick = ap_fetch s"
| "ap_step s (AP_Resp q r) =
     (if q \<in> set (ap_pending s) \<and> aresp_matches q r then ap_settle q (ap_on_response r s) else s)"
| "ap_step s (AP_Fail q) = (if q \<in> set (ap_pending s) then ap_settle q s else s)"

definition ap_run :: "ap_state \<Rightarrow> ap_event list \<Rightarrow> ap_state" where
  "ap_run s evs = foldl ap_step s evs"

inductive ap_reach :: "ap_state \<Rightarrow> bool" where
  ap_reach_mount: "ap_reach ap_mount"
| ap_reach_step: "ap_reach s \<Longrightarrow> ap_reach (ap_step s ev)"

text \<open>What the page renders (lines 147--537): the loading text, the panel of the active
  view when its data is there (whatever status it came with), or the no-data text.\<close>

datatype panel =
    Panel_Loading
  | Panel_Dashboard dashboard_response
  | Panel_Leads leads_response
  | Panel_Trends trends_response
  | Panel_No_Data

definition ap_panel :: "ap_state \<Rightarrow> panel" where
  "ap_panel s =
     (if ap_loading s then Panel_Loading
      else case (ap_view s, ap_dashboard s, ap_leads s, ap_trends s) of
             (View_Dashboard, Some d, _, _) \<Rightarrow> Panel_Dashboard d
           | (View_Leads, _, Some l, _) \<Rightarrow> Panel_Leads l
           | (View_Trends, _, _, Some t) \<Rightarrow> Panel_Trends t
           | _ \<Rightarrow> Panel_No_Data)"

text \<open>The widths of the topic and product bars (lines 246--276 and 293--323): the
  first eight entries, each as a percentage of the first entry's count.\<close>

definition bar_widths :: "('k \<times> nat) list \<Rightarrow> real list" where
  "bar_widths xs = map (\<lambda>x. real (snd x) / real (snd (hd xs)) * 100) (take 8 xs)"

text \<open>The heights of the volume bars (lines 472--474): each count as a percentage of
  \<open>Math.max\<close> of the counts.\<close>

definition volume_heights :: "trend_point list \<Rightarrow> real list" where
  "volume_heights ps =
     (let m = fold max (map ts_conversation_count ps) 0
      in map (\<lambda>p. real (ts_conversation_count p) / real m * 100) ps)"

text \<open>The query of the trends request (line 27): \<open>period=daily&days=${days}\<close>.\<close>

definition trends_params :: "int \<Rightarrow> string option \<times> string option" where
  "trends_params d = (Some ''daily'', Some (js_int_text d))"

definition ap_inv :: "ap_state \<Rightarrow> bool" where
  "ap_inv s \<longleftrightarrow> (ap_pending s = [] \<longrightarrow> \<not> ap_loading s)
     \<and> (\<forall>n. AReq_Trends n \<in> set (ap_pending s) \<longrightarrow> n \<in> {7, 30, 90})"

lemma ap_inv_fetch: "ap_inv s \<Longrightarrow> ap_inv (ap_fetch s)"
  by (cases "ap_view s") (auto simp: ap_inv_def ap_fetch_def range_days_def)

lemma ap_inv_settle: "ap_inv s \<Longrightarrow> ap_inv (ap_settle q s)"
  by (auto simp: ap_inv_def ap_settle_def dest: in_set_remove1_in)

lemma ap_inv_on_response: "ap_inv s \<Longrightarrow> ap_inv (ap_on_response r s)"
  by (cases r) (simp_all add: ap_inv_def)

lemma ap_inv_step: "ap_inv s \<Longrightarrow> ap_inv (ap_step s ev)"
proof (cases ev)
  case (AP_Range r)
  assume "ap_inv s"
  then have "ap_inv (s\<lparr>ap_range := r\<rparr>)" by (simp add: ap_inv_def)
  then show ?thesis using AP_Range \<open>ap_inv s\<close> by (simp add: ap_inv_fetch)
next
  case (AP_View v)
  assume "ap_inv s"
  then have "ap_inv (s\<lparr>ap_view := v\<rparr>)" by (simp add: ap_inv_def)
  then show ?thesis using AP_View \<open>ap_inv s\<close> by (simp add: ap_inv_fetch)
qed (simp_all add: ap_inv_fetch ap_inv_settle ap_inv_on_response)

text \<open>C14: Every state the analytics page reaches from its mount has a request in
  flight whenever it shows the loading text, and asks the trends route only for 7,
  30 or 90 days.\<close>

lemma ap_reach_inv: "ap_reach s \<Longrightarrow> ap_inv s"
  by (induction rule: ap_reach.induct)
     (simp_all add: ap_inv_step ap_mount_def ap_inv_fetch, simp add: ap_inv_def ap_fetch_def ap_init_def)

lemma bar_widths_bounds:
  assumes "sorted_wrt (\<lambda>x y. snd y \<le> snd x) xs" and "\<forall>x \<in> set xs. 0 < snd x"
  shows "\<forall>w \<in> set (bar_widths xs). 0 < w \<and> w \<le> 100"
proof
  fix w assume "w \<in> set (bar_widths xs)"
  then obtain x where x: "x \<in> set xs" and w: "w = real (snd x) / real (snd (hd xs)) * 100"
    by (auto simp: bar_widths_def dest: in_set_takeD)
  have "snd x \<le> snd (hd xs)" by (rule sorted_wrt_desc_hd [OF assms(1) x])
  moreover have "0 < snd x" using assms(2) x by blast
  ultimately show "0 < w \<and> w \<le> 100" by (simp add: w divide_le_eq)
qed

text \<open>C30: The topic bars the page draws for a dashboard answer are each wider than 0
  and at most 100 percent of the row.\<close>

lemma dashboard_topic_bars:
  assumes "dashboard_get rg (dashboard_warehouse now table) = Dash_Ok b"
  shows "\<forall>w \<in> set (bar_widths (db_top_topics b)). 0 < w \<and> w \<le> 100"
proof -
  let ?g = "group_count id (concat (map c_topics (dashboard_window rg now table)))"
  have b: "db_top_topics b = take 10 (order_desc snd ?g)"
    using assms by (auto simp: dashboard_get_warehouse top_topics_query_def)
  have "sorted_wrt (\<lambda>x y. snd y \<le> snd x) (take 10 (order_desc snd ?g))" by (rule take_order_desc_sorted)
  moreover have "\<forall>x \<in> set (take 10 (order_desc snd ?g)). 0 < snd x"
  proof
    fix x assume "x \<in> set (take 10 (order_desc snd ?g))"
    then have "x \<in> set ?g" by (rule take_order_desc_member)
    then show "0 < snd x" by (metis group_count_pos prod.collapse)
  qed
  ultimately show ?thesis unfolding b by (rule bar_widths_bounds)
qed

lemma volume_heights_bounds:
  assumes "\<forall>p \<in> set ps. 0 < ts_conversation_count p"
  shows "\<forall>h \<in> set (volume_heights ps). 0 < h \<and> h \<le> 100"
proof
  let ?m = "fold max (map ts_conversation_count ps) 0"
  fix h assume "h \<in> set (volume_heights ps)"
  then obtain p where p: "p \<in> set ps" and h: "h = real (ts_conversation_count p) / real ?m * 100"
    by (auto simp: volume_heights_def Let_def)
  have "ts_conversation_count p \<le> ?m" using fold_max_ge [of 0 "map ts_conversation_count ps"] p by auto
  moreover have "0 < ts_conversation_count p" using assms p by blast
  ultimately show "0 < h \<and> h \<le> 100" by (simp add: h divide_le_eq)
qed

text \<open>C31: The volume bars the page draws for a trends answer are each higher than 0
  and at most 100 percent of the chart.\<close>

lemma trends_volume_bars:
  assumes "trends_get period_p days_p (trends_warehouse now table) = Trends_Ok b"
  shows "\<forall>h \<in> set (volume_heights (tb_time_series b)). 0 < h \<and> h \<le> 100"
proof -
  have "parse_int (param_or days_p ''30'') \<noteq> None"
  proof
    assume "parse_int (param_or days_p ''30'') = None"
    then have "trends_get period_p days_p (trends_warehouse now table) = Trends_Error ''invalid INTERVAL''"
      by (simp add: trends_get_def trends_warehouse_def)
    then show False using assms by simp
  qed
  then obtain d where d: "parse_int (param_or days_p ''30'') = Some d" by blast
  let ?p = "trend_period_of (param_or period_p ''daily'')"
  have "tb_time_series b = map trend_point_of (time_series_cte ?p (trend_window now d table))"
    using assms by (auto simp: trends_get_warehouse [OF d] Let_def)
  moreover have "\<forall>x \<in> set (time_series_cte ?p (trend_window now d table)). 0 < ts_conversation_count (snd x)"
    using time_series_cte_props [of ?p "trend_window now d table"] by auto
  ultimately show ?thesis by (intro volume_heights_bounds) auto
qed

text \<open>C32: The trends route reads back the request the page sends for a range: it
  answers a daily series over the 7, 30 or 90 days the page chose, never the error
  of an unreadable day count.\<close>

lemma analytics_trends_request:
  "\<exists>b. trends_get (fst (trends_params (range_days r))) (snd (trends_params (range_days r)))
          (trends_warehouse now table) = Trends_Ok b
       \<and> tb_period b = ''daily'' \<and> tb_days b = Some (range_days r) \<and> range_days r \<in> {7, 30, 90}"
proof -
  have "js_int_text (range_days r) \<noteq> []"
    using parse_int_js_int_text [of "range_days r"] by (auto simp: parse_int_def)
  then have d: "parse_int (param_or (Some (js_int_text (range_days r))) ''30'') = Some (range_days r)"
    by (simp add: param_or_def parse_int_js_int_text)
  have "range_days r \<in> {7, 30, 90}" by (simp add: range_days_def)
  then show ?thesis by (simp add: trends_params_def trends_get_warehouse [OF d] Let_def param_or_def js_truthy_def)
qed

lemma ap_reach_inv_witness:
  "\<not> ap_loading (ap_step ap_mount (AP_Fail (AReq_Dashboard ''today'')))"
proof -
  have "ap_inv (ap_step ap_mount (AP_Fail (AReq_Dashboard ''today'')))"
    by (rule ap_reach_inv) (intro ap_reach_step ap_reach_mount)
  moreover have "ap_pending (ap_step ap_mount (AP_Fail (AReq_Dashboard ''today''))) = []"
    by (simp add: ap_mount_def ap_fetch_def ap_init_def ap_settle_def)
  ultimately show ?thesis by (simp add: ap_inv_def)
qed

lemma dashboard_topic_bars_witness:
  "case dashboard_get (Some ''today'') (dashboard_warehouse 10000 demo_table) of
     Dash_Ok b \<Rightarrow> bar_widths (db_top_topics b) = [100, 50] \<and> 0 < last (bar_widths (db_top_topics b))
   | _ \<Rightarrow> False"
proof -
  obtain b where b: "dashboard_get (Some ''today'') (dashboard_warehouse 10000 demo_table) = Dash_Ok b"
    by (simp add: dashboard_get_warehouse)
  have t: "db_top_topics b = [(''wifi'', 2), (''bluetooth'', 1)]"
    using b by (auto simp: dashboard_get_warehouse demo_window_today top_topics_query_def demo_row_def sql_simps)
  have "bar_widths (db_top_topics b) = [100, 50]" by (simp add: t bar_widths_def)
  then show ?thesis using dashboard_topic_bars [OF b] b by simp
qed

lemma volume_heights_counts:
  "volume_heights ps =
     map (\<lambda>c. real c / real (fold max (map ts_conversation_count ps) 0) * 100) (map ts_conversation_count ps)"
  by (simp add: volume_heights_def Let_def)

lemma trends_volume_bars_witness:
  "case trends_get (Some ''daily'') None (trends_warehouse 100000 demo_table) of
     Trends_Ok b \<Rightarrow> volume_heights (tb_time_series b) = [100, 50]
   | _ \<Rightarrow> False"
proof -
  obtain b where b: "trends_get (Some ''daily'') None (trends_warehouse 100000 demo_table) = Trends_Ok b"
    by (simp add: trends_get_warehouse [OF demo_trends_days] Let_def)
  have tsb: "tb_time_series b = map trend_point_of (time_series_cte Daily (trend_window 100000 30 demo_table))"
    using b by (auto simp: trends_get_warehouse [OF demo_trends_days] Let_def trend_period_of_def param_or_def)
  have "map ts_conversation_count (tb_time_series b) = [2, 1]"
    by (simp add: tsb demo_table_def demo_row_def time_series_cte_def trend_window_def bucket_stats_def
        sql_simps js_simps)
  then have "volume_heights (tb_time_series b) = [100, 50]" by (simp add: volume_heights_counts)
  then show ?thesis using trends_volume_bars [OF b] b by simp
qed

text \<open>A dashboard response is shown whatever range it was asked for: after a switch from
  today to week, a late answer for today replaces the week's.\<close>

lemma ap_stale_dashboard:
  "ap_range (ap_run ap_mount [AP_Range ''week'', AP_Resp (AReq_Dashboard ''week'') (AR_Dashboard dw),
                              AP_Resp (AReq_Dashboard ''today'') (AR_Dashboard dt)]) = ''week''
   \<and> ap_panel (ap_run ap_mount [AP_Range ''week'', AP_Resp (AReq_Dashboard ''week'') (AR_Dashboard dw),
                              AP_Resp (AReq_Dashboard ''today'') (AR_Dashboard dt)]) = Panel_Dashboard dt"
  by (simp add: ap_run_def ap_mount_def ap_fetch_def ap_init_def ap_settle_def ap_panel_def)

text \<open>The first answer ends the loading text while another request is in flight.\<close>

lemma ap_loading_early:
  "ap_pending (ap_run ap_mount [AP_Range ''week'', AP_Resp (AReq_Dashboard ''week'') (AR_Dashboard dw)])
     = [AReq_Dashboard ''today'']
   \<and> ap_panel (ap_run ap_mount [AP_Range ''week'', AP_Resp (AReq_Dashboard ''week'') (AR_Dashboard dw)])
     = Panel_Dashboard dw"
  by (simp add: ap_run_def ap_mount_def ap_fetch_def ap_init_def ap_settle_def ap_panel_def)

end
