(* ===== verification/Analytics_View.thy ===== *)
theory Analytics_View
  imports Analytics_Page
begin

text \<open>
  What the analytics page (\<open>src/app/analytics/page.js\<close>) renders in its dashboard
  panel (lines 151--364) from the dashboard route's answer: the metric cards, the
  top-topic and top-product rows and the issue-category rows. \<open>Number.prototype.
  toLocaleString\<close> is the parameter \<open>loc\<close> and \<open>String\<close> of a non-integer number the
  parameter \<open>num\<close>; an integer is rendered by its decimal digits. A failed render
  (\<open>null.replace\<close> on a NULL issue category) is \<open>None\<close>.
\<close>

definition js_nat_text :: "nat \<Rightarrow> string" where
  "js_nat_text n = js_int_text (int n)"

text \<open>\<open>formatNumber\<close> and \<open>formatCurrency\<close> (lines 43--51) on a value that may be
  \<open>undefined\<close> (\<open>None\<close>).\<close>

definition format_number :: "(real \<Rightarrow> string) \<Rightarrow> real option \<Rightarrow> string" where
  "format_number loc x = (case x of Some v \<Rightarrow> if v = 0 then ''0'' else loc v | None \<Rightarrow> ''0'')"

definition format_currency :: "(real \<Rightarrow> string) \<Rightarrow> real option \<Rightarrow> string" where
  "format_currency loc x = (case x of Some v \<Rightarrow> if v = 0 then ''$0'' else ''$'' @ loc v | None \<Rightarrow> ''$0'')"

text \<open>\<open>x ? x.toFixed(d) : z\<close>, and \<open>x || 0\<close> rendered.\<close>

definition fixed_or :: "nat \<Rightarrow> string \<Rightarrow> real option \<Rightarrow> string" where
  "fixed_or d z x = (case x of Some v \<Rightarrow> if v = 0 then z else js_to_fixed d v | None \<Rightarrow> z)"

definition num_or_zero :: "(real \<Rightarrow> string) \<Rightarrow> real option \<Rightarrow> string" where
  "num_or_zero num x = (case x of Some v \<Rightarrow> if v = 0 then ''0'' else num v | None \<Rightarrow> ''0'')"

definition range_label :: "string \<Rightarrow> string" where
  "range_label r = (if r = ''today'' then ''Today'' else if r = ''week'' then ''Last 7 days'' else ''Last 30 days'')"

text \<open>\<open>s.replace(/_/g, ' ').toUpperCase()\<close> on ASCII text.\<close>

definition to_upper :: "char \<Rightarrow> char" where
  "to_upper c = (let n = (of_char c :: nat) in if 97 \<le> n \<and> n \<le> 122 then char_of (n - 32) else c)"

definition category_text :: "string \<Rightarrow> string" where
  "category_text s = map (\<lambda>c. if c = CHR ''_'' then CHR '' '' else to_upper c) s"

record dash_cards =
  dc_total :: string
  dc_range :: string
  dc_avg_sentiment :: string
  dc_positive :: string
  dc_negative :: string
  dc_resolution :: string
  dc_resolved :: string
  dc_satisfaction :: string
  dc_satisfied :: string
  dc_leads :: string
  dc_avg_score :: string
  dc_value :: string

text \<open>The cards read \<open>dashboardData.metrics?.x\<close>: \<open>metrics\<close> is \<open>null\<close> in the error
  answer (\<open>None\<close>), so every card shows its zero.\<close>

definition cards_of :: "(real \<Rightarrow> string) \<Rightarrow> (real \<Rightarrow> string) \<Rightarrow> string \<Rightarrow> dash_metrics option \<Rightarrow> dash_cards" where
  "cards_of loc num rg m =
     \<lparr>dc_total = format_number loc (map_option (real \<circ> total_conversations) m),
      dc_range = range_label rg,
      dc_avg_sentiment = fixed_or 2 ''0.00'' (Option.bind m avg_sentiment),
      dc_positive = (case m of Some x \<Rightarrow> js_nat_text (positive_count x) | None \<Rightarrow> ''0''),
      dc_negative = (case m of Some x \<Rightarrow> js_nat_text (negative_count x) | None \<Rightarrow> ''0''),
      dc_resolution = num_or_zero num (Option.bind m resolution_rate) @ ''%'',
      dc_resolved = format_number loc (map_option (real \<circ> resolved_count) m),
      dc_satisfaction = num_or_zero num (Option.bind m satisfaction_rate) @ ''%'',
      dc_satisfied = format_number loc (map_option (real \<circ> satisfied_count) m),
      dc_leads = format_number loc (map_option (real \<circ> total_leads) m),
      dc_avg_score = fixed_or 0 ''0'' (Option.bind m avg_lead_score),
      dc_value = format_currency loc (Option.bind m total_opportunity_value)\<rparr>"

text \<open>The metrics of the empty-window answer (lines 109--122): zeros, and no rates.\<close>

definition zero_metrics :: dash_metrics where
  "zero_metrics =
     \<lparr>total_conversations = 0, avg_sentiment = Some 0, avg_duration = None, positive_count = 0,
      neutral_count = 0, negative_count = 0, resolved_count = 0, unresolved_count = 0,
      satisfied_count = 0, dissatisfied_count = 0, total_leads = 0, avg_lead_score = Some 0,
      total_opportunity_value = Some 0, resolution_rate = None, satisfaction_rate = None,
      avg_duration_minutes = 0\<rparr>"

record dash_panel =
  dp_cards :: dash_cards
  dp_topics :: "(string \<times> nat \<times> real) list"
  dp_products :: "(string \<times> nat \<times> real) list"
  dp_issues :: "(string \<times> string \<times> string) list"

text \<open>A ranked list (lines 246--335): the first eight entries with their bar widths.\<close>

definition ranked_rows :: "(string \<times> nat) list \<Rightarrow> (string \<times> nat \<times> real) list" where
  "ranked_rows xs = map2 (\<lambda>x w. (fst x, snd x, w)) (take 8 xs) (bar_widths xs)"

text \<open>An issue row (lines 342--362); a NULL category makes \<open>replace\<close> throw.\<close>

definition issue_row :: "string option \<times> nat \<times> real option \<Rightarrow> (string \<times> string \<times> string) option" where
  "issue_row x =
     (case x of (Some k, c, a) \<Rightarrow> Some (category_text k, js_nat_text c, fixed_or 2 ''0.00'' a)
      | (None, c, a) \<Rightarrow> None)"

definition dashboard_panel ::
  "(real \<Rightarrow> string) \<Rightarrow> (real \<Rightarrow> string) \<Rightarrow> string \<Rightarrow> dashboard_response \<Rightarrow> dash_panel option" where
  "dashboard_panel loc num rg d =
     (case d of
        Dash_Ok b \<Rightarrow>
          map_option (\<lambda>issues. \<lparr>dp_cards = cards_of loc num rg (Some (db_metrics b)),
                                dp_topics = ranked_rows (db_top_topics b),
                                dp_products = ranked_rows (db_top_products b), dp_issues = issues\<rparr>)
            (those (map issue_row (db_issue_distribution b)))
      | Dash_Empty r \<Rightarrow> Some \<lparr>dp_cards = cards_of loc num rg (Some zero_metrics), dp_topics = [],
                                dp_products = [], dp_issues = []\<rparr>
      | Dash_Error e \<Rightarrow> Some \<lparr>dp_cards = cards_of loc num rg None, dp_topics = [],
                                dp_products = [], dp_issues = []\<rparr>)"

lemma those_map_Some_iff: "those (map f xs) \<noteq> None \<longleftrightarrow> (\<forall>x \<in> set xs. f x \<noteq> None)"
  by (induction xs) (auto split: option.splits)

lemma issue_distribution_keys: "fst ` set (issue_distribution_query rs) = c_issue_category ` set rs"
proof -
  have "fst ` set (issue_distribution_query rs) = fst ` set (group_count c_issue_category rs)"
    by (force simp: issue_distribution_query_def)
  also have "\<dots> = set (map fst (group_count c_issue_category rs))" by simp
  also have "\<dots> = c_issue_category ` set rs" by (simp only: group_count_keys) simp
  finally show ?thesis .
qed

lemma issue_row_None: "issue_row x = None \<longleftrightarrow> fst x = None"
  by (auto simp: issue_row_def split: prod.splits option.splits)

text \<open>C16: The dashboard panel of the analytics page renders a dashboard answer exactly
  when no conversation of the window lacks an issue category: a NULL category is
  listed by the route and makes the page's \<open>replace\<close> throw.\<close>

lemma dashboard_panel_renders:
  "dashboard_panel loc num rg' (dashboard_get rg (dashboard_warehouse now table)) \<noteq> None
   \<longleftrightarrow> (\<forall>r \<in> set (dashboard_window rg now table). c_issue_category r \<noteq> None)"
proof -
  have "dashboard_panel loc num rg' (dashboard_get rg (dashboard_warehouse now table)) \<noteq> None
      \<longleftrightarrow> (\<forall>x \<in> set (issue_distribution_query (dashboard_window rg now table)). fst x \<noteq> None)"
    by (simp add: dashboard_get_warehouse dashboard_panel_def those_map_Some_iff issue_row_None del: not_None_eq)
  also have "\<dots> \<longleftrightarrow> None \<notin> fst ` set (issue_distribution_query (dashboard_window rg now table))" by force
  also have "\<dots> \<longleftrightarrow> (\<forall>r \<in> set (dashboard_window rg now table). c_issue_category r \<noteq> None)"
    by (simp add: issue_distribution_keys) force
  finally show ?thesis .
qed

text \<open>The error answer (\<open>metrics: null\<close>) is rendered as an all-zero dashboard.\<close>

lemma dashboard_panel_error:
  "dashboard_panel loc num rg (Dash_Error e) = Some p \<Longrightarrow>
     dc_total (dp_cards p) = ''0'' \<and> dc_resolution (dp_cards p) = ''0%'' \<and> dc_avg_sentiment (dp_cards p) = ''0.00''
     \<and> dc_value (dp_cards p) = ''$0'' \<and> dp_issues p = []"
  by (auto simp: dashboard_panel_def cards_of_def format_number_def num_or_zero_def fixed_or_def format_currency_def)


lemma dashboard_panel_renders_witness:
  "dashboard_panel (\<lambda>_. ''n'') (\<lambda>_. ''n'') ''today''
     (dashboard_get (Some ''today'') (dashboard_warehouse 10000 demo_table)) \<noteq> None
   \<and> dashboard_panel (\<lambda>_. ''n'') (\<lambda>_. ''n'') ''today''
     (dashboard_get (Some ''today'') (dashboard_warehouse 10000
        [(demo_row ''s1'' 3600 None None [])\<lparr>c_issue_category := None\<rparr>])) = None"
proof -
  have w: "dashboard_window (Some ''today'') 10000 [(demo_row ''s1'' 3600 None None [])\<lparr>c_issue_category := None\<rparr>]
      = [(demo_row ''s1'' 3600 None None [])\<lparr>c_issue_category := None\<rparr>]"
    by (simp add: dashboard_window_def demo_row_def sql_simps js_simps dashboard_time_filter_def in_window_def)
  have a: "\<forall>r \<in> set (dashboard_window (Some ''today'') 10000 demo_table). c_issue_category r \<noteq> None"
    by (simp add: demo_window_today demo_row_def)
  have b: "\<not> (\<forall>r \<in> set (dashboard_window (Some ''today'') 10000
      [(demo_row ''s1'' 3600 None None [])\<lparr>c_issue_category := None\<rparr>]). c_issue_category r \<noteq> None)"
    by (simp only: w) simp
  show ?thesis
    using dashboard_panel_renders [of "\<lambda>_. ''n''" "\<lambda>_. ''n''" "''today''" "Some ''today''" 10000 demo_table] a
      dashboard_panel_renders [of "\<lambda>_. ''n''" "\<lambda>_. ''n''" "''today''" "Some ''today''" 10000
        "[(demo_row ''s1'' 3600 None None [])\<lparr>c_issue_category := None\<rparr>]"] b
    by blast
qed


end
